theory Spec2Isabelle
  imports Complex_Main "HOL-Library.Log_Nat"
begin

section \<open>Conventions\<close>

text \<open>
  The TypeScript sources compute with the type \<^verbatim>\<open>number\<close>, the binary64 format of
  IEEE 754.  Two readings of its arithmetic are used.

  In the exact reading a number is a \<^typ>\<open>real\<close> and the operations are the exact ones.
  It is used where a property restates the expressions the code computes, or is decided
  far from any rounding error: the settlement of trades, the rejection of a trade, the
  predictions of the feeds, the trade momentum, the depth of the order book and the
  scores of the strategy.

  In the binary64 reading every arithmetic operation of the source is followed by the
  rounding \<open>fl\<close> to the nearest binary64 value, and a decimal literal \<open>c\<close> of the source
  is \<open>fl c\<close>.  It is used where a property depends on the rounding: the position size
  and the accounting identity of the ledger; the definitions of the ledger in this reading
  carry the suffix 64.  The values NaN and Infinity are not represented in either
  reading, so an overflow is not modelled.

  Wall-clock readings (\<^verbatim>\<open>Date.now()\<close>, \<^verbatim>\<open>new Date()\<close>) are integers in milliseconds and are
  passed to every operation that reads the clock as the argument \<open>now\<close>.  Console output
  is not part of any state and is left out, except where a claim is about it.
\<close>

datatype outcome = Yes | No

datatype order_side = BUY | SELL

section \<open>Rounding to binary64\<close>

text \<open>
  Rounding to the nearest integer, the even one of the two when \<open>x\<close> lies half-way.
\<close>

definition roundHalfEven :: "real \<Rightarrow> int" where
  "roundHalfEven x =
     (let f = \<lfloor>x\<rfloor>; r = x - of_int f in
      if r < 1 / 2 then f else if r > 1 / 2 then f + 1 else if even f then f else f + 1)"

text \<open>The binary exponent \<open>e\<close> of a number other than 0: \<open>2 ^ e \<le> |x| < 2 ^ (e + 1)\<close>.\<close>

definition binExponent :: "real \<Rightarrow> int" where
  "binExponent x =
     (if 1 \<le> \<bar>x\<bar> then bitlen \<lfloor>\<bar>x\<bar>\<rfloor> - 1 else - bitlen (\<lceil>1 / \<bar>x\<bar>\<rceil> - 1))"

text \<open>
  The binary64 value nearest to \<open>x\<close>: the significand has 53 bits, the exponent is at
  least -1022 (below it the values are subnormal, with a fixed spacing), and a tie goes
  to the even significand.
\<close>

definition fl :: "real \<Rightarrow> real" where
  "fl x =
     (if x = 0 then 0
      else let e = max (binExponent x) (- 1022) - 52 in
           of_int (roundHalfEven (x / 2 powi e)) * 2 powi e)"

definition binScale :: "real \<Rightarrow> int" where
  "binScale x = max (binExponent x) (- 1022) - 52"

text \<open>A bound on the error of one rounding: half a unit in the last place.\<close>

definition roundingBound :: "real \<Rightarrow> real" where
  "roundingBound x = max (\<bar>x\<bar> / 2 ^ 53) (2 powi (- 1075))"

section \<open>Paper-trading ledger (class PaperTrader)\<close>

datatype trade_status = Open | Closed | Expired

record PaperTrade =
  pt_id :: string
  pt_market :: string
  marketQuestion :: string
  pt_outcome :: outcome
  entryPrice :: real
  entryTime :: int
  pt_size :: real
  cost :: real
  exitPrice :: "real option"
  exitTime :: "int option"
  pnl :: "real option"
  status :: trade_status
  closeReason :: "string option"

text \<open>The fields of a TradingSignal that the ledger reads, and the ones it carries along.\<close>

record TradingSignal =
  sig_market :: string
  sig_tokenId :: string
  sig_side :: order_side
  sig_outcome :: outcome
  sig_price :: real
  sig_size :: real
  sig_reason :: string
  sig_confidence :: real

record PaperTrader =
  trades :: "PaperTrade list"
  startingCapital :: real
  currentCapital :: real
  tradeIdCounter :: nat

text \<open>The constructor; its argument defaults to 100.\<close>

definition newPaperTrader :: "real \<Rightarrow> PaperTrader" where
  "newPaperTrader capital =
     \<lparr>trades = [], startingCapital = capital, currentCapital = capital, tradeIdCounter = 0\<rparr>"

text \<open>Decimal rendering of the trade counter, for the identifier \<^verbatim>\<open>PT-<n>\<close>.\<close>

definition digit_char :: "nat \<Rightarrow> char" where
  "digit_char d = char_of (48 + d)"

function string_of_nat :: "nat \<Rightarrow> string" where
  "string_of_nat n =
     (if n < 10 then [digit_char n] else string_of_nat (n div 10) @ [digit_char (n mod 10)])"
  by pat_completeness auto
termination
  by (relation "measure (\<lambda>n. n)") auto

declare string_of_nat.simps [simp del]

definition executeTrade ::
  "PaperTrader \<Rightarrow> TradingSignal \<Rightarrow> string \<Rightarrow> int \<Rightarrow> PaperTrade option \<times> PaperTrader" where
  "executeTrade s signal question now =
     (let c = sig_price signal * sig_size signal in
      if c > currentCapital s then (None, s)
      else
        let counter = tradeIdCounter s + 1;
            trade = \<lparr>pt_id = ''PT-'' @ string_of_nat counter,
                     pt_market = sig_market signal,
                     marketQuestion = question,
                     pt_outcome = sig_outcome signal,
                     entryPrice = sig_price signal,
                     entryTime = now,
                     pt_size = sig_size signal,
                     cost = c,
                     exitPrice = None, exitTime = None, pnl = None,
                     status = Open,
                     closeReason = None\<rparr>
        in (Some trade,
            s\<lparr>tradeIdCounter := counter,
              trades := trades s @ [trade],
              currentCapital := currentCapital s - c\<rparr>))"

text \<open>
  \<^verbatim>\<open>closeTrade\<close> looks the trade up with \<^verbatim>\<open>Array.find\<close>, which yields a reference to the
  first matching element, and then assigns to its fields.  The assignment through the
  reference is the replacement of that first matching element in the list.
\<close>

fun update_first :: "('a \<Rightarrow> bool) \<Rightarrow> 'a \<Rightarrow> 'a list \<Rightarrow> 'a list" where
  "update_first P y [] = []"
| "update_first P y (x # xs) = (if P x then y # xs else x # update_first P y xs)"

definition closePnl :: "PaperTrade \<Rightarrow> real \<Rightarrow> real" where
  "closePnl trade exit =
     (if exit \<ge> 0.99 then pt_size trade * (1 - entryPrice trade)
      else if exit \<le> 0.01 then - cost trade
      else pt_size trade * (exit - entryPrice trade))"

definition closeTrade :: "PaperTrader \<Rightarrow> string \<Rightarrow> real \<Rightarrow> string \<Rightarrow> int \<Rightarrow> PaperTrader" where
  "closeTrade s tradeId exit reason now =
     (case find (\<lambda>t. pt_id t = tradeId \<and> status t = Open) (trades s) of
        None \<Rightarrow> s
      | Some trade \<Rightarrow>
          let closed = trade\<lparr>exitPrice := Some exit,
                             exitTime := Some now,
                             status := Closed,
                             closeReason := Some reason,
                             pnl := Some (closePnl trade exit)\<rparr>
          in s\<lparr>trades := update_first (\<lambda>t. pt_id t = tradeId \<and> status t = Open) closed (trades s),
               currentCapital := currentCapital s + (cost closed + closePnl trade exit)\<rparr>)"

definition closeAllTrades :: "PaperTrader \<Rightarrow> outcome \<Rightarrow> int \<Rightarrow> PaperTrader" where
  "closeAllTrades s finalOutcome now =
     (let openTrades = filter (\<lambda>t. status t = Open) (trades s) in
      if length openTrades = 0 then s
      else foldl (\<lambda>s' trade.
                    closeTrade s' (pt_id trade)
                      (if pt_outcome trade = finalOutcome then 1 else 0) ''expired'' now)
             s openTrades)"

definition reset :: "PaperTrader \<Rightarrow> real option \<Rightarrow> PaperTrader" where
  "reset s newCapital =
     (let starting = (case newCapital of None \<Rightarrow> startingCapital s | Some c \<Rightarrow> c) in
      s\<lparr>trades := [], tradeIdCounter := 0, startingCapital := starting,
        currentCapital := starting\<rparr>)"

text \<open>
  Specification side of the settlement claim: what expiry settlement is said to do to one
  trade, and the amount it is said to credit for it.
\<close>

definition settle :: "outcome \<Rightarrow> int \<Rightarrow> PaperTrade \<Rightarrow> PaperTrade" where
  "settle finalOutcome now t =
     (if status t = Open then
        t\<lparr>exitPrice := Some (if pt_outcome t = finalOutcome then 1 else 0),
          exitTime := Some now,
          status := Closed,
          closeReason := Some ''expired'',
          pnl := Some (if pt_outcome t = finalOutcome
                       then pt_size t * (1 - entryPrice t) else - cost t)\<rparr>
      else t)"

definition settleCredit :: "outcome \<Rightarrow> PaperTrade \<Rightarrow> real" where
  "settleCredit finalOutcome t =
     cost t + (if pt_outcome t = finalOutcome then pt_size t * (1 - entryPrice t) else - cost t)"

text \<open>Specification side of the accounting identity.\<close>

definition pnlOf :: "PaperTrade \<Rightarrow> real" where
  "pnlOf t = (case pnl t of None \<Rightarrow> 0 | Some p \<Rightarrow> p)"

definition openCost :: "PaperTrade list \<Rightarrow> real" where
  "openCost ts = (\<Sum>t\<leftarrow>filter (\<lambda>t. status t = Open) ts. cost t)"

definition closedPnl :: "PaperTrade list \<Rightarrow> real" where
  "closedPnl ts = (\<Sum>t\<leftarrow>filter (\<lambda>t. status t = Closed) ts. pnlOf t)"

definition wellFormedTrade :: "PaperTrade \<Rightarrow> bool" where
  "wellFormedTrade t =
     (status t = Open \<and> exitPrice t = None \<and> exitTime t = None \<and> pnl t = None
      \<or> status t = Closed \<and> pnl t \<noteq> None)"

definition ledgerInv :: "PaperTrader \<Rightarrow> bool" where
  "ledgerInv s =
     (list_all wellFormedTrade (trades s) \<and>
      currentCapital s = startingCapital s - openCost (trades s) + closedPnl (trades s))"

text \<open>The signal and the ledger states of the worked examples.\<close>

definition exampleSignal :: "real \<Rightarrow> real \<Rightarrow> TradingSignal" where
  "exampleSignal price sz =
     \<lparr>sig_market = ''0xcond'', sig_tokenId = ''tok-yes'', sig_side = BUY, sig_outcome = Yes,
      sig_price = price, sig_size = sz, sig_reason = ''Composite'', sig_confidence = 0.8\<rparr>"

definition exampleLedger :: PaperTrader where
  "exampleLedger = snd (executeTrade (newPaperTrader 100) (exampleSignal 0.52 10) ''BTC up?'' 0)"

subsection \<open>The ledger in the binary64 reading\<close>

text \<open>
  The same operations with every product, difference and sum of the source rounded.  The
  literals 0.99 and 0.01 of \<^verbatim>\<open>closeTrade\<close> are the binary64 values nearest to them; 1 and 0
  are binary64 values.
\<close>

definition executeTrade64 ::
  "PaperTrader \<Rightarrow> TradingSignal \<Rightarrow> string \<Rightarrow> int \<Rightarrow> PaperTrade option \<times> PaperTrader" where
  "executeTrade64 s signal question now =
     (let c = fl (sig_price signal * sig_size signal) in
      if c > currentCapital s then (None, s)
      else
        let counter = tradeIdCounter s + 1;
            trade = \<lparr>pt_id = ''PT-'' @ string_of_nat counter,
                     pt_market = sig_market signal,
                     marketQuestion = question,
                     pt_outcome = sig_outcome signal,
                     entryPrice = sig_price signal,
                     entryTime = now,
                     pt_size = sig_size signal,
                     cost = c,
                     exitPrice = None, exitTime = None, pnl = None,
                     status = Open,
                     closeReason = None\<rparr>
        in (Some trade,
            s\<lparr>tradeIdCounter := counter,
              trades := trades s @ [trade],
              currentCapital := fl (currentCapital s - c)\<rparr>))"

definition closePnl64 :: "PaperTrade \<Rightarrow> real \<Rightarrow> real" where
  "closePnl64 trade exit =
     (if exit \<ge> fl 0.99 then fl (pt_size trade * fl (1 - entryPrice trade))
      else if exit \<le> fl 0.01 then - cost trade
      else fl (pt_size trade * fl (exit - entryPrice trade)))"

definition closeTrade64 :: "PaperTrader \<Rightarrow> string \<Rightarrow> real \<Rightarrow> string \<Rightarrow> int \<Rightarrow> PaperTrader" where
  "closeTrade64 s tradeId exit why now =
     (case find (\<lambda>t. pt_id t = tradeId \<and> status t = Open) (trades s) of
        None \<Rightarrow> s
      | Some trade \<Rightarrow>
          let closed = trade\<lparr>exitPrice := Some exit,
                             exitTime := Some now,
                             status := Closed,
                             closeReason := Some why,
                             pnl := Some (closePnl64 trade exit)\<rparr>
          in s\<lparr>trades := update_first (\<lambda>t. pt_id t = tradeId \<and> status t = Open) closed (trades s),
               currentCapital :=
                 fl (currentCapital s + fl (cost closed + closePnl64 trade exit))\<rparr>)"

definition closeAllTrades64 :: "PaperTrader \<Rightarrow> outcome \<Rightarrow> int \<Rightarrow> PaperTrader" where
  "closeAllTrades64 s finalOutcome now =
     (let openTrades = filter (\<lambda>t. status t = Open) (trades s) in
      if length openTrades = 0 then s
      else foldl (\<lambda>s' trade.
                    closeTrade64 s' (pt_id trade)
                      (if pt_outcome trade = finalOutcome then 1 else 0) ''expired'' now)
             s openTrades)"

text \<open>
  Specification side of the accounting identity in the binary64 reading: the amount by
  which the identity fails in a ledger state, the sums taken exactly.
\<close>

definition defect :: "PaperTrader \<Rightarrow> real" where
  "defect s = currentCapital s - (startingCapital s - openCost (trades s) + closedPnl (trades s))"

text \<open>
  What expiry settlement does to one trade and, trade after trade, to the capital in the
  binary64 reading; and the sum of the rounding bounds of the two additions it makes for
  each trade.
\<close>

definition settlePnl64 :: "outcome \<Rightarrow> PaperTrade \<Rightarrow> real" where
  "settlePnl64 finalOutcome t =
     (if pt_outcome t = finalOutcome then fl (pt_size t * fl (1 - entryPrice t)) else - cost t)"

definition settle64 :: "outcome \<Rightarrow> int \<Rightarrow> PaperTrade \<Rightarrow> PaperTrade" where
  "settle64 finalOutcome now t =
     (if status t = Open then
        t\<lparr>exitPrice := Some (if pt_outcome t = finalOutcome then 1 else 0),
          exitTime := Some now,
          status := Closed,
          closeReason := Some ''expired'',
          pnl := Some (settlePnl64 finalOutcome t)\<rparr>
      else t)"

fun settleCapital :: "outcome \<Rightarrow> real \<Rightarrow> PaperTrade list \<Rightarrow> real" where
  "settleCapital fo c [] = c"
| "settleCapital fo c (t # ts) = settleCapital fo (fl (c + fl (cost t + settlePnl64 fo t))) ts"

fun settlementDrift :: "outcome \<Rightarrow> real \<Rightarrow> PaperTrade list \<Rightarrow> real" where
  "settlementDrift fo c [] = 0"
| "settlementDrift fo c (t # ts) =
     roundingBound (cost t + settlePnl64 fo t)
     + roundingBound (c + fl (cost t + settlePnl64 fo t))
     + settlementDrift fo (fl (c + fl (cost t + settlePnl64 fo t))) ts"

text \<open>
  The ledger states of the worked examples in the binary64 reading: a signal at the
  price 0.1 (the binary64 value nearest to it) for the size 1, the ledger after one such
  trade from a capital of 100, the ledger after two of them, and the trade the first
  one records.
\<close>

definition fineSignal :: TradingSignal where
  "fineSignal = exampleSignal (fl 0.1) 1"

definition fineLedger :: PaperTrader where
  "fineLedger = snd (executeTrade64 (newPaperTrader 100) fineSignal ''BTC up?'' 0)"

definition fineLedger2 :: PaperTrader where
  "fineLedger2 = snd (executeTrade64 fineLedger fineSignal ''BTC up?'' 5)"

definition fineTrade :: PaperTrade where
  "fineTrade =
     \<lparr>pt_id = ''PT-'' @ string_of_nat 1, pt_market = ''0xcond'',
      marketQuestion = ''BTC up?'', pt_outcome = Yes, entryPrice = fl 0.1,
      entryTime = 0, pt_size = 1, cost = 3602879701896397 / 2 ^ 55, exitPrice = None,
      exitTime = None, pnl = None, status = Open, closeReason = None\<rparr>"

section \<open>Reference price feeds\<close>

datatype ready_state = CONNECTING | OPEN | CLOSING | CLOSED

datatype direction = UP | DOWN | NEUTRAL

record WindowChange =
  absolute :: real
  percent :: real

record Prediction =
  pred_direction :: direction
  pred_confidence :: real
  pred_change :: real

text \<open>A price-history entry is the pair (price, timestamp).\<close>

type_synonym price_point = "real \<times> int"

subsection \<open>Exchange feed (class BinanceBTCFeed)\<close>

record BinanceBTCFeed =
  bn_ws :: "ready_state option"
  bn_reconnectAttempts :: nat
  bn_currentPrice :: real
  bn_priceHistory :: "price_point list"
  bn_windowStartPrice :: "real option"
  bn_windowStartTime :: "int option"

text \<open>
  \<^verbatim>\<open>!this.windowStartPrice || !this.currentPrice\<close>: a number is falsy when it is 0 (or NaN),
  and \<^verbatim>\<open>null\<close> is falsy.
\<close>

definition Binance_getWindowChange :: "BinanceBTCFeed \<Rightarrow> WindowChange option" where
  "Binance_getWindowChange f =
     (case bn_windowStartPrice f of
        None \<Rightarrow> None
      | Some start \<Rightarrow>
          if start = 0 \<or> bn_currentPrice f = 0 then None
          else let a = bn_currentPrice f - start in
               Some \<lparr>absolute = a, percent = (a / start) * 100\<rparr>)"

definition Binance_getRecentMomentum :: "BinanceBTCFeed \<Rightarrow> int \<Rightarrow> real" where
  "Binance_getRecentMomentum f now =
     (let cutoff = now - 30000;
          recentPrices = filter (\<lambda>p. snd p > cutoff) (bn_priceHistory f) in
      if length recentPrices < 2 then 0
      else let first = fst (hd recentPrices); lastp = fst (last recentPrices) in
           ((lastp - first) / first) * 100)"

definition Binance_predictOutcome :: "BinanceBTCFeed \<Rightarrow> int \<Rightarrow> Prediction" where
  "Binance_predictOutcome f now =
     (case Binance_getWindowChange f of
        None \<Rightarrow> \<lparr>pred_direction = NEUTRAL, pred_confidence = 0, pred_change = 0\<rparr>
      | Some change \<Rightarrow>
          let absChange = \<bar>percent change\<bar>;
              confidence = min (absChange * 20) 0.95 in
          if absChange < 0.01 then
            \<lparr>pred_direction = NEUTRAL, pred_confidence = 0.1, pred_change = percent change\<rparr>
          else
            let dir = (if percent change > 0 then UP else DOWN);
                momentum = Binance_getRecentMomentum f now;
                confidence' =
                  (if (dir = UP \<and> momentum > 0) \<or> (dir = DOWN \<and> momentum < 0)
                   then min (confidence + 0.1) 0.95 else confidence)
            in \<lparr>pred_direction = dir, pred_confidence = confidence',
                pred_change = percent change\<rparr>)"

definition Binance_isConnected :: "BinanceBTCFeed \<Rightarrow> bool" where
  "Binance_isConnected f = (bn_ws f = Some OPEN)"

subsection \<open>Settlement-oracle feed (class ChainlinkBTCFeed)\<close>

record ChainlinkBTCFeed =
  cl_currentPrice :: real
  cl_priceHistory :: "price_point list"
  cl_windowStartPrice :: "real option"
  cl_windowStartTime :: "int option"
  cl_lastUpdateTime :: int
  cl_updateFrequency :: int

definition Chainlink_getWindowChange :: "ChainlinkBTCFeed \<Rightarrow> WindowChange option" where
  "Chainlink_getWindowChange f =
     (case cl_windowStartPrice f of
        None \<Rightarrow> None
      | Some start \<Rightarrow>
          if start = 0 \<or> cl_currentPrice f = 0 then None
          else let a = cl_currentPrice f - start in
               Some \<lparr>absolute = a, percent = (a / start) * 100\<rparr>)"

definition Chainlink_getRecentMomentum :: "ChainlinkBTCFeed \<Rightarrow> int \<Rightarrow> real" where
  "Chainlink_getRecentMomentum f now =
     (let cutoff = now - 30000;
          recentPrices = filter (\<lambda>p. snd p > cutoff) (cl_priceHistory f) in
      if length recentPrices < 2 then 0
      else let first = fst (hd recentPrices); lastp = fst (last recentPrices) in
           ((lastp - first) / first) * 100)"

text \<open>The oracle adapter's \<^verbatim>\<open>predictOutcome\<close> reads neither the clock nor the history.\<close>

definition Chainlink_predictOutcome :: "ChainlinkBTCFeed \<Rightarrow> Prediction" where
  "Chainlink_predictOutcome f =
     (case Chainlink_getWindowChange f of
        None \<Rightarrow> \<lparr>pred_direction = NEUTRAL, pred_confidence = 0, pred_change = 0\<rparr>
      | Some change \<Rightarrow>
          let absChange = \<bar>percent change\<bar> in
          if absChange < 0.005 then
            \<lparr>pred_direction = NEUTRAL, pred_confidence = 0.1, pred_change = percent change\<rparr>
          else
            let dir = (if percent change > 0 then UP else DOWN);
                confidence = min (absChange * 50) 0.98
            in \<lparr>pred_direction = dir, pred_confidence = confidence,
                pred_change = percent change\<rparr>)"

definition Chainlink_getTimeSinceLastUpdate :: "ChainlinkBTCFeed \<Rightarrow> int \<Rightarrow> int" where
  "Chainlink_getTimeSinceLastUpdate f now =
     (if cl_lastUpdateTime f = 0 then 0 else now - cl_lastUpdateTime f)"

definition Chainlink_isConnected :: "ChainlinkBTCFeed \<Rightarrow> int \<Rightarrow> bool" where
  "Chainlink_isConnected f now =
     (cl_currentPrice f > 0 \<and> Chainlink_getTimeSinceLastUpdate f now < 60000)"

text \<open>
  Feed states for the worked examples: a feed whose window opened at \<open>start\<close>, whose
  current price is \<open>cur\<close> and whose history is \<open>hist\<close>; the oracle feed was last updated
  at time 1000, the exchange socket is open.
\<close>

definition exampleBinance :: "real \<Rightarrow> real \<Rightarrow> price_point list \<Rightarrow> BinanceBTCFeed" where
  "exampleBinance start cur hist =
     \<lparr>bn_ws = Some OPEN, bn_reconnectAttempts = 0, bn_currentPrice = cur,
      bn_priceHistory = hist, bn_windowStartPrice = Some start, bn_windowStartTime = Some 0\<rparr>"

definition exampleChainlink :: "real \<Rightarrow> real \<Rightarrow> price_point list \<Rightarrow> ChainlinkBTCFeed" where
  "exampleChainlink start cur hist =
     \<lparr>cl_currentPrice = cur, cl_priceHistory = hist, cl_windowStartPrice = Some start,
      cl_windowStartTime = Some 0, cl_lastUpdateTime = 1000, cl_updateFrequency = 0\<rparr>"

text \<open>
  Specification side of the prediction claim: the short-term momentum agrees in sign with
  the window change.
\<close>

definition momentumAgrees :: "real \<Rightarrow> real \<Rightarrow> bool" where
  "momentumAgrees change momentum = (change > 0 \<and> momentum > 0 \<or> change < 0 \<and> momentum < 0)"

section \<open>Composite strategy scorer (class BTCUpdownStrategy)\<close>

text \<open>
  The rationale strings of the sources interpolate formatted numbers; the model keeps
  their fixed leading text only.
\<close>

record SignalScore =
  score :: real
  confidence :: real
  reason :: string

record StrategyWeights =
  w_timeDecay :: real
  w_orderbookImbalance :: real
  w_tradeMomentum :: real
  w_btcPriceMovement :: real
  w_priceInefficiency :: real
  w_feedComparison :: real

record StrategyConfig =
  weights :: StrategyWeights
  minConfidenceToTrade :: real
  minScoreToTrade :: real
  timeDecayActivationMinutes :: real
  kellyFraction :: real

definition DEFAULT_STRATEGY_CONFIG :: StrategyConfig where
  "DEFAULT_STRATEGY_CONFIG =
     \<lparr>weights = \<lparr>w_timeDecay = 0.35, w_orderbookImbalance = 0.18, w_tradeMomentum = 0.13,
                 w_btcPriceMovement = 0.18, w_priceInefficiency = 0.08,
                 w_feedComparison = 0.08\<rparr>,
      minConfidenceToTrade = 0.30,
      minScoreToTrade = 0.15,
      timeDecayActivationMinutes = 8,
      kellyFraction = 0.25\<rparr>"

datatype feed_direction = Up | Down | Flat

definition directionOf :: "real \<Rightarrow> feed_direction" where
  "directionOf p = (if p > 0 then Up else if p < 0 then Down else Flat)"

definition divergenceBps :: "WindowChange \<Rightarrow> WindowChange \<Rightarrow> real" where
  "divergenceBps chainlinkChange binanceChange =
     \<bar>percent chainlinkChange - percent binanceChange\<bar> * 10000"

definition analyzeFeedComparison ::
  "ChainlinkBTCFeed option \<Rightarrow> BinanceBTCFeed option \<Rightarrow> int \<Rightarrow> SignalScore" where
  "analyzeFeedComparison chainlinkFeed binanceFeed now =
     (let unavailable = \<lparr>score = 0, confidence = 0.1, reason = ''Chainlink feed unavailable''\<rparr>;
          single = \<lparr>score = 0, confidence = 0.5,
                    reason = ''Binance unavailable (single feed mode)''\<rparr> in
      case chainlinkFeed of
        None \<Rightarrow> unavailable
      | Some cl \<Rightarrow>
        if \<not> Chainlink_isConnected cl now then unavailable
        else
          case Chainlink_getWindowChange cl of
            None \<Rightarrow> \<lparr>score = 0, confidence = 0.1, reason = ''No Chainlink window data''\<rparr>
          | Some chainlinkChange \<Rightarrow>
            (case binanceFeed of
               None \<Rightarrow> single
             | Some bn \<Rightarrow>
               if \<not> Binance_isConnected bn then single
               else
                 case Binance_getWindowChange bn of
                   None \<Rightarrow> \<lparr>score = 0, confidence = 0.3, reason = ''No Binance window data''\<rparr>
                 | Some binanceChange \<Rightarrow>
                   let dBps = divergenceBps chainlinkChange binanceChange;
                       chainlinkDirection = directionOf (percent chainlinkChange);
                       binanceDirection = directionOf (percent binanceChange);
                       agreement = (chainlinkDirection = binanceDirection) in
                   if dBps > 5 then
                     \<lparr>score = 0, confidence = 0.05, reason = ''HIGH DIVERGENCE''\<rparr>
                   else if agreement \<and> dBps < 2 then
                     \<lparr>score = (if chainlinkDirection = Up then 0.15
                               else if chainlinkDirection = Down then - 0.15 else 0),
                      confidence = 0.8, reason = ''FEEDS AGREE''\<rparr>
                   else
                     let leadLag = percent binanceChange - percent chainlinkChange in
                     if \<bar>leadLag\<bar> > 0.0001 \<and> agreement then
                       \<lparr>score = (if leadLag > 0 then 0.1 else - 0.1),
                        confidence = 0.6, reason = ''Binance leads''\<rparr>
                     else \<lparr>score = 0, confidence = 0.4, reason = ''Feeds neutral''\<rparr>))"

text \<open>\<^verbatim>\<open>Math.round\<close> rounds to the nearest integer, a half upwards.\<close>

definition Math_round :: "real \<Rightarrow> real" where
  "Math_round x = of_int \<lfloor>x + 1 / 2\<rfloor>"

text \<open>
  \<^verbatim>\<open>calculatePositionSize\<close> in the binary64 reading.  The confidence, the price and the
  configured multiplier are binary64 values; \<^verbatim>\<open>Math.max\<close> and \<^verbatim>\<open>Math.min\<close> do not round, and
  \<^verbatim>\<open>Math.round\<close> yields an integer, which is a binary64 value in the range at hand.  The
  cap is the constant 100 of the source (\<^verbatim>\<open>maxSize\<close>); the configuration has no field for it.
\<close>

definition calculatePositionSize :: "StrategyConfig \<Rightarrow> SignalScore \<Rightarrow> real \<Rightarrow> real" where
  "calculatePositionSize cfg signal price =
     (let p = confidence signal;
          q = fl (1 - p);
          b = fl (fl (1 - price) / price);
          kelly = fl (fl (fl (p * b) - q) / b);
          adjustedKelly = max 0 (fl (kelly * kellyFraction cfg));
          maxSize = 100;
          sz = min maxSize (fl (adjustedKelly * maxSize))
      in fl (Math_round (fl (sz * 100)) / 100))"

text \<open>
  Specification side of the sizing claim: the size before rounding as the text gives it,
  in exact arithmetic, and the rounding to cents.
\<close>

definition kellySizeSpec :: "real \<Rightarrow> real \<Rightarrow> real \<Rightarrow> real \<Rightarrow> real" where
  "kellySizeSpec hardCap fraction p price =
     (let b = (1 - price) / price in
      min hardCap (max 0 (((p * b - (1 - p)) / b) * fraction) * hardCap))"

definition roundToCents :: "real \<Rightarrow> real" where
  "roundToCents x = Math_round (x * 100) / 100"

definition exampleScore :: "real \<Rightarrow> SignalScore" where
  "exampleScore c = \<lparr>score = 0.5, confidence = c, reason = ''Composite''\<rparr>"

text \<open>
  The two halves of \<^verbatim>\<open>calculatePositionSize\<close>, for the proofs: the Kelly fraction computed
  from the confidence and the price, and the size computed from the Kelly fraction.
\<close>

definition kellyOf :: "real \<Rightarrow> real \<Rightarrow> real" where
  "kellyOf p price =
     (let b = fl (fl (1 - price) / price) in fl (fl (fl (p * b) - fl (1 - p)) / b))"

definition sizeFromKelly :: "real \<Rightarrow> real \<Rightarrow> real" where
  "sizeFromKelly fraction kelly =
     fl (Math_round (fl (min 100 (fl (max 0 (fl (kelly * fraction)) * 100)) * 100)) / 100)"

section \<open>Rotating market tracker (class BTCUpdownTracker)\<close>

text \<open>
  Prices and sizes travel as decimal strings and are read with \<^verbatim>\<open>parseFloat\<close>; the
  records below hold the numbers read.  The opaque book hash and the set of update
  callbacks are left out.
\<close>

record BTCMarketInfo =
  mi_slug :: string
  mi_conditionId :: string
  mi_question :: string
  mi_endTime :: int
  mi_yesTokenId :: string
  mi_noTokenId :: string

record Trade =
  tr_id :: string
  tr_market :: string
  tr_asset_id :: string
  tr_side :: order_side
  tr_price :: real
  tr_size :: real
  tr_timestamp :: int

record TradeHistory =
  th_outcome :: outcome
  th_side :: order_side
  th_price :: real
  th_size :: real
  th_timestamp :: int
  th_volume :: real

record PriceLevel =
  lv_price :: real
  lv_size :: real

record Orderbook =
  ob_market :: string
  ob_asset_id :: string
  bids :: "PriceLevel list"
  asks :: "PriceLevel list"
  ob_timestamp :: int

record MarketState =
  ms_conditionId :: string
  ms_question :: string
  ms_endTime :: int
  ms_yesTokenId :: string
  ms_noTokenId :: string
  currentPrice_yes :: real
  currentPrice_no :: real
  orderbook_yes :: "Orderbook option"
  orderbook_no :: "Orderbook option"
  lastUpdate :: int

record BTCUpdownTracker =
  currentMarket :: "BTCMarketInfo option"
  marketState :: "MarketState option"
  tradeHistory :: "TradeHistory list"

definition maxTradeHistory :: nat where
  "maxTradeHistory = 100"

definition newTracker :: BTCUpdownTracker where
  "newTracker = \<lparr>currentMarket = None, marketState = None, tradeHistory = []\<rparr>"

definition tradeRecord :: "BTCMarketInfo \<Rightarrow> Trade \<Rightarrow> TradeHistory" where
  "tradeRecord m trade =
     (let isYes = (tr_market trade = mi_yesTokenId m \<or> tr_asset_id trade = mi_yesTokenId m) in
      \<lparr>th_outcome = (if isYes then Yes else No),
       th_side = tr_side trade,
       th_price = tr_price trade,
       th_size = tr_size trade,
       th_timestamp = tr_timestamp trade,
       th_volume = tr_price trade * tr_size trade\<rparr>)"

definition handleTrade :: "BTCUpdownTracker \<Rightarrow> Trade \<Rightarrow> BTCUpdownTracker" where
  "handleTrade t trade =
     (case currentMarket t of
        None \<Rightarrow> t
      | Some m \<Rightarrow>
          let isYes = (tr_market trade = mi_yesTokenId m \<or> tr_asset_id trade = mi_yesTokenId m);
              isNo = (tr_market trade = mi_noTokenId m \<or> tr_asset_id trade = mi_noTokenId m) in
          if \<not> isYes \<and> \<not> isNo then t
          else
            let pushed = tradeHistory t @ [tradeRecord m trade] in
            t\<lparr>tradeHistory :=
                (if length pushed > maxTradeHistory then tl pushed else pushed)\<rparr>)"

definition clearTradeHistory :: "BTCUpdownTracker \<Rightarrow> BTCUpdownTracker" where
  "clearTradeHistory t = t\<lparr>tradeHistory := []\<rparr>"

definition resetTracker :: "BTCUpdownTracker \<Rightarrow> BTCUpdownTracker" where
  "resetTracker t = t\<lparr>currentMarket := None, marketState := None, tradeHistory := []\<rparr>"

text \<open>
  Specification side of the history claim: a trade that names one of the two tokens of
  the market, and a tracker whose history is full.
\<close>

definition tradeForMarket :: "BTCMarketInfo \<Rightarrow> Trade \<Rightarrow> bool" where
  "tradeForMarket m trade =
     (tr_market trade = mi_yesTokenId m \<or> tr_asset_id trade = mi_yesTokenId m \<or>
      tr_market trade = mi_noTokenId m \<or> tr_asset_id trade = mi_noTokenId m)"

definition exampleMarket :: BTCMarketInfo where
  "exampleMarket =
     \<lparr>mi_slug = ''btc-updown-15m-1770199200'', mi_conditionId = ''0xcond'',
      mi_question = ''BTC up?'', mi_endTime = 900000, mi_yesTokenId = ''tok-yes'',
      mi_noTokenId = ''tok-no''\<rparr>"

definition exampleTrade :: "string \<Rightarrow> real \<Rightarrow> int \<Rightarrow> Trade" where
  "exampleTrade token sz ts =
     \<lparr>tr_id = ''t'', tr_market = ''0xcond'', tr_asset_id = token, tr_side = BUY,
      tr_price = 0.5, tr_size = sz, tr_timestamp = ts\<rparr>"

definition fullTracker :: BTCUpdownTracker where
  "fullTracker =
     \<lparr>currentMarket = Some exampleMarket, marketState = None,
      tradeHistory = tradeRecord exampleMarket (exampleTrade ''tok-yes'' 1 10)
                     # replicate 99 (tradeRecord exampleMarket (exampleTrade ''tok-no'' 2 20))\<rparr>"

record TradeMomentum =
  yesRatio :: real
  totalVolume :: real
  tradeCount :: nat

text \<open>The loop of \<^verbatim>\<open>getTradeMomentum\<close> carries the pair (yesVolume, noVolume).\<close>

definition addVolume :: "real \<times> real \<Rightarrow> TradeHistory \<Rightarrow> real \<times> real" where
  "addVolume acc trade =
     (let volume = th_volume trade; yesVolume = fst acc; noVolume = snd acc in
      if th_outcome trade = Yes then
        (if th_side trade = BUY then (yesVolume + volume, noVolume)
         else (yesVolume, noVolume + volume))
      else
        (if th_side trade = BUY then (yesVolume, noVolume + volume)
         else (yesVolume + volume, noVolume)))"

definition recentTrades :: "BTCUpdownTracker \<Rightarrow> int \<Rightarrow> int \<Rightarrow> TradeHistory list" where
  "recentTrades t lookbackMs now =
     (let cutoff = now - lookbackMs in filter (\<lambda>h. th_timestamp h > cutoff) (tradeHistory t))"

definition getTradeMomentum :: "BTCUpdownTracker \<Rightarrow> int \<Rightarrow> int \<Rightarrow> TradeMomentum" where
  "getTradeMomentum t lookbackMs now =
     (let recent = recentTrades t lookbackMs now in
      if length recent = 0 then \<lparr>yesRatio = 0.5, totalVolume = 0, tradeCount = 0\<rparr>
      else
        let vols = foldl addVolume (0, 0) recent;
            yesVolume = fst vols;
            noVolume = snd vols;
            total = yesVolume + noVolume
        in \<lparr>yesRatio = (if total > 0 then yesVolume / total else 0.5),
            totalVolume = total,
            tradeCount = length recent\<rparr>)"

text \<open>Specification side of the momentum claim: bullish and bearish volume.\<close>

definition isBullish :: "TradeHistory \<Rightarrow> bool" where
  "isBullish h = (th_outcome h = Yes \<and> th_side h = BUY \<or> th_outcome h = No \<and> th_side h = SELL)"

definition bullishVolume :: "TradeHistory list \<Rightarrow> real" where
  "bullishVolume hs = (\<Sum>h\<leftarrow>filter isBullish hs. th_volume h)"

definition bearishVolume :: "TradeHistory list \<Rightarrow> real" where
  "bearishVolume hs = (\<Sum>h\<leftarrow>filter (\<lambda>h. \<not> isBullish h) hs. th_volume h)"

definition exampleHistory :: "outcome \<Rightarrow> order_side \<Rightarrow> real \<Rightarrow> real \<Rightarrow> TradeHistory" where
  "exampleHistory oc sd price sz =
     \<lparr>th_outcome = oc, th_side = sd, th_price = price, th_size = sz, th_timestamp = 50000,
      th_volume = price * sz\<rparr>"

definition trackerWithHistory :: "TradeHistory list \<Rightarrow> BTCUpdownTracker" where
  "trackerWithHistory hs = \<lparr>currentMarket = None, marketState = None, tradeHistory = hs\<rparr>"

definition threeTradesTracker :: BTCUpdownTracker where
  "threeTradesTracker =
     trackerWithHistory [exampleHistory Yes BUY 0.6 10, exampleHistory No BUY 0.4 5,
                         exampleHistory No SELL 0.5 4]"

definition zeroSizeTracker :: BTCUpdownTracker where
  "zeroSizeTracker = trackerWithHistory [exampleHistory Yes BUY 0.5 0]"

definition negativeSizeTracker :: BTCUpdownTracker where
  "negativeSizeTracker =
     trackerWithHistory [exampleHistory Yes BUY 0.5 6, exampleHistory No BUY 0.5 (- 2)]"

record BookDepth =
  bidDepth :: real
  askDepth :: real
  bestBid :: real
  bestAsk :: real
  spread :: real

record OrderbookDepth =
  yesBidDepth :: real
  yesAskDepth :: real
  noBidDepth :: real
  noAskDepth :: real
  yesSpread :: real
  noSpread :: real
  imbalance :: real
  yesBestBid :: real
  yesBestAsk :: real
  noBestBid :: real
  noBestAsk :: real

definition calculateDepth :: "Orderbook option \<Rightarrow> nat \<Rightarrow> BookDepth" where
  "calculateDepth book levels =
     (case book of
        None \<Rightarrow> \<lparr>bidDepth = 0, askDepth = 0, bestBid = 0, bestAsk = 1, spread = 1\<rparr>
      | Some b \<Rightarrow>
          let topBids = take levels (bids b);
              topAsks = take levels (asks b);
              bd = foldl (\<lambda>sum lv. sum + lv_size lv) 0 topBids;
              ad = foldl (\<lambda>sum lv. sum + lv_size lv) 0 topAsks;
              bb = (if length topBids > 0 then lv_price (hd topBids) else 0);
              ba = (if length topAsks > 0 then lv_price (hd topAsks) else 1)
          in \<lparr>bidDepth = bd, askDepth = ad, bestBid = bb, bestAsk = ba, spread = ba - bb\<rparr>)"

text \<open>\<^verbatim>\<open>x || 1\<close> on a number: 1 when \<open>x\<close> is 0 (or NaN), else \<open>x\<close>.\<close>

definition orOne :: "real \<Rightarrow> real" where
  "orOne x = (if x = 0 then 1 else x)"

definition getOrderbookAnalysis :: "BTCUpdownTracker \<Rightarrow> OrderbookDepth option" where
  "getOrderbookAnalysis t =
     (case marketState t of
        None \<Rightarrow> None
      | Some st \<Rightarrow>
          let yesBook = orderbook_yes st; noBook = orderbook_no st in
          if yesBook = None \<and> noBook = None then None
          else
            let yesDepth = calculateDepth yesBook 10;
                noDepth = calculateDepth noBook 10;
                yesBidRatio = bidDepth yesDepth / orOne (bidDepth yesDepth + askDepth yesDepth);
                noBidRatio = bidDepth noDepth / orOne (bidDepth noDepth + askDepth noDepth)
            in Some \<lparr>yesBidDepth = bidDepth yesDepth,
                     yesAskDepth = askDepth yesDepth,
                     noBidDepth = bidDepth noDepth,
                     noAskDepth = askDepth noDepth,
                     yesSpread = spread yesDepth,
                     noSpread = spread noDepth,
                     imbalance = yesBidRatio - noBidRatio,
                     yesBestBid = bestBid yesDepth,
                     yesBestAsk = bestAsk yesDepth,
                     noBestBid = bestBid noDepth,
                     noBestAsk = bestAsk noDepth\<rparr>)"

text \<open>
  The sum of the sizes of the first ten entries of one side of a book, in the order in
  which the book stores them; the bid share computed from these sums; and books with no
  negative size among those entries.
\<close>

definition firstTenDepth :: "PriceLevel list \<Rightarrow> real" where
  "firstTenDepth lvs = (\<Sum>lv\<leftarrow>take 10 lvs. lv_size lv)"

definition bidShare :: "Orderbook option \<Rightarrow> real" where
  "bidShare book =
     (case book of
        None \<Rightarrow> 0
      | Some b \<Rightarrow>
          if firstTenDepth (bids b) + firstTenDepth (asks b) = 0 then firstTenDepth (bids b)
          else firstTenDepth (bids b) / (firstTenDepth (bids b) + firstTenDepth (asks b)))"

definition nonnegSizes :: "Orderbook option \<Rightarrow> bool" where
  "nonnegSizes book =
     (case book of
        None \<Rightarrow> True
      | Some b \<Rightarrow> list_all (\<lambda>lv. 0 \<le> lv_size lv) (take 10 (bids b)) \<and>
                  list_all (\<lambda>lv. 0 \<le> lv_size lv) (take 10 (asks b)))"

text \<open>
  Specification side of the depth claim: the best price levels of a side (the highest
  bids, the lowest asks), the depth of a list of levels, and the bid share of a book over
  its ten best levels.
\<close>

definition bestBidLevels :: "nat \<Rightarrow> PriceLevel list \<Rightarrow> PriceLevel list" where
  "bestBidLevels n lvs = take n (rev (sort_key lv_price lvs))"

definition bestAskLevels :: "nat \<Rightarrow> PriceLevel list \<Rightarrow> PriceLevel list" where
  "bestAskLevels n lvs = take n (sort_key lv_price lvs)"

definition levelsDepth :: "PriceLevel list \<Rightarrow> real" where
  "levelsDepth lvs = (\<Sum>lv\<leftarrow>lvs. lv_size lv)"

definition bestLevelsBidShare :: "Orderbook \<Rightarrow> real" where
  "bestLevelsBidShare b =
     levelsDepth (bestBidLevels 10 (bids b))
       / (levelsDepth (bestBidLevels 10 (bids b)) + levelsDepth (bestAskLevels 10 (asks b)))"

definition exampleBook :: "PriceLevel list \<Rightarrow> PriceLevel list \<Rightarrow> Orderbook" where
  "exampleBook bs as =
     \<lparr>ob_market = ''0xcond'', ob_asset_id = ''tok-yes'', bids = bs, asks = as,
      ob_timestamp = 0\<rparr>"

definition trackerWithBooks :: "Orderbook option \<Rightarrow> Orderbook option \<Rightarrow> BTCUpdownTracker" where
  "trackerWithBooks yb nb =
     \<lparr>currentMarket = None,
      marketState = Some \<lparr>ms_conditionId = ''0xcond'', ms_question = ''BTC up?'',
                          ms_endTime = 900000, ms_yesTokenId = ''tok-yes'',
                          ms_noTokenId = ''tok-no'', currentPrice_yes = 0.5,
                          currentPrice_no = 0.5, orderbook_yes = yb, orderbook_no = nb,
                          lastUpdate = 0\<rparr>,
      tradeHistory = []\<rparr>"

text \<open>
  A book in the order in which the market feed delivers it: the bids by ascending and
  the asks by descending price, so that the best level of each side comes last.  The
  sample messages in the data notes of the repository list the bids from 0.01 upwards
  and the asks from 0.99 downwards, over more than a hundred levels;
  \<^verbatim>\<open>updateOrderbook\<close> stores the two lists of a snapshot as they arrive.  Here each side
  has twelve levels: the best bid is 0.12 and the best ask is 0.13.
\<close>

definition feedBook :: Orderbook where
  "feedBook =
     exampleBook
       [\<lparr>lv_price = 0.01, lv_size = 14000\<rparr>, \<lparr>lv_price = 0.02, lv_size = 6000\<rparr>,
        \<lparr>lv_price = 0.03, lv_size = 100\<rparr>, \<lparr>lv_price = 0.04, lv_size = 100\<rparr>,
        \<lparr>lv_price = 0.05, lv_size = 100\<rparr>, \<lparr>lv_price = 0.06, lv_size = 100\<rparr>,
        \<lparr>lv_price = 0.07, lv_size = 100\<rparr>, \<lparr>lv_price = 0.08, lv_size = 100\<rparr>,
        \<lparr>lv_price = 0.09, lv_size = 100\<rparr>, \<lparr>lv_price = 0.10, lv_size = 100\<rparr>,
        \<lparr>lv_price = 0.11, lv_size = 50\<rparr>, \<lparr>lv_price = 0.12, lv_size = 25\<rparr>]
       [\<lparr>lv_price = 0.99, lv_size = 13000\<rparr>, \<lparr>lv_price = 0.98, lv_size = 3500\<rparr>,
        \<lparr>lv_price = 0.97, lv_size = 20\<rparr>, \<lparr>lv_price = 0.96, lv_size = 20\<rparr>,
        \<lparr>lv_price = 0.95, lv_size = 20\<rparr>, \<lparr>lv_price = 0.94, lv_size = 20\<rparr>,
        \<lparr>lv_price = 0.93, lv_size = 20\<rparr>, \<lparr>lv_price = 0.92, lv_size = 20\<rparr>,
        \<lparr>lv_price = 0.91, lv_size = 20\<rparr>, \<lparr>lv_price = 0.90, lv_size = 20\<rparr>,
        \<lparr>lv_price = 0.14, lv_size = 300\<rparr>, \<lparr>lv_price = 0.13, lv_size = 400\<rparr>]"

text \<open>A book whose only ask has a negative size.\<close>

definition negativeAskBook :: Orderbook where
  "negativeAskBook = exampleBook [\<lparr>lv_price = 0.5, lv_size = 3\<rparr>] [\<lparr>lv_price = 0.6, lv_size = - 1\<rparr>]"

section \<open>Composite strategy scorer: from the signals to a trade\<close>

text \<open>
  The scorer is handed the primary price feed, which is either of the two adapters, and
  calls the methods the two classes share.
\<close>

datatype btc_feed = ChainlinkFeed ChainlinkBTCFeed | BinanceFeed BinanceBTCFeed

definition feed_predictOutcome :: "btc_feed \<Rightarrow> int \<Rightarrow> Prediction" where
  "feed_predictOutcome f now =
     (case f of ChainlinkFeed c \<Rightarrow> Chainlink_predictOutcome c
              | BinanceFeed b \<Rightarrow> Binance_predictOutcome b now)"

definition feed_isConnected :: "btc_feed \<Rightarrow> int \<Rightarrow> bool" where
  "feed_isConnected f now =
     (case f of ChainlinkFeed c \<Rightarrow> Chainlink_isConnected c now
              | BinanceFeed b \<Rightarrow> Binance_isConnected b)"

definition feed_getWindowChange :: "btc_feed \<Rightarrow> WindowChange option" where
  "feed_getWindowChange f =
     (case f of ChainlinkFeed c \<Rightarrow> Chainlink_getWindowChange c
              | BinanceFeed b \<Rightarrow> Binance_getWindowChange b)"

definition feed_getRecentMomentum :: "btc_feed \<Rightarrow> int \<Rightarrow> real" where
  "feed_getRecentMomentum f now =
     (case f of ChainlinkFeed c \<Rightarrow> Chainlink_getRecentMomentum c now
              | BinanceFeed b \<Rightarrow> Binance_getRecentMomentum b now)"

definition analyzeTimeDecay ::
  "StrategyConfig \<Rightarrow> MarketState \<Rightarrow> real \<Rightarrow> btc_feed option \<Rightarrow> int \<Rightarrow> SignalScore" where
  "analyzeTimeDecay cfg state timeToExpiryMs btcFeed now =
     (let minutesToExpiry = timeToExpiryMs / 60000;
          activationMinutes = timeDecayActivationMinutes cfg in
      if minutesToExpiry > activationMinutes then
        \<lparr>score = 0, confidence = 0.1, reason = ''time decay not active''\<rparr>
      else
        case btcFeed of
          None \<Rightarrow> \<lparr>score = 0, confidence = 0.1,
                    reason = ''No BTC feed available for time decay analysis''\<rparr>
        | Some feed \<Rightarrow>
            let prediction = feed_predictOutcome feed now in
            if pred_direction prediction = NEUTRAL then
              \<lparr>score = 0, confidence = 0.2, reason = ''too close to call''\<rparr>
            else
              let timeMultiplier = min 1 ((activationMinutes - minutesToExpiry) / activationMinutes);
                  sc = (if pred_direction prediction = UP then 1 else - 1);
                  conf = min 0.95 (pred_confidence prediction * (0.6 + 0.4 * timeMultiplier));
                  impliedProb = (if pred_direction prediction = UP then currentPrice_yes state
                                 else currentPrice_no state);
                  edge = conf - impliedProb in
              if edge < 0.05 then
                \<lparr>score = sc * 0.3, confidence = 0.3, reason = ''Time decay: already priced''\<rparr>
              else
                \<lparr>score = sc * min 1 (edge * 5), confidence = conf, reason = ''Time decay''\<rparr>)"

definition analyzeOrderbook :: "OrderbookDepth option \<Rightarrow> SignalScore" where
  "analyzeOrderbook analysis =
     (case analysis of
        None \<Rightarrow> \<lparr>score = 0, confidence = 0.1, reason = ''No orderbook data available''\<rparr>
      | Some a \<Rightarrow>
          let absImbalance = \<bar>imbalance a\<bar> in
          if absImbalance < 0.1 then
            \<lparr>score = 0, confidence = 0.2, reason = ''Orderbook balanced''\<rparr>
          else
            let totalDepth = yesBidDepth a + noBidDepth a;
                avgSpread = (yesSpread a + noSpread a) / 2;
                c0 = min 0.7 (0.3 + absImbalance * 0.5);
                c1 = (if totalDepth > 10000 then c0 + 0.1 else c0);
                c2 = (if avgSpread < 0.02 then c1 + 0.1 else c1)
            in \<lparr>score = imbalance a, confidence = min 0.8 c2, reason = ''Orderbook''\<rparr>)"

definition analyzeTradeMomentum :: "TradeMomentum \<Rightarrow> SignalScore" where
  "analyzeTradeMomentum momentum =
     (if tradeCount momentum < 5 then
        \<lparr>score = 0, confidence = 0.1, reason = ''insufficient data''\<rparr>
      else
        let sc = (yesRatio momentum - 0.5) * 2;
            absScore = \<bar>sc\<bar> in
        if absScore < 0.2 then
          \<lparr>score = 0, confidence = 0.2, reason = ''Trade flow balanced''\<rparr>
        else
          let c0 = 0.3 + absScore * 0.3;
              c1 = (if totalVolume momentum > 1000 then c0 + 0.1 else c0);
              c2 = (if tradeCount momentum > 20 then c1 + 0.1 else c1)
          in \<lparr>score = sc, confidence = min 0.7 c2, reason = ''Trade momentum''\<rparr>)"

definition analyzeBTCMovement :: "btc_feed option \<Rightarrow> int \<Rightarrow> SignalScore" where
  "analyzeBTCMovement btcFeed now =
     (let unavailable = \<lparr>score = 0, confidence = 0.1, reason = ''No BTC feed available''\<rparr> in
      case btcFeed of
        None \<Rightarrow> unavailable
      | Some feed \<Rightarrow>
          if \<not> feed_isConnected feed now then unavailable
          else
            case feed_getWindowChange feed of
              None \<Rightarrow> \<lparr>score = 0, confidence = 0.1, reason = ''No BTC window data''\<rparr>
            | Some change \<Rightarrow>
                let pct = percent change;
                    absChange = \<bar>pct\<bar> in
                if absChange < 0.01 then
                  \<lparr>score = 0, confidence = 0.2, reason = ''noise range''\<rparr>
                else
                  let sc = max (- 1) (min 1 (pct * 50));
                      momentum = feed_getRecentMomentum feed now;
                      c0 = min 0.8 (0.3 + absChange * 20);
                      c1 = (if (pct > 0 \<and> momentum > 0) \<or> (pct < 0 \<and> momentum < 0)
                            then min 0.9 (c0 + 0.1) else c0)
                  in \<lparr>score = sc, confidence = c1, reason = ''BTC''\<rparr>)"

definition analyzePriceInefficiency :: "MarketState \<Rightarrow> btc_feed option \<Rightarrow> int \<Rightarrow> SignalScore" where
  "analyzePriceInefficiency state btcFeed now =
     (let unavailable = \<lparr>score = 0, confidence = 0.1,
                         reason = ''No BTC feed for inefficiency analysis''\<rparr> in
      case btcFeed of
        None \<Rightarrow> unavailable
      | Some feed \<Rightarrow>
          if \<not> feed_isConnected feed now then unavailable
          else
            case feed_getWindowChange feed of
              None \<Rightarrow> \<lparr>score = 0, confidence = 0.1,
                        reason = ''No window data for inefficiency analysis''\<rparr>
            | Some change \<Rightarrow>
                let absChange = \<bar>percent change\<bar>;
                    fairYesProb =
                      (if absChange < 0.01 then 0.5
                       else if percent change > 0 then min 0.95 (0.5 + absChange * 10)
                       else max 0.05 (0.5 - absChange * 10));
                    marketYesProb = currentPrice_yes state;
                    mispricing = fairYesProb - marketYesProb in
                if \<bar>mispricing\<bar> < 0.05 then
                  \<lparr>score = 0, confidence = 0.2, reason = ''Market fairly priced''\<rparr>
                else
                  \<lparr>score = max (- 1) (min 1 (mispricing * 5)),
                   confidence = min 0.7 (0.3 + \<bar>mispricing\<bar> * 2),
                   reason = ''YES mispriced''\<rparr>)"

text \<open>
  \<^verbatim>\<open>calculateComposite\<close>: inside the time-decay window a part of the weight moves from the
  five other signals to the time-decay signal; the composite score and confidence are the
  weighted sums, and the confidence is scaled by how many of the six scores agree in
  sign.  Every signal enters only through its weighted score and confidence.
\<close>

definition calculateComposite ::
  "StrategyConfig \<Rightarrow> SignalScore \<Rightarrow> SignalScore \<Rightarrow> SignalScore \<Rightarrow> SignalScore \<Rightarrow> SignalScore
     \<Rightarrow> SignalScore \<Rightarrow> real \<Rightarrow> SignalScore" where
  "calculateComposite cfg td ob mo btc pri fc timeToExpiryMs =
     (let w = weights cfg;
          minutesToExpiry = timeToExpiryMs / 60000;
          adjusted =
            (if minutesToExpiry < timeDecayActivationMinutes cfg then
               let timeBoost = (timeDecayActivationMinutes cfg - minutesToExpiry)
                                 / timeDecayActivationMinutes cfg;
                   reduction = (timeBoost * 0.2) / 5 in
               \<lparr>w_timeDecay = w_timeDecay w + timeBoost * 0.2,
                w_orderbookImbalance = w_orderbookImbalance w - reduction,
                w_tradeMomentum = w_tradeMomentum w - reduction,
                w_btcPriceMovement = w_btcPriceMovement w - reduction,
                w_priceInefficiency = w_priceInefficiency w - reduction,
                w_feedComparison = w_feedComparison w - reduction\<rparr>
             else w);
          weightedScore =
            score td * w_timeDecay adjusted + score ob * w_orderbookImbalance adjusted
            + score mo * w_tradeMomentum adjusted + score btc * w_btcPriceMovement adjusted
            + score pri * w_priceInefficiency adjusted + score fc * w_feedComparison adjusted;
          weightedConfidence =
            confidence td * w_timeDecay adjusted + confidence ob * w_orderbookImbalance adjusted
            + confidence mo * w_tradeMomentum adjusted + confidence btc * w_btcPriceMovement adjusted
            + confidence pri * w_priceInefficiency adjusted
            + confidence fc * w_feedComparison adjusted;
          scores = [score td, score ob, score mo, score btc, score pri, score fc];
          positiveCount = length (filter (\<lambda>s. s > 0.1) scores);
          negativeCount = length (filter (\<lambda>s. s < - 0.1) scores);
          agreement = real (max positiveCount negativeCount) / real (length scores);
          adjustedConfidence = min 0.95 (weightedConfidence * (0.8 + 0.4 * agreement))
      in \<lparr>score = weightedScore, confidence = adjustedConfidence, reason = ''Composite''\<rparr>)"

record SignalBreakdown =
  timeDecay :: SignalScore
  orderbookImbalance :: SignalScore
  tradeMomentum :: SignalScore
  btcPriceMovement :: SignalScore
  priceInefficiency :: SignalScore
  feedComparison :: SignalScore
  composite :: SignalScore

definition getTimeToExpiry :: "BTCUpdownTracker \<Rightarrow> int \<Rightarrow> int option" where
  "getTimeToExpiry t now =
     (case currentMarket t of None \<Rightarrow> None | Some m \<Rightarrow> Some (mi_endTime m - now))"

text \<open>
  \<^verbatim>\<open>analyze\<close>.  \<^verbatim>\<open>getTimeToExpiry() || 0\<close> is 0 when there is no market (and when the time
  left is 0); the primary feed is the oracle feed when it is connected and the exchange
  feed otherwise.
\<close>

definition analyze ::
  "StrategyConfig \<Rightarrow> MarketState \<Rightarrow> BTCUpdownTracker \<Rightarrow> ChainlinkBTCFeed option
     \<Rightarrow> BinanceBTCFeed option \<Rightarrow> int \<Rightarrow> SignalBreakdown" where
  "analyze cfg state tracker chainlinkFeed binanceFeed now =
     (let timeToExpiryMs =
            (case getTimeToExpiry tracker now of None \<Rightarrow> 0 | Some ms \<Rightarrow> real_of_int ms);
          orderbookAnalysis = getOrderbookAnalysis tracker;
          momentum = getTradeMomentum tracker 60000 now;
          primaryBTCFeed =
            (case chainlinkFeed of
               None \<Rightarrow> map_option BinanceFeed binanceFeed
             | Some cl \<Rightarrow> if Chainlink_isConnected cl now then Some (ChainlinkFeed cl)
                          else map_option BinanceFeed binanceFeed);
          td = analyzeTimeDecay cfg state timeToExpiryMs primaryBTCFeed now;
          ob = analyzeOrderbook orderbookAnalysis;
          mo = analyzeTradeMomentum momentum;
          btc = analyzeBTCMovement primaryBTCFeed now;
          pri = analyzePriceInefficiency state primaryBTCFeed now;
          fc = analyzeFeedComparison chainlinkFeed binanceFeed now
      in \<lparr>timeDecay = td, orderbookImbalance = ob, tradeMomentum = mo, btcPriceMovement = btc,
          priceInefficiency = pri, feedComparison = fc,
          composite = calculateComposite cfg td ob mo btc pri fc timeToExpiryMs\<rparr>)"

text \<open>
  \<^verbatim>\<open>generateSignal\<close> reads the composite alone.  The signal it returns also carries the
  breakdown it was given, which the record of the ledger section leaves out.
\<close>

definition generateSignal ::
  "StrategyConfig \<Rightarrow> MarketState \<Rightarrow> SignalBreakdown \<Rightarrow> TradingSignal option" where
  "generateSignal cfg state signals =
     (let comp = composite signals in
      if confidence comp < minConfidenceToTrade cfg then None
      else if \<bar>score comp\<bar> < minScoreToTrade cfg then None
      else
        let isBull = score comp > 0;
            price = (if isBull then currentPrice_yes state else currentPrice_no state)
        in Some \<lparr>sig_market = ms_conditionId state,
                 sig_tokenId = (if isBull then ms_yesTokenId state else ms_noTokenId state),
                 sig_side = BUY,
                 sig_outcome = (if isBull then Yes else No),
                 sig_price = price,
                 sig_size = calculatePositionSize cfg comp price,
                 sig_reason = reason comp,
                 sig_confidence = confidence comp\<rparr>)"

text \<open>
  The state of the worked example of the divergence claim: a market that expires two
  minutes after the time 2000 of the analysis, "yes" priced at 0.45 and "no" at 0.55, no
  order book and no trade seen yet.  The feeds are those of the claim: the oracle feed up
  from 100000 to 100100 (0.10 percent), the exchange feed down from 100000 to 99980
  (0.02 percent), both connected.
\<close>

definition divergentMarket :: BTCMarketInfo where
  "divergentMarket =
     \<lparr>mi_slug = ''btc-updown-15m-1770199200'', mi_conditionId = ''0xcond'',
      mi_question = ''BTC up?'', mi_endTime = 122000, mi_yesTokenId = ''tok-yes'',
      mi_noTokenId = ''tok-no''\<rparr>"

definition divergentState :: MarketState where
  "divergentState =
     \<lparr>ms_conditionId = ''0xcond'', ms_question = ''BTC up?'', ms_endTime = 122000,
      ms_yesTokenId = ''tok-yes'', ms_noTokenId = ''tok-no'', currentPrice_yes = 0.45,
      currentPrice_no = 0.55, orderbook_yes = None, orderbook_no = None, lastUpdate = 0\<rparr>"

definition divergentTracker :: BTCUpdownTracker where
  "divergentTracker =
     \<lparr>currentMarket = Some divergentMarket, marketState = Some divergentState,
      tradeHistory = []\<rparr>"

definition divergentSignals :: SignalBreakdown where
  "divergentSignals =
     analyze DEFAULT_STRATEGY_CONFIG divergentState divergentTracker
       (Some (exampleChainlink 100000 100100 [])) (Some (exampleBinance 100000 99980 [])) 2000"

section \<open>Stream normalizer: reconnect logic (class PolymarketWSClient)\<close>

text \<open>
  What a handler does to the outside is recorded as a list of effects, in order: a console
  line, an event emitted to the listeners of the client, or a timer that will call
  \<^verbatim>\<open>connect()\<close> after a delay in milliseconds.  Event payloads other than the message of
  an error are left out.
\<close>

datatype ws_event = EvConnected | EvDisconnected | EvError string | EvPrice | EvOrderbook | EvTrade

datatype ws_effect =
    ConsoleLog string
  | ConsoleError string
  | Emit ws_event
  | SetTimeoutConnect nat

record PolymarketWSClient =
  ws :: "ready_state option"
  reconnectAttempts :: nat
  pingInterval :: bool
  subscribedMarkets :: "string list"

definition maxReconnectAttempts :: nat where
  "maxReconnectAttempts = 5"

definition reconnectDelay :: nat where
  "reconnectDelay = 1000"

definition stopPing :: "PolymarketWSClient \<Rightarrow> PolymarketWSClient" where
  "stopPing c = (if pingInterval c then c\<lparr>pingInterval := False\<rparr> else c)"

definition attemptReconnect :: "PolymarketWSClient \<Rightarrow> PolymarketWSClient \<times> ws_effect list" where
  "attemptReconnect c =
     (if reconnectAttempts c \<ge> maxReconnectAttempts then
        (c, [ConsoleError ''[Polymarket WS] Max reconnect attempts reached''])
      else
        let c' = c\<lparr>reconnectAttempts := reconnectAttempts c + 1\<rparr>;
            delay = reconnectDelay * 2 ^ (reconnectAttempts c' - 1)
        in (c', [ConsoleLog ''[Polymarket WS] Reconnecting'', SetTimeoutConnect delay]))"

text \<open>The handler of the socket's \<^verbatim>\<open>close\<close> event.\<close>

definition onClose :: "PolymarketWSClient \<Rightarrow> PolymarketWSClient \<times> ws_effect list" where
  "onClose c =
     (let c1 = stopPing c;
          r = attemptReconnect c1
      in (fst r, [ConsoleLog ''[Polymarket WS] Connection closed'', Emit EvDisconnected] @ snd r))"

text \<open>
  A run of the reconnect logic: \<open>n\<close> close events in a row, no connection opening in
  between (an opening resets the attempt counter).  The effects of all of them, in order.
\<close>

fun closeRun :: "nat \<Rightarrow> PolymarketWSClient \<Rightarrow> PolymarketWSClient \<times> ws_effect list" where
  "closeRun 0 c = (c, [])"
| "closeRun (Suc n) c =
     (let r = onClose c; r' = closeRun n (fst r) in (fst r', snd r @ snd r'))"

definition isReconnect :: "ws_effect \<Rightarrow> bool" where
  "isReconnect e = (case e of SetTimeoutConnect d \<Rightarrow> True | _ \<Rightarrow> False)"

definition isErrorEvent :: "ws_effect \<Rightarrow> bool" where
  "isErrorEvent e = (case e of Emit (EvError m) \<Rightarrow> True | _ \<Rightarrow> False)"

definition exampleClient :: "nat \<Rightarrow> PolymarketWSClient" where
  "exampleClient n =
     \<lparr>ws = Some CLOSED, reconnectAttempts = n, pingInterval = True,
      subscribedMarkets = [''tok-yes'', ''tok-no'']\<rparr>"

section \<open>Properties of the rounding\<close>

text \<open>
  Three facts carry everything below: the rounding is within half a unit in the last
  place (\<open>fl_error\<close>), it is monotone (\<open>fl_mono\<close>), and on a literal it can be
  evaluated (\<open>fl_eval\<close>).
\<close>

lemma roundHalfEven_iff:
  "roundHalfEven x = n \<longleftrightarrow>
     (\<bar>x - of_int n\<bar> < 1 / 2 \<or> (\<bar>x - of_int n\<bar> = 1 / 2 \<and> even n))"
proof -
  define f where "f = \<lfloor>x\<rfloor>"
  have f: "of_int f \<le> x" "x < of_int f + 1"
    unfolding f_def by linarith+
  have cases: "n < f \<or> n = f \<or> n = f + 1 \<or> n > f + 1" by linarith
  have lo: "n < f \<Longrightarrow> x - of_int n \<ge> 1"
  proof -
    assume "n < f"
    then have "n + 1 \<le> f" by simp
    then have "real_of_int (n + 1) \<le> of_int f" by (simp only: of_int_le_iff)
    with f(1) show ?thesis by simp
  qed
  have hi: "n > f + 1 \<Longrightarrow> of_int n - x > 1"
  proof -
    assume "n > f + 1"
    then have "f + 2 \<le> n" by simp
    then have "real_of_int (f + 2) \<le> of_int n" by (simp only: of_int_le_iff)
    with f(2) show ?thesis by simp
  qed
  show ?thesis
    using cases
  proof (elim disjE)
    assume a: "n < f"
    then have "roundHalfEven x \<noteq> n"
      by (auto simp: roundHalfEven_def Let_def f_def[symmetric])
    with lo[OF a] show ?thesis by auto
  next
    assume a: "n > f + 1"
    then have "roundHalfEven x \<noteq> n"
      by (auto simp: roundHalfEven_def Let_def f_def[symmetric])
    with hi[OF a] show ?thesis by auto
  next
    assume a: "n = f"
    show ?thesis using f unfolding a
      by (auto simp: roundHalfEven_def Let_def f_def[symmetric])
  next
    assume a: "n = f + 1"
    show ?thesis using f unfolding a
      by (auto simp: roundHalfEven_def Let_def f_def[symmetric])
  qed
qed

lemma roundHalfEven_error: "\<bar>of_int (roundHalfEven x) - x\<bar> \<le> 1 / 2"
proof -
  have "\<bar>x - of_int (roundHalfEven x)\<bar> \<le> 1 / 2"
    using roundHalfEven_iff [of x "roundHalfEven x"] by auto
  then show ?thesis by (simp only: abs_minus_commute)
qed

lemma roundHalfEven_of_int [simp]: "roundHalfEven (of_int n) = n"
  by (simp add: roundHalfEven_iff)

lemma roundHalfEven_minus: "roundHalfEven (- x) = - roundHalfEven x"
proof -
  define m where "m = roundHalfEven x"
  have hm: "\<bar>x - of_int m\<bar> < 1 / 2 \<or> (\<bar>x - of_int m\<bar> = 1 / 2 \<and> even m)"
    using roundHalfEven_iff [of x m] by (simp add: m_def)
  have eq: "\<bar>- x - of_int (- m)\<bar> = \<bar>x - of_int m\<bar>" by simp
  have "roundHalfEven (- x) = - m"
    unfolding roundHalfEven_iff eq using hm by simp
  then show ?thesis by (simp add: m_def)
qed

lemma roundHalfEven_mono: "x \<le> y \<Longrightarrow> roundHalfEven x \<le> roundHalfEven y"
proof (rule ccontr)
  assume xy: "x \<le> y" and "\<not> roundHalfEven x \<le> roundHalfEven y"
  define m where "m = roundHalfEven x"
  define n where "n = roundHalfEven y"
  from \<open>\<not> roundHalfEven x \<le> roundHalfEven y\<close> have nm: "n + 1 \<le> m" by (simp add: m_def n_def)
  then have "real_of_int (n + 1) \<le> of_int m" by (simp only: of_int_le_iff)
  then have mn: "real_of_int n + 1 \<le> of_int m" by simp
  have hm: "\<bar>x - of_int m\<bar> < 1 / 2 \<or> (\<bar>x - of_int m\<bar> = 1 / 2 \<and> even m)"
    using roundHalfEven_iff [of x m] by (simp add: m_def)
  have hn: "\<bar>y - of_int n\<bar> < 1 / 2 \<or> (\<bar>y - of_int n\<bar> = 1 / 2 \<and> even n)"
    using roundHalfEven_iff [of y n] by (simp add: n_def)
  have xm: "x \<ge> of_int m - 1 / 2" using hm by linarith
  have yn: "y \<le> of_int n + 1 / 2" using hn by linarith
  have eqm: "real_of_int m = of_int n + 1" using xm yn mn xy by linarith
  have xe: "x = of_int m - 1 / 2" using xm yn mn xy by linarith
  have ye: "y = of_int n + 1 / 2" using xm yn mn xy by linarith
  have "even m" using hm xe by auto
  moreover have "even n" using hn ye by auto
  moreover have "m = n + 1"
  proof -
    have "real_of_int m = real_of_int (n + 1)" using eqm by simp
    then show ?thesis by (simp only: of_int_eq_iff)
  qed
  ultimately show False by simp
qed

lemma binExponent_bounds:
  assumes "x \<noteq> 0"
  shows "2 powi (binExponent x) \<le> \<bar>x\<bar>" and "\<bar>x\<bar> < 2 powi (binExponent x + 1)"
proof -
  have both: "2 powi (binExponent x) \<le> \<bar>x\<bar> \<and> \<bar>x\<bar> < 2 powi (binExponent x + 1)"
  proof (cases "1 \<le> \<bar>x\<bar>")
    case True
    define n where "n = \<lfloor>\<bar>x\<bar>\<rfloor>"
    define k where "k = bitlen n"
    have n1: "1 \<le> n" using True by (simp add: n_def le_floor_iff)
    have nx: "of_int n \<le> \<bar>x\<bar>" "\<bar>x\<bar> < of_int n + 1" unfolding n_def by linarith+
    have b: "2 ^ nat (k - 1) \<le> n" "n < 2 ^ nat k"
      using bitlen_bounds [of n] n1 by (simp_all add: k_def)
    have k1: "1 \<le> k" using n1 by (simp add: k_def bitlen_alt_def)
    have e: "binExponent x = k - 1" using True by (simp add: binExponent_def n_def k_def)
    have "real_of_int (2 ^ nat (k - 1)) \<le> of_int n" using b(1) by (simp only: of_int_le_iff)
    then have lo: "(2::real) ^ nat (k - 1) \<le> of_int n" by simp
    have "n + 1 \<le> 2 ^ nat k" using b(2) by simp
    then have "real_of_int (n + 1) \<le> of_int (2 ^ nat k)" by (simp only: of_int_le_iff)
    then have hi: "of_int n + 1 \<le> (2::real) ^ nat k" by simp
    have p1: "(2::real) powi (k - 1) = 2 ^ nat (k - 1)" using k1 by (simp add: power_int_nonneg_exp)
    have p2: "(2::real) powi k = 2 ^ nat k" using k1 by (simp add: power_int_nonneg_exp)
    have A: "2 powi (k - 1) \<le> \<bar>x\<bar>" unfolding p1 using lo nx(1) by linarith
    have B: "\<bar>x\<bar> < 2 powi k" unfolding p2 using hi nx(2) by linarith
    show ?thesis unfolding e using A B by simp
  next
    case False
    define r where "r = 1 / \<bar>x\<bar>"
    define n where "n = \<lceil>r\<rceil> - 1"
    define k where "k = bitlen n"
    have xpos: "0 < \<bar>x\<bar>" using assms by simp
    have r1: "1 < r" using False xpos by (simp add: r_def)
    have nr: "of_int n < r" "r \<le> of_int n + 1" unfolding n_def by linarith+
    have n1: "1 \<le> n"
    proof -
      have "1 < \<lceil>r\<rceil>" using r1 by (simp add: less_ceiling_iff)
      then show ?thesis by (simp add: n_def)
    qed
    have b: "2 ^ nat (k - 1) \<le> n" "n < 2 ^ nat k"
      using bitlen_bounds [of n] n1 by (simp_all add: k_def)
    have k1: "1 \<le> k" using n1 by (simp add: k_def bitlen_alt_def)
    have e: "binExponent x = - k" using False by (simp add: binExponent_def n_def k_def r_def)
    have "real_of_int (2 ^ nat (k - 1)) \<le> of_int n" using b(1) by (simp only: of_int_le_iff)
    then have "(2::real) ^ nat (k - 1) \<le> of_int n" by simp
    then have lo: "(2::real) ^ nat (k - 1) < r" using nr(1) by linarith
    have "n + 1 \<le> 2 ^ nat k" using b(2) by simp
    then have "real_of_int (n + 1) \<le> of_int (2 ^ nat k)" by (simp only: of_int_le_iff)
    then have "of_int n + 1 \<le> (2::real) ^ nat k" by simp
    then have hi: "r \<le> (2::real) ^ nat k" using nr(2) by linarith
    have x_eq: "\<bar>x\<bar> = 1 / r" using xpos by (simp add: r_def)
    have p1: "(2::real) powi (- k) = 1 / 2 ^ nat k"
      using k1 by (simp add: power_int_minus_divide power_int_nonneg_exp)
    have p2: "(2::real) powi (- k + 1) = 1 / 2 ^ nat (k - 1)"
    proof -
      have "(2::real) powi (- k + 1) = 2 powi (- (k - 1))" by simp
      also have "\<dots> = 1 / 2 powi (k - 1)" by (simp only: power_int_minus_divide)
      also have "\<dots> = 1 / 2 ^ nat (k - 1)" using k1 by (simp add: power_int_nonneg_exp)
      finally show ?thesis .
    qed
    have rpos: "0 < r" using r1 by simp
    have a1: "1 / 2 ^ nat k \<le> 1 / r"
      using hi rpos by (simp add: frac_le)
    have a2: "1 / r < 1 / 2 ^ nat (k - 1)"
      using lo by (simp add: frac_less2)
    show ?thesis unfolding e x_eq p1 p2 using a1 a2 by simp
  qed
  show "2 powi (binExponent x) \<le> \<bar>x\<bar>" using both by simp
  show "\<bar>x\<bar> < 2 powi (binExponent x + 1)" using both by simp
qed

lemma binExponent_minus [simp]: "binExponent (- x) = binExponent x"
  by (simp add: binExponent_def)

lemma binExponent_mono:
  assumes "0 < x" and "x \<le> y"
  shows "binExponent x \<le> binExponent y"
proof (rule ccontr)
  assume "\<not> binExponent x \<le> binExponent y"
  then have "binExponent y + 1 \<le> binExponent x" by simp
  then have "(2::real) powi (binExponent y + 1) \<le> 2 powi (binExponent x)"
    by (intro power_int_increasing) simp_all
  moreover have "2 powi (binExponent x) \<le> x"
    using binExponent_bounds(1) [of x] assms(1) by simp
  moreover have "y < 2 powi (binExponent y + 1)"
    using binExponent_bounds(2) [of y] assms by simp
  ultimately show False using assms(2) by linarith
qed

lemma fl_alt: "x \<noteq> 0 \<Longrightarrow> fl x = of_int (roundHalfEven (x / 2 powi binScale x)) * 2 powi binScale x"
  by (simp add: fl_def binScale_def Let_def)

lemma fl_zero [simp]: "fl 0 = 0"
  by (simp add: fl_def)

lemma fl_minus: "fl (- x) = - fl x"
  by (cases "x = 0") (simp_all add: fl_alt binScale_def roundHalfEven_minus)

lemma fl_error_scale:
  assumes "x \<noteq> 0"
  shows "\<bar>fl x - x\<bar> \<le> 2 powi binScale x / 2"
proof -
  let ?u = "(2::real) powi binScale x"
  have u: "0 < ?u" by simp
  have "fl x - x = (of_int (roundHalfEven (x / ?u)) - x / ?u) * ?u"
    using assms u by (simp add: fl_alt algebra_simps)
  then have "\<bar>fl x - x\<bar> = \<bar>of_int (roundHalfEven (x / ?u)) - x / ?u\<bar> * ?u"
    using u by (simp add: abs_mult)
  also have "\<dots> \<le> (1 / 2) * ?u"
    using roundHalfEven_error [of "x / ?u"] u by (intro mult_right_mono) simp_all
  finally show ?thesis by simp
qed

lemma fl_error: "\<bar>fl x - x\<bar> \<le> roundingBound x"
proof (cases "x = 0")
  case True
  then show ?thesis by (simp add: roundingBound_def)
next
  case False
  show ?thesis
  proof (cases "- 1022 \<le> binExponent x")
    case True
    then have s: "binScale x = binExponent x - 53 + 1" by (simp add: binScale_def)
    have "(2::real) powi (binExponent x - 53 + 1) = 2 powi (binExponent x - 53) * 2 powi 1"
      by (rule power_int_add) simp
    then have "(2::real) powi binScale x / 2 = 2 powi (binExponent x - 53)"
      unfolding s by simp
    also have "\<dots> = 2 powi binExponent x / 2 powi 53"
      by (rule power_int_diff) simp
    also have "\<dots> = 2 powi binExponent x / 2 ^ 53"
      by (simp only: power_int_numeral)
    also have "\<dots> \<le> \<bar>x\<bar> / 2 ^ 53"
      using binExponent_bounds(1) [OF False] by (rule divide_right_mono) simp
    finally have "(2::real) powi binScale x / 2 \<le> \<bar>x\<bar> / 2 ^ 53" .
    with fl_error_scale [OF False] have "\<bar>fl x - x\<bar> \<le> \<bar>x\<bar> / 2 ^ 53" by (rule order_trans)
    then show ?thesis unfolding roundingBound_def by (rule max.coboundedI1)
  next
    case False
    then have s: "binScale x = - 1075 + 1" by (simp add: binScale_def)
    have "(2::real) powi (- 1075 + 1) = 2 powi (- 1075) * 2 powi 1"
      by (rule power_int_add) simp
    then have "(2::real) powi binScale x / 2 = 2 powi (- 1075)"
      unfolding s by (simp only: power_int_1_right)
    with fl_error_scale [OF \<open>x \<noteq> 0\<close>] have "\<bar>fl x - x\<bar> \<le> 2 powi (- 1075)" by (simp only:)
    then show ?thesis unfolding roundingBound_def by (rule max.coboundedI2)
  qed
qed

lemma fl_nonneg: "0 \<le> x \<Longrightarrow> 0 \<le> fl x"
proof (cases "x = 0")
  case True
  then show ?thesis by simp
next
  case False
  assume "0 \<le> x"
  then have "0 \<le> x / 2 powi binScale x" by simp
  then have "roundHalfEven 0 \<le> roundHalfEven (x / 2 powi binScale x)"
    by (rule roundHalfEven_mono)
  moreover have "roundHalfEven 0 = 0" using roundHalfEven_of_int [of 0] by simp
  ultimately show ?thesis using False by (simp add: fl_alt)
qed

lemma fl_mono_pos:
  assumes "0 < x" and "x \<le> y"
  shows "fl x \<le> fl y"
proof -
  have x0: "x \<noteq> 0" and y0: "y \<noteq> 0" and ypos: "0 < y" using assms by simp_all
  have ee: "binExponent x \<le> binExponent y" using assms by (rule binExponent_mono)
  then have ss: "binScale x \<le> binScale y" by (simp add: binScale_def)
  show ?thesis
  proof (cases "binScale x = binScale y")
    case True
    have "x / 2 powi binScale y \<le> y / 2 powi binScale y"
      using assms(2) by (simp add: divide_right_mono)
    then have "roundHalfEven (x / 2 powi binScale y) \<le> roundHalfEven (y / 2 powi binScale y)"
      by (rule roundHalfEven_mono)
    then have "real_of_int (roundHalfEven (x / 2 powi binScale y))
                 \<le> of_int (roundHalfEven (y / 2 powi binScale y))"
      by (simp only: of_int_le_iff)
    then show ?thesis
      using x0 y0 True by (simp add: fl_alt mult_right_mono)
  next
    case False
    with ss have lt: "binScale x < binScale y" by simp
    then have ey: "binScale y = binExponent y - 52" and ex: "binExponent x \<le> binScale x + 52"
      and step: "binScale x + 53 \<le> binExponent y"
      by (simp_all add: binScale_def max_def split: if_splits)
    have xlt: "x < 2 powi (binScale x + 53)"
    proof -
      have "x < 2 powi (binExponent x + 1)" using binExponent_bounds(2) [OF x0] assms(1) by simp
      also have "\<dots> \<le> 2 powi (binScale x + 53)"
        using ex by (intro power_int_increasing) simp_all
      finally show ?thesis .
    qed
    have "x / 2 powi binScale x \<le> 2 ^ 53"
    proof -
      have "x \<le> 2 ^ 53 * 2 powi binScale x"
        using xlt by (simp add: power_int_add mult.commute)
      then show ?thesis by (simp add: divide_le_eq)
    qed
    then have "roundHalfEven (x / 2 powi binScale x) \<le> roundHalfEven (of_int (2 ^ 53))"
      by (intro roundHalfEven_mono) simp
    then have "roundHalfEven (x / 2 powi binScale x) \<le> 2 ^ 53" by (simp only: roundHalfEven_of_int)
    then have "real_of_int (roundHalfEven (x / 2 powi binScale x)) \<le> of_int (2 ^ 53)"
      by (simp only: of_int_le_iff)
    then have "fl x \<le> 2 ^ 53 * 2 powi binScale x"
      using x0 by (simp add: fl_alt mult_right_mono)
    also have "\<dots> = 2 powi (binScale x + 53)" by (simp add: power_int_add mult.commute)
    also have "\<dots> \<le> 2 powi binExponent y"
      using step by (intro power_int_increasing) simp_all
    finally have flx: "fl x \<le> 2 powi binExponent y" .
    have "2 powi binExponent y \<le> y" using binExponent_bounds(1) [OF y0] ypos by simp
    then have "2 ^ 52 * 2 powi binScale y \<le> y"
      unfolding ey by (simp add: power_int_diff)
    then have "2 ^ 52 \<le> y / 2 powi binScale y" by (simp add: le_divide_eq)
    then have "roundHalfEven (of_int (2 ^ 52)) \<le> roundHalfEven (y / 2 powi binScale y)"
      by (intro roundHalfEven_mono) simp
    then have "2 ^ 52 \<le> roundHalfEven (y / 2 powi binScale y)" by (simp only: roundHalfEven_of_int)
    then have "real_of_int (2 ^ 52) \<le> of_int (roundHalfEven (y / 2 powi binScale y))"
      by (simp only: of_int_le_iff)
    then have "2 ^ 52 * 2 powi binScale y \<le> fl y"
      using y0 by (simp add: fl_alt mult_right_mono)
    then have "2 powi binExponent y \<le> fl y"
      unfolding ey by (simp add: power_int_diff)
    with flx show ?thesis by linarith
  qed
qed

lemma fl_mono: "x \<le> y \<Longrightarrow> fl x \<le> fl y"
proof -
  assume xy: "x \<le> y"
  consider "0 < x" | "x \<le> 0" "0 \<le> y" | "y < 0" by linarith
  then show ?thesis
  proof cases
    case 1
    then show ?thesis using xy by (rule fl_mono_pos)
  next
    case 2
    have "fl x \<le> 0" using fl_nonneg [of "- x"] 2(1) by (simp add: fl_minus)
    moreover have "0 \<le> fl y" using 2(2) by (rule fl_nonneg)
    ultimately show ?thesis by linarith
  next
    case 3
    have "fl (- y) \<le> fl (- x)" using 3 xy by (intro fl_mono_pos) simp_all
    then show ?thesis by (simp add: fl_minus)
  qed
qed

lemmas fl_eval = fl_def binExponent_def compute_bitlen roundHalfEven_def Let_def

lemma roundingBound_nonneg: "0 \<le> roundingBound x"
  by (simp add: roundingBound_def max_def)

lemma roundingBound_le:
  assumes "\<bar>x\<bar> \<le> M" and "1 \<le> M"
  shows "roundingBound x \<le> M / 2 ^ 53"
proof -
  have "(2::real) powi (- 1075) \<le> 1 / 2 ^ 53"
    by (simp add: power_int_minus_divide)
  also have "\<dots> \<le> M / 2 ^ 53" using assms(2) by (simp add: divide_right_mono)
  finally have a: "(2::real) powi (- 1075) \<le> M / 2 ^ 53" .
  have b: "\<bar>x\<bar> / 2 ^ 53 \<le> M / 2 ^ 53" using assms(1) by (simp add: divide_right_mono)
  show ?thesis unfolding roundingBound_def using a b by (rule max.boundedI [rotated])
qed

lemma fl_one: "fl 1 = 1" "fl 0.99 < 1" "0 < fl 0.01"
  by (simp_all add: fl_eval)

lemma fl_hundred: "fl 100 = 100" "fl 10000 = 10000"
  by (simp_all add: fl_eval)

lemma fl_small_power: "fl (1 / 2 ^ 53) = 1 / 2 ^ 53"
  by (simp add: fl_eval)

lemma fl_big_power: "fl (2 ^ 1022) = 2 ^ 1022"
  by (simp add: fl_eval)

lemma fl_tenth: "fl 0.1 = 3602879701896397 / 2 ^ 55"
  by (simp add: fl_eval)

lemma fl_seven_tenths: "fl 0.7 = 3152519739159347 / 2 ^ 52"
  by (simp add: fl_eval)

section \<open>Properties of the paper-trading ledger\<close>

lemma find_skip_prefix:
  "\<forall>x\<in>set pre. \<not> P x \<Longrightarrow> P t \<Longrightarrow> find P (pre @ t # rest) = Some t"
  by (induction pre) auto

lemma update_first_skip_prefix:
  "\<forall>x\<in>set pre. \<not> P x \<Longrightarrow> P t \<Longrightarrow> update_first P y (pre @ t # rest) = pre @ y # rest"
  by (induction pre) auto

lemma closePnl_one: "closePnl t 1 = pt_size t * (1 - entryPrice t)"
  by (simp add: closePnl_def)

lemma closePnl_zero: "closePnl t 0 = - cost t"
  by (simp add: closePnl_def)

text \<open>
  One iteration of the settlement loop.  The trades before \<open>t\<close> in the list are no longer
  open, so the lookup by identifier finds \<open>t\<close> itself, even if identifiers repeat.
\<close>

lemma closeTrade_expiry_step:
  assumes "\<forall>x\<in>set pre. status x \<noteq> Open" and "status t = Open"
    and "trades s = pre @ t # rest"
  shows "closeTrade s (pt_id t) (if pt_outcome t = fo then 1 else 0) ''expired'' now =
         s\<lparr>trades := pre @ settle fo now t # rest,
           currentCapital := currentCapital s + settleCredit fo t\<rparr>"
proof -
  let ?P = "\<lambda>x. pt_id x = pt_id t \<and> status x = Open"
  have a: "\<forall>x\<in>set pre. \<not> ?P x" using assms(1) by simp
  have b: "?P t" using assms(2) by simp
  have f: "find ?P (trades s) = Some t"
    unfolding assms(3) by (rule find_skip_prefix [OF a b])
  have u: "\<And>y. update_first ?P y (trades s) = pre @ y # rest"
    unfolding assms(3) by (rule update_first_skip_prefix [OF a b])
  show ?thesis
    using assms(2)
    by (simp add: closeTrade_def f u Let_def settle_def settleCredit_def closePnl_one closePnl_zero)
qed

lemma settle_not_open: "status (settle fo now t) \<noteq> Open"
  by (simp add: settle_def)

lemma closeAll_loop:
  "\<forall>x\<in>set pre. status x \<noteq> Open \<Longrightarrow> trades s = pre @ post \<Longrightarrow>
   foldl (\<lambda>s' trade. closeTrade s' (pt_id trade)
                     (if pt_outcome trade = fo then 1 else 0) ''expired'' now)
         s (filter (\<lambda>t. status t = Open) post) =
   s\<lparr>trades := pre @ map (settle fo now) post,
     currentCapital := currentCapital s +
        (\<Sum>t\<leftarrow>filter (\<lambda>t. status t = Open) post. settleCredit fo t)\<rparr>"
proof (induction post arbitrary: s pre)
  case Nil
  then show ?case by simp
next
  case (Cons t post)
  show ?case
  proof (cases "status t = Open")
    case True
    let ?s1 = "s\<lparr>trades := pre @ settle fo now t # post,
                  currentCapital := currentCapital s + settleCredit fo t\<rparr>"
    have step: "closeTrade s (pt_id t) (if pt_outcome t = fo then 1 else 0) ''expired'' now = ?s1"
      using closeTrade_expiry_step [OF Cons.prems(1) True Cons.prems(2)] .
    have pre': "\<forall>x\<in>set (pre @ [settle fo now t]). status x \<noteq> Open"
      using Cons.prems(1) settle_not_open by auto
    have tr: "trades ?s1 = (pre @ [settle fo now t]) @ post" by simp
    show ?thesis
      using Cons.IH [OF pre' tr] True step
      by (simp add: add.assoc split del: if_split)
  next
    case False
    have pre': "\<forall>x\<in>set (pre @ [t]). status x \<noteq> Open"
      using Cons.prems(1) False by auto
    have tr: "trades s = (pre @ [t]) @ post" using Cons.prems(2) by simp
    have st: "settle fo now t = t" using False by (simp add: settle_def)
    show ?thesis
      using Cons.IH [OF pre' tr] False st by (simp split del: if_split)
  qed
qed

lemma exampleLedger_eq:
  "exampleLedger =
     \<lparr>trades = [\<lparr>pt_id = ''PT-'' @ string_of_nat 1, pt_market = ''0xcond'',
                  marketQuestion = ''BTC up?'', pt_outcome = Yes, entryPrice = 0.52,
                  entryTime = 0, pt_size = 10, cost = 5.2, exitPrice = None, exitTime = None,
                  pnl = None, status = Open, closeReason = None\<rparr>],
      startingCapital = 100, currentCapital = 94.8, tradeIdCounter = 1\<rparr>"
  by (simp add: exampleLedger_def executeTrade_def newPaperTrader_def exampleSignal_def Let_def)

text \<open>
  Claim C1.  For every ledger state and every realized outcome, \<^verbatim>\<open>closeAllTrades\<close> leaves
  the list of trades as it was except that every open trade is closed with exit price 1 if
  its outcome is the realized one and 0 otherwise, with realized PnL
  \<open>size * (1 - entryPrice)\<close> on a win and \<open>- cost\<close> on a loss; the capital grows by
  \<open>cost + pnl\<close> for each trade closed.  Trades that were not open are untouched.
\<close>

theorem C1_closeAllTrades_settles:
  "trades (closeAllTrades s finalOutcome now) = map (settle finalOutcome now) (trades s) \<and>
   currentCapital (closeAllTrades s finalOutcome now) =
     currentCapital s +
     (\<Sum>t\<leftarrow>filter (\<lambda>t. status t = Open) (trades s). settleCredit finalOutcome t)"
proof (cases "filter (\<lambda>t. status t = Open) (trades s) = []")
  case True
  then have "\<forall>t\<in>set (trades s). status t \<noteq> Open"
    by (simp add: filter_empty_conv)
  then have "map (settle finalOutcome now) (trades s) = trades s"
    by (simp add: settle_def map_idI)
  with True show ?thesis by (simp add: closeAllTrades_def)
next
  case False
  have "\<forall>x\<in>set ([]::PaperTrade list). status x \<noteq> Open" by simp
  moreover have "trades s = [] @ trades s" by simp
  ultimately show ?thesis
    using False closeAll_loop [of "[]" s "trades s" finalOutcome now]
    by (simp add: closeAllTrades_def)
qed

text \<open>
  The worked example of claim C1: a trade opened at 0.52 with size 10 on "yes" (cost 5.2,
  capital 94.8 left of 100).  Settled with "yes" it gets exit price 1 and PnL 4.8; settled
  with "no" it gets exit price 0 and PnL -5.2.
\<close>

theorem C1_settlement_example:
  "map (\<lambda>t. (exitPrice t, pnl t, status t)) (trades (closeAllTrades exampleLedger Yes 900000))
     = [(Some 1, Some 4.8, Closed)] \<and>
   currentCapital (closeAllTrades exampleLedger Yes 900000) = 104.8 \<and>
   map (\<lambda>t. (exitPrice t, pnl t, status t)) (trades (closeAllTrades exampleLedger No 900000))
     = [(Some 0, Some (- 5.2), Closed)] \<and>
   currentCapital (closeAllTrades exampleLedger No 900000) = 94.8"
  using C1_closeAllTrades_settles [of exampleLedger Yes 900000]
        C1_closeAllTrades_settles [of exampleLedger No 900000]
  by (simp add: exampleLedger_eq settle_def settleCredit_def)

text \<open>
  Claim C2.  If the cost \<open>price * size\<close> of a signal exceeds the current capital,
  \<^verbatim>\<open>executeTrade\<close> returns no trade and the ledger state it leaves is the state it found.
\<close>

theorem C2_executeTrade_rejects:
  "sig_price signal * sig_size signal > currentCapital s \<Longrightarrow>
   executeTrade s signal question now = (None, s)"
  by (simp add: executeTrade_def)

text \<open>The worked example of claim C2: cost 0.6 * 200 = 120 against a capital of 100.\<close>

theorem C2_rejection_example:
  "sig_price (exampleSignal 0.6 200) * sig_size (exampleSignal 0.6 200) = 120 \<and>
   currentCapital (newPaperTrader 100) = 100 \<and>
   fst (executeTrade (newPaperTrader 100) (exampleSignal 0.6 200) ''BTC up?'' 0) = None \<and>
   currentCapital (snd (executeTrade (newPaperTrader 100) (exampleSignal 0.6 200) ''BTC up?'' 0))
     = 100 \<and>
   trades (snd (executeTrade (newPaperTrader 100) (exampleSignal 0.6 200) ''BTC up?'' 0)) = []"
proof -
  have h: "sig_price (exampleSignal 0.6 200) * sig_size (exampleSignal 0.6 200)
             > currentCapital (newPaperTrader 100)"
    by (simp add: exampleSignal_def newPaperTrader_def)
  show ?thesis
    using C2_executeTrade_rejects [OF h, of "''BTC up?''" 0]
    by (simp add: exampleSignal_def newPaperTrader_def)
qed

subsection \<open>The accounting identity\<close>

text \<open>
  In the exact reading every operation of the ledger keeps the identity, by the
  arithmetic of the reals.
\<close>

lemma update_first_sums:
  assumes "find P xs = Some t" and "\<And>x. P x \<Longrightarrow> status x = Open" and "status y = Closed"
  shows "openCost (update_first P y xs) = openCost xs - cost t"
    and "closedPnl (update_first P y xs) = closedPnl xs + pnlOf y"
  using assms(1)
proof (induction xs)
  case Nil
  { case 1 then show ?case by simp
  next case 2 then show ?case by simp }
next
  case (Cons x xs)
  { case 1
    then show ?case using Cons.IH(1) assms(2) [of x] assms(3)
      by (cases "P x") (auto simp: openCost_def)
  next
    case 2
    then show ?case using Cons.IH(2) assms(2) [of x] assms(3)
      by (cases "P x") (auto simp: closedPnl_def)
  }
qed

lemma update_first_all:
  "list_all Q xs \<Longrightarrow> Q y \<Longrightarrow> list_all Q (update_first P y xs)"
  by (induction xs) auto

lemma closeTrade_inv: "ledgerInv s \<Longrightarrow> ledgerInv (closeTrade s tradeId exit why now)"
proof (cases "find (\<lambda>t. pt_id t = tradeId \<and> status t = Open) (trades s)")
  case None
  assume "ledgerInv s"
  with None show ?thesis by (simp add: closeTrade_def)
next
  case (Some trade)
  assume inv: "ledgerInv s"
  let ?P = "\<lambda>t. pt_id t = tradeId \<and> status t = Open"
  let ?c = "trade\<lparr>exitPrice := Some exit, exitTime := Some now, status := Closed,
                   closeReason := Some why, pnl := Some (closePnl trade exit)\<rparr>"
  have P: "\<And>x. ?P x \<Longrightarrow> status x = Open" by simp
  have c: "status ?c = Closed" by simp
  have oc: "openCost (update_first ?P ?c (trades s)) = openCost (trades s) - cost trade"
    by (rule update_first_sums(1) [OF Some P c])
  have cp: "closedPnl (update_first ?P ?c (trades s)) = closedPnl (trades s) + pnlOf ?c"
    by (rule update_first_sums(2) [OF Some P c])
  have wf: "wellFormedTrade ?c" by (simp add: wellFormedTrade_def)
  have all: "list_all wellFormedTrade (update_first ?P ?c (trades s))"
    using inv wf by (simp add: ledgerInv_def update_first_all)
  have st: "closeTrade s tradeId exit why now =
        s\<lparr>trades := update_first ?P ?c (trades s),
          currentCapital := currentCapital s + (cost trade + closePnl trade exit)\<rparr>"
    using Some by (simp add: closeTrade_def)
  show ?thesis
    unfolding st using inv all oc cp by (simp add: ledgerInv_def pnlOf_def)
qed

lemma closeTrade_loop_inv:
  "ledgerInv s \<Longrightarrow> ledgerInv (foldl (\<lambda>s' trade. closeTrade s' (f trade) (g trade) r now) s ts)"
  by (induction ts arbitrary: s) (simp_all add: closeTrade_inv)

lemma closeAllTrades_inv: "ledgerInv s \<Longrightarrow> ledgerInv (closeAllTrades s fo now)"
  by (simp add: closeAllTrades_def Let_def closeTrade_loop_inv)

lemma executeTrade_inv: "ledgerInv s \<Longrightarrow> ledgerInv (snd (executeTrade s signal q now))"
  by (simp add: executeTrade_def Let_def ledgerInv_def openCost_def closedPnl_def
      wellFormedTrade_def)

lemma reset_inv: "ledgerInv (reset s newCapital)"
  by (simp add: reset_def Let_def ledgerInv_def openCost_def closedPnl_def)

lemma newPaperTrader_inv: "ledgerInv (newPaperTrader c)"
  by (simp add: newPaperTrader_def ledgerInv_def openCost_def closedPnl_def)

text \<open>
  In the binary64 reading the capital is rounded after every change, and so are the
  amounts added to it.  The defect of a state measures how far the identity is from
  holding.
\<close>

lemma ledgerInv_defect: "ledgerInv s = (list_all wellFormedTrade (trades s) \<and> defect s = 0)"
  by (auto simp add: ledgerInv_def defect_def)

lemma closePnl64_one: "closePnl64 t 1 = fl (pt_size t * fl (1 - entryPrice t))"
  using fl_one(2) by (simp add: closePnl64_def)

lemma closePnl64_zero: "closePnl64 t 0 = - cost t"
proof -
  have "\<not> (0::real) \<ge> fl 0.99" by (simp add: fl_eval)
  then show ?thesis using fl_one(3) by (simp add: closePnl64_def)
qed

lemma closeTrade64_expiry_step:
  assumes "\<forall>x\<in>set pre. status x \<noteq> Open" and "status t = Open"
    and "trades s = pre @ t # rest"
  shows "closeTrade64 s (pt_id t) (if pt_outcome t = fo then 1 else 0) ''expired'' now =
         s\<lparr>trades := pre @ settle64 fo now t # rest,
           currentCapital := fl (currentCapital s + fl (cost t + settlePnl64 fo t))\<rparr>"
proof -
  let ?P = "\<lambda>x. pt_id x = pt_id t \<and> status x = Open"
  have a: "\<forall>x\<in>set pre. \<not> ?P x" using assms(1) by simp
  have b: "?P t" using assms(2) by simp
  have f: "find ?P (trades s) = Some t"
    unfolding assms(3) by (rule find_skip_prefix [OF a b])
  have u: "\<And>y. update_first ?P y (trades s) = pre @ y # rest"
    unfolding assms(3) by (rule update_first_skip_prefix [OF a b])
  show ?thesis
    using assms(2)
    by (simp add: closeTrade64_def f u Let_def settle64_def settlePnl64_def
        closePnl64_one closePnl64_zero)
qed

lemma settle64_not_open: "status (settle64 fo now t) \<noteq> Open"
  by (simp add: settle64_def)

lemma closeAll64_loop:
  "\<forall>x\<in>set pre. status x \<noteq> Open \<Longrightarrow> trades s = pre @ post \<Longrightarrow>
   foldl (\<lambda>s' trade. closeTrade64 s' (pt_id trade)
                     (if pt_outcome trade = fo then 1 else 0) ''expired'' now)
         s (filter (\<lambda>t. status t = Open) post) =
   s\<lparr>trades := pre @ map (settle64 fo now) post,
     currentCapital := settleCapital fo (currentCapital s) (filter (\<lambda>t. status t = Open) post)\<rparr>"
proof (induction post arbitrary: s pre)
  case Nil
  then show ?case by simp
next
  case (Cons t post)
  show ?case
  proof (cases "status t = Open")
    case True
    let ?s1 = "s\<lparr>trades := pre @ settle64 fo now t # post,
                  currentCapital := fl (currentCapital s + fl (cost t + settlePnl64 fo t))\<rparr>"
    have step: "closeTrade64 s (pt_id t) (if pt_outcome t = fo then 1 else 0) ''expired'' now = ?s1"
      using closeTrade64_expiry_step [OF Cons.prems(1) True Cons.prems(2)] .
    have pre': "\<forall>x\<in>set (pre @ [settle64 fo now t]). status x \<noteq> Open"
      using Cons.prems(1) settle64_not_open by auto
    have tr: "trades ?s1 = (pre @ [settle64 fo now t]) @ post" by simp
    show ?thesis
      using Cons.IH [OF pre' tr] True step
      by (simp split del: if_split)
  next
    case False
    have pre': "\<forall>x\<in>set (pre @ [t]). status x \<noteq> Open"
      using Cons.prems(1) False by auto
    have tr: "trades s = (pre @ [t]) @ post" using Cons.prems(2) by simp
    have st: "settle64 fo now t = t" using False by (simp add: settle64_def)
    show ?thesis
      using Cons.IH [OF pre' tr] False st by (simp split del: if_split)
  qed
qed

lemma closeAllTrades64_eq:
  "closeAllTrades64 s fo now =
     s\<lparr>trades := map (settle64 fo now) (trades s),
       currentCapital := settleCapital fo (currentCapital s)
                           (filter (\<lambda>t. status t = Open) (trades s))\<rparr>"
proof (cases "filter (\<lambda>t. status t = Open) (trades s) = []")
  case True
  then have "\<forall>t\<in>set (trades s). status t \<noteq> Open"
    by (simp add: filter_empty_conv)
  then have "map (settle64 fo now) (trades s) = trades s"
    by (simp add: settle64_def map_idI)
  with True show ?thesis by (simp add: closeAllTrades64_def)
next
  case False
  have "\<forall>x\<in>set ([]::PaperTrade list). status x \<noteq> Open" by simp
  moreover have "trades s = [] @ trades s" by simp
  ultimately show ?thesis
    using False closeAll64_loop [of "[]" s "trades s" fo now]
    by (simp add: closeAllTrades64_def)
qed

lemma settled_sums:
  "openCost (map (settle64 fo now) ts) = 0"
  "closedPnl (map (settle64 fo now) ts) =
     closedPnl ts + (\<Sum>t\<leftarrow>filter (\<lambda>t. status t = Open) ts. settlePnl64 fo t)"
  by (induction ts) (auto simp add: openCost_def closedPnl_def settle64_def pnlOf_def)

lemma settleCapital_drift:
  "\<bar>settleCapital fo c ts - (c + (\<Sum>t\<leftarrow>ts. cost t + settlePnl64 fo t))\<bar> \<le> settlementDrift fo c ts"
proof (induction ts arbitrary: c)
  case Nil
  show ?case by simp
next
  case (Cons t ts)
  let ?x = "cost t + settlePnl64 fo t"
  let ?c1 = "fl (c + fl ?x)"
  have e1: "\<bar>fl ?x - ?x\<bar> \<le> roundingBound ?x" by (rule fl_error)
  have e2: "\<bar>?c1 - (c + fl ?x)\<bar> \<le> roundingBound (c + fl ?x)" by (rule fl_error)
  have ih: "\<bar>settleCapital fo ?c1 ts - (?c1 + (\<Sum>t\<leftarrow>ts. cost t + settlePnl64 fo t))\<bar>
              \<le> settlementDrift fo ?c1 ts"
    by (rule Cons.IH)
  show ?case using e1 e2 ih by simp
qed

lemma wellFormed_settle64: "wellFormedTrade t \<Longrightarrow> wellFormedTrade (settle64 fo now t)"
  by (auto simp add: wellFormedTrade_def settle64_def)

lemma closeAllTrades64_defect:
  "\<bar>defect (closeAllTrades64 s fo now) - defect s\<bar>
     \<le> settlementDrift fo (currentCapital s) (filter (\<lambda>t. status t = Open) (trades s))"
proof -
  let ?o = "filter (\<lambda>t. status t = Open) (trades s)"
  have oc: "openCost (trades s) = (\<Sum>t\<leftarrow>?o. cost t)" by (simp add: openCost_def)
  have split: "(\<Sum>t\<leftarrow>?o. cost t + settlePnl64 fo t)
                = (\<Sum>t\<leftarrow>?o. cost t) + (\<Sum>t\<leftarrow>?o. settlePnl64 fo t)"
    by (simp add: sum_list_addf)
  have "defect (closeAllTrades64 s fo now) - defect s
          = settleCapital fo (currentCapital s) ?o
            - (currentCapital s + (\<Sum>t\<leftarrow>?o. cost t + settlePnl64 fo t))"
    unfolding split by (simp add: defect_def closeAllTrades64_eq settled_sums oc)
  then show ?thesis using settleCapital_drift [of fo "currentCapital s" ?o] by simp
qed

lemma executeTrade64_defect:
  "\<bar>defect (snd (executeTrade64 s signal q now)) - defect s\<bar>
     \<le> roundingBound (currentCapital s - fl (sig_price signal * sig_size signal))"
proof (cases "fl (sig_price signal * sig_size signal) > currentCapital s")
  case True
  then show ?thesis by (simp add: executeTrade64_def roundingBound_nonneg)
next
  case False
  let ?c = "fl (sig_price signal * sig_size signal)"
  have "defect (snd (executeTrade64 s signal q now)) - defect s
          = fl (currentCapital s - ?c) - (currentCapital s - ?c)"
    using False by (simp add: executeTrade64_def Let_def defect_def openCost_def closedPnl_def)
  then show ?thesis using fl_error [of "currentCapital s - ?c"] by simp
qed

lemma closeTrade64_defect:
  assumes "find (\<lambda>t. pt_id t = tradeId \<and> status t = Open) (trades s) = Some trade"
  shows "\<bar>defect (closeTrade64 s tradeId exit why now) - defect s\<bar>
     \<le> roundingBound (cost trade + closePnl64 trade exit)
       + roundingBound (currentCapital s + fl (cost trade + closePnl64 trade exit))"
proof -
  let ?P = "\<lambda>t. pt_id t = tradeId \<and> status t = Open"
  let ?c = "trade\<lparr>exitPrice := Some exit, exitTime := Some now, status := Closed,
                   closeReason := Some why, pnl := Some (closePnl64 trade exit)\<rparr>"
  let ?x = "cost trade + closePnl64 trade exit"
  have P: "\<And>x. ?P x \<Longrightarrow> status x = Open" by simp
  have c: "status ?c = Closed" by simp
  have oc: "openCost (update_first ?P ?c (trades s)) = openCost (trades s) - cost trade"
    by (rule update_first_sums(1) [OF assms P c])
  have cp: "closedPnl (update_first ?P ?c (trades s)) = closedPnl (trades s) + pnlOf ?c"
    by (rule update_first_sums(2) [OF assms P c])
  have st: "closeTrade64 s tradeId exit why now =
        s\<lparr>trades := update_first ?P ?c (trades s),
          currentCapital := fl (currentCapital s + fl ?x)\<rparr>"
    using assms by (simp add: closeTrade64_def)
  have "defect (closeTrade64 s tradeId exit why now) - defect s
          = (fl (currentCapital s + fl ?x) - (currentCapital s + fl ?x)) + (fl ?x - ?x)"
    unfolding st by (simp add: defect_def oc cp pnlOf_def)
  then show ?thesis
    using fl_error [of ?x] fl_error [of "currentCapital s + fl ?x"] by simp
qed

lemma closeTrade64_missing:
  "find (\<lambda>t. pt_id t = tradeId \<and> status t = Open) (trades s) = None \<Longrightarrow>
   closeTrade64 s tradeId exit why now = s"
  by (simp add: closeTrade64_def)

lemma closeTrade64_wellFormed:
  "list_all wellFormedTrade (trades s) \<Longrightarrow>
   list_all wellFormedTrade (trades (closeTrade64 s tradeId exit why now))"
  by (cases "find (\<lambda>t. pt_id t = tradeId \<and> status t = Open) (trades s)")
     (simp_all add: closeTrade64_def update_first_all wellFormedTrade_def)

lemma executeTrade64_wellFormed:
  "list_all wellFormedTrade (trades s) \<Longrightarrow>
   list_all wellFormedTrade (trades (snd (executeTrade64 s signal q now)))"
  by (simp add: executeTrade64_def Let_def wellFormedTrade_def)

lemma closeAllTrades64_wellFormed:
  "list_all wellFormedTrade (trades s) \<Longrightarrow>
   list_all wellFormedTrade (trades (closeAllTrades64 s fo now))"
  by (simp add: closeAllTrades64_eq list_all_iff wellFormed_settle64)

lemma fineSignal_cost: "fl (sig_price fineSignal * sig_size fineSignal) = 3602879701896397 / 2 ^ 55"
  unfolding fineSignal_def exampleSignal_def by (simp add: fl_tenth) (simp add: fl_eval)

lemma fineLedger_capital: "currentCapital fineLedger = 3514918771674317 / 2 ^ 45"
  unfolding fineLedger_def executeTrade64_def fineSignal_cost Let_def newPaperTrader_def
  by (simp add: fl_eval)

lemma fineLedger_trades:
  "trades fineLedger = [fineTrade]"
  "startingCapital fineLedger = 100" "tradeIdCounter fineLedger = 1"
  unfolding fineLedger_def executeTrade64_def fineSignal_cost Let_def newPaperTrader_def
  by (simp_all add: fineSignal_def exampleSignal_def fineTrade_def)

lemma fineLedger2_capital: "currentCapital fineLedger2 = 1755700167232717 / 2 ^ 44"
  unfolding fineLedger2_def executeTrade64_def fineSignal_cost Let_def fineLedger_capital
  by (simp add: fl_eval)

lemma fineLedger2_sums:
  "startingCapital fineLedger2 = 100"
  "openCost (trades fineLedger2) = 2 * (3602879701896397 / 2 ^ 55)"
  "closedPnl (trades fineLedger2) = 0"
  unfolding fineLedger2_def executeTrade64_def fineSignal_cost Let_def fineLedger_capital
  by (simp_all add: fineLedger_trades fineTrade_def openCost_def closedPnl_def)

text \<open>
  Claim C10 fails as stated.  From a new ledger with a capital of 100, on which the
  identity holds, two trades at the price 0.1 for the size 1 are accepted.  Each costs
  the binary64 value 3602879701896397 / 2^55 nearest to 0.1, and each subtraction from
  the capital is rounded: the capital is then 1755700167232717 / 2^44, which is
  99.80000000000001136..., while the starting capital less the cost of the two open
  trades is 99.79999999999999998....  Evaluated in binary64 the right-hand side
  \<open>100 - (0.1 + 0.1)\<close> is 7022800668930867 / 2^46, which is 99.79999999999999715...,
  and differs from the capital as well.  The identity no longer holds.
\<close>

theorem C10_identity_counterexample:
  "ledgerInv (newPaperTrader 100) \<and>
   fst (executeTrade64 (newPaperTrader 100) fineSignal ''BTC up?'' 0) \<noteq> None \<and>
   fst (executeTrade64 fineLedger fineSignal ''BTC up?'' 5) \<noteq> None \<and>
   currentCapital fineLedger2 = 1755700167232717 / 2 ^ 44 \<and>
   startingCapital fineLedger2 - openCost (trades fineLedger2) + closedPnl (trades fineLedger2)
     = 100 - 2 * (3602879701896397 / 2 ^ 55) \<and>
   fl (100 - fl (fl 0.1 + fl 0.1)) = 7022800668930867 / 2 ^ 46 \<and>
   \<not> ledgerInv fineLedger2"
proof -
  have a: "ledgerInv (newPaperTrader 100)" by (rule newPaperTrader_inv)
  have b: "fl (100 - fl (fl 0.1 + fl 0.1)) = 7022800668930867 / 2 ^ 46"
    unfolding fl_tenth by (simp add: fl_eval)
  have c: "\<not> ledgerInv fineLedger2"
    by (simp add: ledgerInv_def fineLedger2_capital fineLedger2_sums)
  have d: "fst (executeTrade64 (newPaperTrader 100) fineSignal ''BTC up?'' 0) \<noteq> None"
    unfolding executeTrade64_def fineSignal_cost Let_def newPaperTrader_def by simp
  have e: "fst (executeTrade64 fineLedger fineSignal ''BTC up?'' 5) \<noteq> None"
    unfolding executeTrade64_def fineSignal_cost Let_def fineLedger_capital by simp
  show ?thesis using a b c d e by (simp add: fineLedger2_capital fineLedger2_sums)
qed

text \<open>
  Claim C10 as amended.  In the binary64 reading every operation of the ledger keeps
  every trade either open with no exit fields or closed with its pnl set, and keeps the
  accounting identity up to the rounding of the additions and subtractions it makes on
  the capital.  With \<open>defect\<close> the difference between \<open>currentCapital\<close> and
  \<open>startingCapital - (cost of the open trades) + (pnl of the closed trades)\<close>:
  \<^verbatim>\<open>reset\<close> makes the identity hold exactly; \<^verbatim>\<open>executeTrade\<close> changes the defect by at most
  the rounding bound of the one subtraction; \<^verbatim>\<open>closeTrade\<close> changes it by at most the
  rounding bounds of its two additions when it finds the trade, and leaves the ledger as
  it is when it does not; \<^verbatim>\<open>closeAllTrades\<close> changes it by at most the sum of these bounds
  over the trades it closes.  The rounding bound of a value \<open>x\<close> is \<open>|x| / 2^53\<close> (and
  \<open>2^-1075\<close> for the smallest values).
\<close>

theorem C10_accounting_identity_up_to_rounding:
  assumes "list_all wellFormedTrade (trades s)"
  shows "list_all wellFormedTrade (trades (snd (executeTrade64 s signal question now))) \<and>
         list_all wellFormedTrade (trades (closeTrade64 s tradeId exit why now)) \<and>
         list_all wellFormedTrade (trades (closeAllTrades64 s finalOutcome now)) \<and>
         ledgerInv (reset s newCapital) \<and>
         \<bar>defect (snd (executeTrade64 s signal question now)) - defect s\<bar>
           \<le> roundingBound (currentCapital s - fl (sig_price signal * sig_size signal)) \<and>
         (\<forall>trade. find (\<lambda>t. pt_id t = tradeId \<and> status t = Open) (trades s) = Some trade \<longrightarrow>
            \<bar>defect (closeTrade64 s tradeId exit why now) - defect s\<bar>
              \<le> roundingBound (cost trade + closePnl64 trade exit)
                + roundingBound (currentCapital s + fl (cost trade + closePnl64 trade exit))) \<and>
         (find (\<lambda>t. pt_id t = tradeId \<and> status t = Open) (trades s) = None \<longrightarrow>
            closeTrade64 s tradeId exit why now = s) \<and>
         \<bar>defect (closeAllTrades64 s finalOutcome now) - defect s\<bar>
           \<le> settlementDrift finalOutcome (currentCapital s)
                 (filter (\<lambda>t. status t = Open) (trades s))"
  using assms
  by (simp add: executeTrade64_wellFormed closeTrade64_wellFormed closeAllTrades64_wellFormed
      reset_inv executeTrade64_defect closeTrade64_defect closeTrade64_missing
      closeAllTrades64_defect)

lemma fineLedger_wellFormed: "list_all wellFormedTrade (trades fineLedger)"
  by (simp add: fineLedger_trades fineTrade_def wellFormedTrade_def)

lemma fineLedger_defect: "defect fineLedger = 205 / 2 ^ 55"
  by (simp add: defect_def fineLedger_capital fineLedger_trades fineTrade_def openCost_def
      closedPnl_def)

lemma fineLedger2_defect: "defect fineLedger2 = 205 / 2 ^ 54"
  by (simp add: defect_def fineLedger2_capital fineLedger2_sums)

lemma fine_rounding:
  "roundingBound (currentCapital fineLedger - fl (sig_price fineSignal * sig_size fineSignal))
     \<le> 100 / 2 ^ 53"
  unfolding fineSignal_cost fineLedger_capital by (simp add: roundingBound_def)

lemma fine_find:
  "find (\<lambda>t. pt_id t = ''PT-'' @ string_of_nat 1 \<and> status t = Open) (trades fineLedger)
     = Some fineTrade"
  unfolding fineLedger_trades by (simp add: fineTrade_def)

lemma fine_find_none:
  "find (\<lambda>t. pt_id t = ''PT-'' @ string_of_nat 2 \<and> status t = Open) (trades fineLedger) = None"
  unfolding fineLedger_trades by (simp add: fineTrade_def string_of_nat.simps digit_char_def)

lemma fine_partial_pnl: "closePnl64 fineTrade (fl 0.7) = 5404319552844595 / 2 ^ 53"
proof -
  have a: "\<not> fl 0.7 \<ge> fl 0.99" "\<not> fl 0.7 \<le> fl 0.01" by (simp_all add: fl_eval)
  have "closePnl64 fineTrade (fl 0.7) = fl (1 * fl (fl 0.7 - fl 0.1))"
    using a by (simp add: closePnl64_def fineTrade_def)
  also have "\<dots> = 5404319552844595 / 2 ^ 53"
    unfolding fl_seven_tenths fl_tenth by (simp add: fl_eval)
  finally show ?thesis .
qed

lemma fine_close_bound:
  "roundingBound (cost fineTrade + closePnl64 fineTrade (fl 0.7))
     + roundingBound (currentCapital fineLedger
                      + fl (cost fineTrade + closePnl64 fineTrade (fl 0.7)))
   \<le> 102 / 2 ^ 53"
proof -
  have c: "cost fineTrade = 3602879701896397 / 2 ^ 55" by (simp add: fineTrade_def)
  have x: "\<bar>cost fineTrade + closePnl64 fineTrade (fl 0.7)\<bar> \<le> 1"
    unfolding c fine_partial_pnl by simp
  have f: "fl (cost fineTrade + closePnl64 fineTrade (fl 0.7)) \<le> 1"
    "0 \<le> fl (cost fineTrade + closePnl64 fineTrade (fl 0.7))"
    unfolding c fine_partial_pnl by (simp_all add: fl_eval)
  have r1: "roundingBound (cost fineTrade + closePnl64 fineTrade (fl 0.7)) \<le> 1 / 2 ^ 53"
    using x by (intro roundingBound_le) simp_all
  have y: "\<bar>currentCapital fineLedger + fl (cost fineTrade + closePnl64 fineTrade (fl 0.7))\<bar>
             \<le> 101"
    using f unfolding fineLedger_capital by simp
  have r2: "roundingBound (currentCapital fineLedger
              + fl (cost fineTrade + closePnl64 fineTrade (fl 0.7))) \<le> 101 / 2 ^ 53"
    using y by (intro roundingBound_le) simp_all
  show ?thesis using r1 r2 by linarith
qed

lemma fine_settle_pnl: "settlePnl64 Yes fineTrade = 8106479329266893 / 2 ^ 53"
proof -
  have "settlePnl64 Yes fineTrade = fl (1 * fl (1 - fl 0.1))"
    by (simp add: settlePnl64_def fineTrade_def)
  also have "\<dots> = 8106479329266893 / 2 ^ 53"
    unfolding fl_tenth by (simp add: fl_eval)
  finally show ?thesis .
qed

lemma fine_settle_bound:
  "settlementDrift Yes (currentCapital fineLedger) [fineTrade] \<le> 103 / 2 ^ 53"
proof -
  have c: "cost fineTrade = 3602879701896397 / 2 ^ 55" by (simp add: fineTrade_def)
  have x: "\<bar>cost fineTrade + settlePnl64 Yes fineTrade\<bar> \<le> 2"
    unfolding c fine_settle_pnl by simp
  have f: "fl (cost fineTrade + settlePnl64 Yes fineTrade) = 1"
    unfolding c fine_settle_pnl by (simp add: fl_eval)
  have r1: "roundingBound (cost fineTrade + settlePnl64 Yes fineTrade) \<le> 2 / 2 ^ 53"
    using x by (intro roundingBound_le) simp_all
  have r2: "roundingBound (currentCapital fineLedger
              + fl (cost fineTrade + settlePnl64 Yes fineTrade)) \<le> 101 / 2 ^ 53"
    unfolding f fineLedger_capital by (intro roundingBound_le) simp_all
  show ?thesis using r1 r2 by simp
qed

text \<open>
  Instances of the amended claim C10 on the ledger after one trade at 0.1 for the size
  1: its defect is 205 / 2^55; a second such trade, a partial close of the first trade
  at 0.7 and its settlement as a win each move the defect by no more than about
  100 / 2^53, which is 1.1e-14; closing an unknown trade changes nothing; a reset
  restores the identity.
\<close>

theorem C10_rounding_example:
  "list_all wellFormedTrade (trades fineLedger) \<and>
   list_all wellFormedTrade (trades fineLedger2) \<and>
   ledgerInv (reset fineLedger (Some 250)) \<and>
   defect fineLedger = 205 / 2 ^ 55 \<and>
   defect fineLedger2 = 205 / 2 ^ 54 \<and>
   \<bar>defect fineLedger2 - defect fineLedger\<bar> \<le> 100 / 2 ^ 53 \<and>
   \<bar>defect (closeTrade64 fineLedger (''PT-'' @ string_of_nat 1) (fl 0.7) ''manual'' 5)
      - defect fineLedger\<bar> \<le> 102 / 2 ^ 53 \<and>
   closeTrade64 fineLedger (''PT-'' @ string_of_nat 2) (fl 0.7) ''manual'' 5 = fineLedger \<and>
   \<bar>defect (closeAllTrades64 fineLedger Yes 5) - defect fineLedger\<bar> \<le> 103 / 2 ^ 53"
proof -
  note ex = C10_accounting_identity_up_to_rounding [OF fineLedger_wellFormed,
        of fineSignal "''BTC up?''" 5 "''PT-'' @ string_of_nat 1" "fl 0.7" "''manual''"
           Yes "Some 250"]
  note missing = C10_accounting_identity_up_to_rounding [OF fineLedger_wellFormed,
        of fineSignal "''BTC up?''" 5 "''PT-'' @ string_of_nat 2" "fl 0.7" "''manual''"
           Yes "Some 250"]
  have "\<bar>defect fineLedger2 - defect fineLedger\<bar>
          \<le> roundingBound (currentCapital fineLedger
                             - fl (sig_price fineSignal * sig_size fineSignal))"
    unfolding fineLedger2_def using ex by blast
  then have d: "\<bar>defect fineLedger2 - defect fineLedger\<bar> \<le> 100 / 2 ^ 53"
    using fine_rounding by linarith
  have w: "list_all wellFormedTrade (trades fineLedger2)"
    unfolding fineLedger2_def using ex by blast
  have r: "ledgerInv (reset fineLedger (Some 250))"
    using ex by blast
  have "\<bar>defect (closeTrade64 fineLedger (''PT-'' @ string_of_nat 1) (fl 0.7) ''manual'' 5)
          - defect fineLedger\<bar>
        \<le> roundingBound (cost fineTrade + closePnl64 fineTrade (fl 0.7))
          + roundingBound (currentCapital fineLedger
                           + fl (cost fineTrade + closePnl64 fineTrade (fl 0.7)))"
    using ex fine_find by blast
  then have c: "\<bar>defect (closeTrade64 fineLedger (''PT-'' @ string_of_nat 1) (fl 0.7) ''manual'' 5)
          - defect fineLedger\<bar> \<le> 102 / 2 ^ 53"
    using fine_close_bound by linarith
  have m: "closeTrade64 fineLedger (''PT-'' @ string_of_nat 2) (fl 0.7) ''manual'' 5 = fineLedger"
    using missing fine_find_none by blast
  have "\<bar>defect (closeAllTrades64 fineLedger Yes 5) - defect fineLedger\<bar>
          \<le> settlementDrift Yes (currentCapital fineLedger)
               (filter (\<lambda>t. status t = Open) (trades fineLedger))"
    using ex by blast
  moreover have "filter (\<lambda>t. status t = Open) (trades fineLedger) = [fineTrade]"
    unfolding fineLedger_trades by (simp add: fineTrade_def)
  ultimately have a: "\<bar>defect (closeAllTrades64 fineLedger Yes 5) - defect fineLedger\<bar>
          \<le> 103 / 2 ^ 53"
    using fine_settle_bound by simp
  show ?thesis
    using d w r c m a fineLedger_wellFormed fineLedger_defect fineLedger2_defect by blast
qed

section \<open>Properties of the position sizing\<close>

lemma Math_round_mono: "x \<le> y \<Longrightarrow> Math_round x \<le> Math_round y"
  by (simp add: Math_round_def floor_mono)

lemma calculatePositionSize_split:
  "calculatePositionSize cfg s price =
     sizeFromKelly (kellyFraction cfg) (kellyOf (confidence s) price)"
  by (simp only: calculatePositionSize_def sizeFromKelly_def kellyOf_def Let_def)

text \<open>
  For a price that is a binary64 value strictly between 0 and 1, the implied odds
  \<open>b\<close> are positive and finite: the division by \<open>b\<close> is defined and nothing overflows.
\<close>

lemma impliedOdds_range:
  assumes "2 powi (- 1022) \<le> price" and "price \<le> 1 - 1 / 2 ^ 53"
  shows "0 < fl (fl (1 - price) / price)" and "fl (fl (1 - price) / price) \<le> 2 ^ 1022"
proof -
  have pmin: "(1::real) / 2 ^ 1022 \<le> price"
    using assms(1) by (simp add: power_int_minus_divide)
  have ppos: "0 < price" using pmin by (rule less_le_trans [rotated]) simp
  have "1 / 2 ^ 53 \<le> 1 - price" using assms(2) by simp
  then have "fl (1 / 2 ^ 53) \<le> fl (1 - price)" by (rule fl_mono)
  then have lo: "1 / 2 ^ 53 \<le> fl (1 - price)" by (simp only: fl_small_power)
  have "fl (1 - price) \<le> fl 1" using ppos by (intro fl_mono) simp
  moreover have "fl 1 = 1" by (simp add: fl_eval)
  ultimately have hi: "fl (1 - price) \<le> 1" by simp
  have "price < 1" using assms(2) by (rule le_less_trans) simp
  have "1 / 2 ^ 53 \<le> fl (1 - price) / price"
  proof -
    have "1 / 2 ^ 53 \<le> fl (1 - price) / 1" using lo by simp
    also have "\<dots> \<le> fl (1 - price) / price"
      using \<open>price < 1\<close> ppos lo by (intro divide_left_mono) simp_all
    finally show ?thesis .
  qed
  then have "fl (1 / 2 ^ 53) \<le> fl (fl (1 - price) / price)" by (rule fl_mono)
  then have "1 / 2 ^ 53 \<le> fl (fl (1 - price) / price)" by (simp only: fl_small_power)
  then show "0 < fl (fl (1 - price) / price)" by (rule less_le_trans [rotated]) simp
  have "fl (1 - price) / price \<le> 1 / price"
    using hi ppos by (simp add: divide_right_mono)
  also have "\<dots> \<le> 2 ^ 1022"
  proof -
    have "1 \<le> 2 ^ 1022 * price" using pmin by (simp add: field_simps)
    then show ?thesis using ppos by (simp add: divide_le_eq)
  qed
  finally have "fl (fl (1 - price) / price) \<le> fl (2 ^ 1022)" by (rule fl_mono)
  then show "fl (fl (1 - price) / price) \<le> 2 ^ 1022" by (simp only: fl_big_power)
qed

text \<open>Every step of the computation is monotone, and rounding is monotone.\<close>

lemma kellyOf_mono:
  assumes "0 \<le> fl (fl (1 - price) / price)" and "p \<le> p'"
  shows "kellyOf p price \<le> kellyOf p' price"
proof -
  let ?b = "fl (fl (1 - price) / price)"
  have "fl (p * ?b) \<le> fl (p' * ?b)"
    using assms by (intro fl_mono mult_right_mono)
  moreover have "fl (1 - p') \<le> fl (1 - p)"
    using assms(2) by (intro fl_mono) simp
  ultimately have "fl (p * ?b) - fl (1 - p) \<le> fl (p' * ?b) - fl (1 - p')" by linarith
  then have "fl (fl (p * ?b) - fl (1 - p)) \<le> fl (fl (p' * ?b) - fl (1 - p'))" by (rule fl_mono)
  then have "fl (fl (p * ?b) - fl (1 - p)) / ?b \<le> fl (fl (p' * ?b) - fl (1 - p')) / ?b"
    using assms(1) by (rule divide_right_mono)
  then show ?thesis unfolding kellyOf_def Let_def by (rule fl_mono)
qed

lemma sizeFromKelly_mono:
  assumes "0 \<le> fraction" and "k \<le> k'"
  shows "sizeFromKelly fraction k \<le> sizeFromKelly fraction k'"
proof -
  have "fl (k * fraction) \<le> fl (k' * fraction)"
    using assms by (intro fl_mono mult_right_mono)
  then have "max 0 (fl (k * fraction)) * 100 \<le> max 0 (fl (k' * fraction)) * 100"
    by (intro mult_right_mono max.mono) simp_all
  then have "fl (max 0 (fl (k * fraction)) * 100) \<le> fl (max 0 (fl (k' * fraction)) * 100)"
    by (rule fl_mono)
  then have "min 100 (fl (max 0 (fl (k * fraction)) * 100)) * 100
           \<le> min 100 (fl (max 0 (fl (k' * fraction)) * 100)) * 100"
    by (intro mult_right_mono min.mono) simp_all
  then have "Math_round (fl (min 100 (fl (max 0 (fl (k * fraction)) * 100)) * 100)) / 100
           \<le> Math_round (fl (min 100 (fl (max 0 (fl (k' * fraction)) * 100)) * 100)) / 100"
    by (intro divide_right_mono Math_round_mono fl_mono) simp_all
  then show ?thesis unfolding sizeFromKelly_def by (rule fl_mono)
qed

text \<open>The size is a whole number of cents between 0 and 10000, divided by 100.\<close>

lemma sizeFromKelly_cents:
  "\<exists>n::int. 0 \<le> n \<and> n \<le> 10000 \<and> sizeFromKelly fraction k = fl (of_int n / 100)"
proof -
  let ?s = "min 100 (fl (max 0 (fl (k * fraction)) * 100))"
  let ?n = "\<lfloor>fl (?s * 100) + 1 / 2\<rfloor>"
  have s0: "0 \<le> ?s"
    by (intro min.boundedI fl_nonneg mult_nonneg_nonneg) simp_all
  have s1: "?s \<le> 100" by simp
  have "0 \<le> fl (?s * 100)" using s0 by (intro fl_nonneg) simp
  then have n0: "0 \<le> ?n" by simp
  have "fl (?s * 100) \<le> fl 10000" using s1 by (intro fl_mono) simp
  then have "fl (?s * 100) \<le> 10000" by (simp only: fl_hundred)
  then have "fl (?s * 100) + 1 / 2 < of_int 10001" by simp
  then have "?n < 10001" by (simp only: floor_less_iff)
  then have n1: "?n \<le> 10000" by simp
  have "sizeFromKelly fraction k = fl (of_int ?n / 100)"
    by (simp only: sizeFromKelly_def Math_round_def)
  with n0 n1 show ?thesis by blast
qed

lemma sizeFromKelly_range: "0 \<le> sizeFromKelly fraction k \<and> sizeFromKelly fraction k \<le> 100"
proof -
  obtain n :: int where n: "0 \<le> n" "n \<le> 10000" "sizeFromKelly fraction k = fl (of_int n / 100)"
    using sizeFromKelly_cents by blast
  have "0 \<le> real_of_int n / 100" using n(1) by simp
  then have lo: "0 \<le> fl (of_int n / 100)" by (rule fl_nonneg)
  have "real_of_int n \<le> of_int 10000" using n(2) by (simp only: of_int_le_iff)
  then have "real_of_int n / 100 \<le> 100" by simp
  then have "fl (of_int n / 100) \<le> fl 100" by (rule fl_mono)
  then have hi: "fl (of_int n / 100) \<le> 100" by (simp only: fl_hundred)
  show ?thesis using lo hi n(3) by simp
qed

text \<open>
  How far the binary64 computation is from the exact formula.  One rounding of a value in
  the normal range has a relative error of at most \<open>2^-53\<close>; the odds \<open>b\<close> therefore
  have a relative error of at most \<open>3 * 2^-53\<close>.  When the exact Kelly fraction is below
  -1 the computed one is not positive and both sizes are 0; otherwise the computed Kelly
  fraction is within \<open>40 * 2^-53\<close> of the exact one, and, for a multiplier of at most 1,
  the amount in cents before the final rounding is within 1 of the exact amount.
\<close>

lemma fl_rel:
  assumes "2 powi (- 1022) \<le> \<bar>x\<bar>"
  shows "\<bar>fl x - x\<bar> \<le> \<bar>x\<bar> / 2 ^ 53"
proof -
  have "(2::real) powi (- 1075) = 2 powi (- 1022) / 2 ^ 53"
    by (simp add: power_int_minus_divide)
  also have "\<dots> \<le> \<bar>x\<bar> / 2 ^ 53" using assms by (rule divide_right_mono) simp
  finally have "roundingBound x = \<bar>x\<bar> / 2 ^ 53" by (simp add: roundingBound_def max_def)
  then show ?thesis using fl_error [of x] by simp
qed

lemma fl_abs: "\<bar>fl x - x\<bar> \<le> \<bar>x\<bar> / 2 ^ 53 + 2 powi (- 1075)"
proof -
  have "roundingBound x \<le> \<bar>x\<bar> / 2 ^ 53 + 2 powi (- 1075)"
    by (simp add: roundingBound_def)
  then show ?thesis using fl_error [of x] by linarith
qed

lemma round_floor_close:
  fixes a b :: real
  assumes "\<bar>a - b\<bar> \<le> 1"
  shows "\<bar>\<lfloor>a + 1 / 2\<rfloor> - \<lfloor>b + 1 / 2\<rfloor>\<bar> \<le> 1"
proof -
  have s: "\<And>x::real. \<lfloor>x + 1\<rfloor> = \<lfloor>x\<rfloor> + 1" by simp
  have "\<lfloor>a + 1 / 2\<rfloor> \<le> \<lfloor>(b + 1 / 2) + 1\<rfloor>" using assms by (intro floor_mono) linarith
  then have 1: "\<lfloor>a + 1 / 2\<rfloor> \<le> \<lfloor>b + 1 / 2\<rfloor> + 1" by (simp only: s)
  have "\<lfloor>b + 1 / 2\<rfloor> \<le> \<lfloor>(a + 1 / 2) + 1\<rfloor>" using assms by (intro floor_mono) linarith
  then have 2: "\<lfloor>b + 1 / 2\<rfloor> \<le> \<lfloor>a + 1 / 2\<rfloor> + 1" by (simp only: s)
  show ?thesis using 1 2 by linarith
qed

lemma impliedOdds_error:
  assumes "2 powi (- 1022) \<le> price" and "price \<le> 1 - 1 / 2 ^ 53"
  shows "(1 - price) / price * (1 - 2 / 2 ^ 53) \<le> fl (fl (1 - price) / price)"
    and "fl (fl (1 - price) / price) \<le> (1 - price) / price * (1 + 3 / 2 ^ 53)"
proof -
  define u :: real where "u = 1 / 2 ^ 53"
  define d where "d = 1 - price"
  define fd where "fd = fl d"
  define r where "r = fd / price"
  define b where "b = fl r"
  define b0 where "b0 = d / price"
  have u: "0 < u" "u \<le> 1" by (simp_all add: u_def)
  have tiny: "(2::real) powi (- 1022) \<le> 1 / 2 ^ 53" by (simp add: power_int_minus_divide)
  have ppos: "0 < price" using assms(1) by (rule less_le_trans [rotated]) simp
  have p1: "price < 1" using assms(2) by (rule le_less_trans) simp
  have dlo: "u \<le> d" using assms(2) by (simp add: d_def u_def)
  have dpos: "0 < d" using dlo u(1) by linarith
  have "2 powi (- 1022) \<le> \<bar>d\<bar>" using tiny dlo by (simp add: u_def)
  then have "\<bar>fl d - d\<bar> \<le> \<bar>d\<bar> / 2 ^ 53" by (rule fl_rel)
  then have ed: "\<bar>fd - d\<bar> \<le> d * u" using dpos by (simp add: fd_def u_def)
  have fd1: "d * (1 - u) \<le> fd" and fd2: "fd \<le> d * (1 + u)"
    using ed by (simp_all add: algebra_simps abs_le_iff)
  have b0pos: "0 < b0" using dpos ppos by (simp add: b0_def)
  have r1: "b0 * (1 - u) \<le> r"
  proof -
    have "d * (1 - u) / price \<le> fd / price" using fd1 ppos by (simp add: divide_right_mono)
    then show ?thesis by (simp add: b0_def r_def)
  qed
  have r2: "r \<le> b0 * (1 + u)"
  proof -
    have "fd / price \<le> d * (1 + u) / price" using fd2 ppos by (simp add: divide_right_mono)
    then show ?thesis by (simp add: b0_def r_def)
  qed
  have "fl u \<le> fl d" using dlo by (rule fl_mono)
  moreover have "fl u = u" unfolding u_def by (rule fl_small_power)
  ultimately have fdlo: "u \<le> fd" by (simp add: fd_def)
  have rlo: "u \<le> r"
  proof -
    have "u \<le> fd / 1" using fdlo by simp
    also have "\<dots> \<le> fd / price"
      using p1 ppos fdlo u(1) by (intro divide_left_mono) simp_all
    finally show ?thesis by (simp add: r_def)
  qed
  have rpos: "0 < r" using rlo u(1) by linarith
  have "2 powi (- 1022) \<le> \<bar>r\<bar>" using tiny rlo by (simp add: u_def)
  then have "\<bar>fl r - r\<bar> \<le> \<bar>r\<bar> / 2 ^ 53" by (rule fl_rel)
  then have er: "\<bar>b - r\<bar> \<le> r * u" using rpos by (simp add: b_def u_def)
  have bb1: "r * (1 - u) \<le> b" and bb2: "b \<le> r * (1 + u)"
    using er by (simp_all add: algebra_simps abs_le_iff)
  have "b0 * (1 - 2 * u) \<le> b0 * ((1 - u) * (1 - u))"
    using b0pos by (intro mult_left_mono) (simp_all add: algebra_simps)
  also have "\<dots> = (b0 * (1 - u)) * (1 - u)" by simp
  also have "\<dots> \<le> r * (1 - u)" using r1 u(2) by (intro mult_right_mono) simp_all
  also have "\<dots> \<le> b" by (rule bb1)
  finally have lo: "b0 * (1 - 2 * u) \<le> b" .
  have "b \<le> r * (1 + u)" by (rule bb2)
  also have "\<dots> \<le> (b0 * (1 + u)) * (1 + u)" using r2 u(1) by (intro mult_right_mono) simp_all
  also have "\<dots> = b0 * ((1 + u) * (1 + u))" by simp
  also have "\<dots> \<le> b0 * (1 + 3 * u)"
  proof -
    have "u * u \<le> u * 1" using u by (intro mult_left_mono) simp_all
    then have "(1 + u) * (1 + u) \<le> 1 + 3 * u" by (simp add: algebra_simps)
    then show ?thesis using b0pos by (intro mult_left_mono) simp_all
  qed
  finally have hi: "b \<le> b0 * (1 + 3 * u)" .
  show "(1 - price) / price * (1 - 2 / 2 ^ 53) \<le> fl (fl (1 - price) / price)"
    using lo by (simp add: b_def r_def fd_def d_def b0_def u_def)
  show "fl (fl (1 - price) / price) \<le> (1 - price) / price * (1 + 3 / 2 ^ 53)"
    using hi by (simp add: b_def r_def fd_def d_def b0_def u_def)
qed

lemma kelly_nonpos:
  assumes "0 < b" and "0 < b0" and "b \<le> b0 * (1 + 3 / 2 ^ 53)"
    and "0 \<le> p" and "p \<le> 1" and "(1 + p) * b0 < 1 - p"
  shows "fl (fl (fl (p * b) - fl (1 - p)) / b) \<le> 0"
proof -
  have "p * b \<le> p * (b0 * (1 + 3 / 2 ^ 53))" using assms(3,4) by (rule mult_left_mono)
  also have "\<dots> = p * b0 + (p * (3 / 2 ^ 53)) * b0" by (simp add: algebra_simps)
  also have "\<dots> \<le> p * b0 + 1 * b0"
  proof -
    have "p * (3 / 2 ^ 53) \<le> 1 * 1" using assms(4,5) by (intro mult_mono) simp_all
    then have "(p * (3 / 2 ^ 53)) * b0 \<le> 1 * b0" using assms(2) by (intro mult_right_mono) simp_all
    then show ?thesis by linarith
  qed
  also have "\<dots> = (1 + p) * b0" by (simp add: algebra_simps)
  finally have "p * b \<le> 1 - p" using assms(6) by linarith
  then have "fl (p * b) \<le> fl (1 - p)" by (rule fl_mono)
  then have "fl (p * b) - fl (1 - p) \<le> 0" by simp
  then have "fl (fl (p * b) - fl (1 - p)) \<le> fl 0" by (rule fl_mono)
  then have "fl (fl (p * b) - fl (1 - p)) \<le> 0" by simp
  then have "fl (fl (p * b) - fl (1 - p)) / b \<le> 0" using assms(1) by (simp add: divide_le_0_iff)
  then have "fl (fl (fl (p * b) - fl (1 - p)) / b) \<le> fl 0" by (rule fl_mono)
  then show ?thesis by simp
qed

lemma kelly_error:
  assumes bpos: "1 / 2 ^ 53 \<le> b" and b0pos: "0 < b0"
    and blo: "b0 * (1 - 2 / 2 ^ 53) \<le> b" and bhi: "b \<le> b0 * (1 + 3 / 2 ^ 53)"
    and p0: "0 \<le> p" and p1: "p \<le> 1" and near: "1 - p \<le> (1 + p) * b0"
  shows "\<bar>fl (fl (fl (p * b) - fl (1 - p)) / b) - (p * b0 - (1 - p)) / b0\<bar> \<le> 40 / 2 ^ 53"
proof -
  define u :: real where "u = 1 / 2 ^ 53"
  define eta :: real where "eta = 2 powi (- 1075)"
  define q where "q = 1 - p"
  define t1 where "t1 = fl (p * b)"
  define t2 where "t2 = fl q"
  define t3 where "t3 = fl (t1 - t2)"
  define k where "k = fl (t3 / b)"
  have u: "0 < u" "u \<le> 1 / 1000" by (simp_all add: u_def)
  have eta: "0 < eta" "eta \<le> u * u" "eta \<le> u"
    by (simp_all add: eta_def u_def power_int_minus_divide)
  have b: "0 < b" "u \<le> b" using bpos by (simp_all add: u_def) 
  have q: "0 \<le> q" "q \<le> 1" using p0 p1 by (simp_all add: q_def)
  have etab: "eta \<le> u * b"
  proof -
    have "eta \<le> u * u" by (rule eta(2))
    also have "\<dots> \<le> u * b" using b(2) u(1) by (intro mult_left_mono) simp_all
    finally show ?thesis .
  qed
  have half: "b0 \<le> 2 * b"
  proof -
    have "b0 * (1 / 2) \<le> b0 * (1 - 2 * u)" using b0pos u by (intro mult_left_mono) simp_all
    also have "\<dots> \<le> b" using blo by (simp add: u_def)
    finally show ?thesis by simp
  qed
  have qb: "q \<le> 4 * b"
  proof -
    have "q \<le> (1 + p) * b0" using near by (simp add: q_def)
    also have "\<dots> \<le> 2 * b0" using p1 b0pos by (intro mult_right_mono) simp_all
    finally show ?thesis using half by linarith
  qed
  have "\<bar>t1 - p * b\<bar> \<le> \<bar>p * b\<bar> / 2 ^ 53 + 2 powi (- 1075)" unfolding t1_def by (rule fl_abs)
  then have "\<bar>t1 - p * b\<bar> \<le> (p * b) * u + eta"
    using p0 b(1) by (simp add: u_def eta_def abs_mult)
  moreover have "(p * b) * u \<le> (1 * b) * u" using p1 b(1) u(1) by (intro mult_right_mono) simp_all
  ultimately have e1: "\<bar>t1 - p * b\<bar> \<le> 2 * (u * b)" using etab by (simp add: algebra_simps)
  have "\<bar>t2 - q\<bar> \<le> \<bar>q\<bar> / 2 ^ 53 + 2 powi (- 1075)" unfolding t2_def by (rule fl_abs)
  then have "\<bar>t2 - q\<bar> \<le> q * u + eta" using q(1) by (simp add: u_def eta_def)
  moreover have "q * u \<le> (4 * b) * u" using qb u(1) by (intro mult_right_mono) simp_all
  ultimately have e2: "\<bar>t2 - q\<bar> \<le> 5 * (u * b)" using etab by (simp add: algebra_simps)
  have ub: "0 < u * b" "u * b \<le> b / 1000" using u b(1) by (simp_all add: field_simps)
  have pb: "0 \<le> p * b" "p * b \<le> b" using p0 p1 b(1) by (simp_all add: mult_le_cancel_right1)
  have d12: "\<bar>t1 - t2\<bar> \<le> 6 * b"
    using e1 e2 ub pb qb q(1) by linarith
  have "\<bar>t3 - (t1 - t2)\<bar> \<le> \<bar>t1 - t2\<bar> / 2 ^ 53 + 2 powi (- 1075)" unfolding t3_def by (rule fl_abs)
  then have "\<bar>t3 - (t1 - t2)\<bar> \<le> \<bar>t1 - t2\<bar> * u + eta" by (simp add: u_def eta_def)
  moreover have "\<bar>t1 - t2\<bar> * u \<le> (6 * b) * u" using d12 u(1) by (intro mult_right_mono) simp_all
  ultimately have e3: "\<bar>t3 - (t1 - t2)\<bar> \<le> 7 * (u * b)" using etab by (simp add: algebra_simps)
  have t3b: "\<bar>t3\<bar> \<le> 7 * b" using e3 d12 ub by linarith
  have t3d: "\<bar>t3 / b\<bar> \<le> 7" using t3b b(1) by (simp add: abs_divide divide_le_eq)
  have "\<bar>k - t3 / b\<bar> \<le> \<bar>t3 / b\<bar> / 2 ^ 53 + 2 powi (- 1075)" unfolding k_def by (rule fl_abs)
  then have "\<bar>k - t3 / b\<bar> \<le> \<bar>t3 / b\<bar> * u + eta" by (simp add: u_def eta_def)
  moreover have "\<bar>t3 / b\<bar> * u \<le> 7 * u" using t3d u(1) by (intro mult_right_mono) simp_all
  ultimately have e4: "\<bar>k - t3 / b\<bar> \<le> 8 * u" using eta(3) by linarith
  have "\<bar>t3 - (p * b - q)\<bar> \<le> 14 * (u * b)" using e1 e2 e3 by linarith
  then have "\<bar>(t3 - (p * b - q)) / b\<bar> \<le> 14 * u"
    using b(1) by (simp add: abs_divide divide_le_eq algebra_simps)
  moreover have "(t3 - (p * b - q)) / b = t3 / b - (p - q / b)"
    using b(1) by (simp add: field_simps)
  ultimately have e5: "\<bar>t3 / b - (p - q / b)\<bar> \<le> 14 * u" by simp
  have blo': "b0 - 2 * (u * b0) \<le> b" using blo by (simp add: u_def algebra_simps)
  have bhi': "b \<le> b0 + 3 * (u * b0)" using bhi by (simp add: u_def algebra_simps)
  have ub0: "0 \<le> u * b0" using u(1) b0pos by simp
  have bb0: "\<bar>b - b0\<bar> \<le> 3 * (u * b0)"
    using blo' bhi' ub0 by linarith
  have "q * \<bar>b - b0\<bar> \<le> q * (3 * (u * b0))" using bb0 q(1) by (rule mult_left_mono)
  also have "\<dots> = (3 * u * b0) * q" by simp
  also have "\<dots> \<le> (3 * u * b0) * (4 * b)" using qb u(1) b0pos by (intro mult_left_mono) simp_all
  finally have "q * \<bar>b - b0\<bar> \<le> (12 * u) * (b0 * b)" by (simp add: algebra_simps)
  then have "q * \<bar>b - b0\<bar> / (b0 * b) \<le> 12 * u"
    using b(1) b0pos by (simp add: divide_le_eq)
  moreover have "\<bar>q / b0 - q / b\<bar> = q * \<bar>b - b0\<bar> / (b0 * b)"
  proof -
    have "q / b0 - q / b = q * (b - b0) / (b0 * b)" using b(1) b0pos by (simp add: field_simps)
    then show ?thesis using q(1) b(1) b0pos by (simp add: abs_mult abs_divide)
  qed
  ultimately have e6: "\<bar>q / b0 - q / b\<bar> \<le> 12 * u" by simp
  have k0: "(p * b0 - (1 - p)) / b0 = p - q / b0" using b0pos by (simp add: q_def field_simps)
  have "\<bar>k - (p - q / b0)\<bar> \<le> 34 * u" using e4 e5 e6 by linarith
  then have "\<bar>k - (p * b0 - (1 - p)) / b0\<bar> \<le> 40 * u" unfolding k0 using u(1) by linarith
  then show ?thesis by (simp add: k_def t3_def t2_def t1_def q_def u_def)
qed

lemma size_tail_error:
  assumes kk: "\<bar>k - k0\<bar> \<le> 40 / 2 ^ 53" and k0: "- 1 \<le> k0" "k0 \<le> 1"
    and kf: "0 \<le> kf" "kf \<le> 1"
  shows "\<bar>fl (min 100 (fl (max 0 (fl (k * kf)) * 100)) * 100)
          - min 100 (max 0 (k0 * kf) * 100) * 100\<bar> \<le> 1"
proof -
  define u :: real where "u = 1 / 2 ^ 53"
  define eta :: real where "eta = 2 powi (- 1075)"
  define c where "c = fl (k * kf)"
  define A where "A = max 0 c"
  define A0 where "A0 = max 0 (k0 * kf)"
  define g where "g = fl (A * 100)"
  define s where "s = min 100 g"
  define s0 where "s0 = min 100 (A0 * 100)"
  define X where "X = fl (s * 100)"
  have u: "0 < u" "u \<le> 1 / 1000000000000000" by (simp_all add: u_def)
  have eta: "0 < eta" "eta \<le> u" by (simp_all add: eta_def u_def power_int_minus_divide)
  have kk': "\<bar>k - k0\<bar> \<le> 40 * u" using kk by (simp add: u_def)
  have kabs: "\<bar>k\<bar> \<le> 2" using kk' k0 u by linarith
  have kkf: "\<bar>k * kf\<bar> \<le> 2"
  proof -
    have "\<bar>k\<bar> * \<bar>kf\<bar> \<le> 2 * 1" using kabs kf by (intro mult_mono) simp_all
    then show ?thesis by (simp add: abs_mult)
  qed
  have "\<bar>c - k * kf\<bar> \<le> \<bar>k * kf\<bar> / 2 ^ 53 + 2 powi (- 1075)" unfolding c_def by (rule fl_abs)
  then have "\<bar>c - k * kf\<bar> \<le> \<bar>k * kf\<bar> * u + eta" by (simp add: u_def eta_def)
  moreover have "\<bar>k * kf\<bar> * u \<le> 2 * u" using kkf u(1) by (intro mult_right_mono) simp_all
  ultimately have e1: "\<bar>c - k * kf\<bar> \<le> 3 * u" using eta(2) by linarith
  have "\<bar>k - k0\<bar> * kf \<le> (40 * u) * 1" using kk' kf u(1) by (intro mult_mono) simp_all
  moreover have "\<bar>k * kf - k0 * kf\<bar> = \<bar>k - k0\<bar> * kf"
    using kf(1) by (simp add: abs_mult left_diff_distrib [symmetric])
  ultimately have e2: "\<bar>k * kf - k0 * kf\<bar> \<le> 40 * u" by simp
  have eA: "\<bar>A - A0\<bar> \<le> 43 * u" unfolding A_def A0_def using e1 e2 by linarith
  have "k0 * kf \<le> 1 * 1" 
  proof (cases "0 \<le> k0")
    case True
    then show ?thesis using k0(2) kf by (intro mult_mono) simp_all
  next
    case False
    then have "k0 * kf \<le> 0" using kf(1) by (simp add: mult_le_0_iff)
    then show ?thesis by simp
  qed
  then have A0: "0 \<le> A0" "A0 \<le> 1" by (simp_all add: A0_def)
  have A: "0 \<le> A" "A \<le> 2"
  proof -
    show "0 \<le> A" by (simp add: A_def)
    show "A \<le> 2" using eA A0 u by linarith
  qed
  have "\<bar>g - A * 100\<bar> \<le> \<bar>A * 100\<bar> / 2 ^ 53 + 2 powi (- 1075)" unfolding g_def by (rule fl_abs)
  then have "\<bar>g - A * 100\<bar> \<le> (A * 100) * u + eta" using A(1) by (simp add: u_def eta_def)
  moreover have "(A * 100) * u \<le> (2 * 100) * u" using A(2) u(1) by (intro mult_right_mono) simp_all
  ultimately have e3: "\<bar>g - A * 100\<bar> \<le> 201 * u" using eta(2) by linarith
  have eg: "\<bar>g - A0 * 100\<bar> \<le> 4501 * u" using e3 eA by linarith
  have es: "\<bar>s - s0\<bar> \<le> 4501 * u" unfolding s_def s0_def using eg by linarith
  have s0: "0 \<le> s0" "s0 \<le> 100" using A0 by (simp_all add: s0_def)
  have sabs: "\<bar>s\<bar> \<le> 101" using es s0 u by linarith
  have "\<bar>X - s * 100\<bar> \<le> \<bar>s * 100\<bar> / 2 ^ 53 + 2 powi (- 1075)" unfolding X_def by (rule fl_abs)
  then have "\<bar>X - s * 100\<bar> \<le> (\<bar>s\<bar> * 100) * u + eta" by (simp add: u_def eta_def abs_mult)
  moreover have "(\<bar>s\<bar> * 100) * u \<le> (101 * 100) * u"
    using sabs u(1) by (intro mult_right_mono) simp_all
  ultimately have e4: "\<bar>X - s * 100\<bar> \<le> 10101 * u" using eta(2) by linarith
  have "\<bar>X - s0 * 100\<bar> \<le> 460201 * u" using e4 es by linarith
  then have "\<bar>X - s0 * 100\<bar> \<le> 1" using u by linarith
  then show ?thesis by (simp add: X_def s_def s0_def g_def A_def A0_def c_def)
qed

lemma sizeFromKelly_nonpos:
  assumes "k \<le> 0" and "0 \<le> kf"
  shows "sizeFromKelly kf k = 0"
proof -
  have "k * kf \<le> 0" using assms by (simp add: mult_le_0_iff)
  then have "fl (k * kf) \<le> fl 0" by (rule fl_mono)
  then have "max 0 (fl (k * kf)) = 0" by simp
  then show ?thesis by (simp add: sizeFromKelly_def Math_round_def)
qed

lemma size_close_to_spec:
  assumes "2 powi (- 1022) \<le> price" and "price \<le> 1 - 1 / 2 ^ 53"
    and "0 \<le> kf" and "kf \<le> 1" and "0 \<le> p" and "p \<le> 1"
  shows "\<exists>n m::int. sizeFromKelly kf (kellyOf p price) = fl (of_int n / 100) \<and>
           roundToCents (kellySizeSpec 100 kf p price) = of_int m / 100 \<and> \<bar>n - m\<bar> \<le> 1"
proof -
  define b0 where "b0 = (1 - price) / price"
  define b where "b = fl (fl (1 - price) / price)"
  define k where "k = kellyOf p price"
  define k0 where "k0 = (p * b0 - (1 - p)) / b0"
  have ppos: "0 < price" using assms(1) by (rule less_le_trans [rotated]) simp
  have p1: "price < 1" using assms(2) by (rule le_less_trans) simp
  have b0pos: "0 < b0" using ppos p1 by (simp add: b0_def)
  have bpos: "0 < b" unfolding b_def by (rule impliedOdds_range(1) [OF assms(1,2)])
  have blo: "b0 * (1 - 2 / 2 ^ 53) \<le> b" and bhi: "b \<le> b0 * (1 + 3 / 2 ^ 53)"
    unfolding b0_def b_def using impliedOdds_error [OF assms(1,2)] by simp_all
  have k: "k = fl (fl (fl (p * b) - fl (1 - p)) / b)"
    by (simp add: k_def kellyOf_def b_def Let_def)
  have spec: "kellySizeSpec 100 kf p price = min 100 (max 0 (k0 * kf) * 100)"
    by (simp only: kellySizeSpec_def k0_def b0_def Let_def)
  have k0eq: "k0 = p - (1 - p) / b0" using b0pos by (simp add: k0_def field_simps)
  show ?thesis
  proof (cases "1 - p \<le> (1 + p) * b0")
    case True
    have bu: "1 / 2 ^ 53 \<le> b"
    proof -
      have "1 / 2 ^ 53 \<le> 1 - price" using assms(2) by simp
      then have "fl (1 / 2 ^ 53) \<le> fl (1 - price)" by (rule fl_mono)
      then have lo: "1 / 2 ^ 53 \<le> fl (1 - price)" by (simp only: fl_small_power)
      have "1 / 2 ^ 53 \<le> fl (1 - price) / 1" using lo by simp
      also have "\<dots> \<le> fl (1 - price) / price"
        using p1 ppos lo by (intro divide_left_mono) simp_all
      finally have "fl (1 / 2 ^ 53) \<le> fl (fl (1 - price) / price)" by (rule fl_mono)
      then show ?thesis by (simp only: fl_small_power b_def)
    qed
    have ke: "\<bar>k - k0\<bar> \<le> 40 / 2 ^ 53"
      unfolding k k0_def
      by (rule kelly_error [OF bu b0pos blo bhi assms(5,6) True])
    have "(1 - p) / b0 \<le> 1 + p" using True b0pos by (simp add: divide_le_eq)
    then have k0lo: "- 1 \<le> k0" unfolding k0eq by linarith
    have "0 \<le> (1 - p) / b0" using assms(6) b0pos by simp
    then have k0hi: "k0 \<le> 1" unfolding k0eq using assms(6) by linarith
    define X where "X = fl (min 100 (fl (max 0 (fl (k * kf)) * 100)) * 100)"
    define Y where "Y = min 100 (max 0 (k0 * kf) * 100) * 100"
    have "\<bar>X - Y\<bar> \<le> 1"
      unfolding X_def Y_def by (rule size_tail_error [OF ke k0lo k0hi assms(3,4)])
    then have close: "\<bar>\<lfloor>X + 1 / 2\<rfloor> - \<lfloor>Y + 1 / 2\<rfloor>\<bar> \<le> 1" by (rule round_floor_close)
    have a: "sizeFromKelly kf (kellyOf p price) = fl (of_int \<lfloor>X + 1 / 2\<rfloor> / 100)"
      by (simp only: sizeFromKelly_def Math_round_def X_def k_def)
    have c: "roundToCents (kellySizeSpec 100 kf p price) = of_int \<lfloor>Y + 1 / 2\<rfloor> / 100"
      by (simp only: roundToCents_def spec Math_round_def Y_def)
    show ?thesis using a c close by blast
  next
    case False
    then have far: "(1 + p) * b0 < 1 - p" by simp
    have "k \<le> 0" unfolding k by (rule kelly_nonpos [OF bpos b0pos bhi assms(5,6) far])
    then have "sizeFromKelly kf (kellyOf p price) = 0"
      unfolding k_def using assms(3) by (rule sizeFromKelly_nonpos)
    then have a: "sizeFromKelly kf (kellyOf p price) = fl (of_int 0 / 100)" by simp
    have "1 + p < (1 - p) / b0" using far b0pos by (simp add: less_divide_eq)
    then have "k0 < 0" unfolding k0eq using assms(5) by linarith
    then have "k0 * kf \<le> 0" using assms(3) by (simp add: mult_le_0_iff)
    then have "kellySizeSpec 100 kf p price = 0" unfolding spec by simp
    then have c: "roundToCents (kellySizeSpec 100 kf p price) = of_int 0 / 100"
      by (simp add: roundToCents_def Math_round_def)
    have "\<bar>(0::int) - 0\<bar> \<le> 1" by simp
    then show ?thesis using a c by blast
  qed
qed

lemma size_at_tie:
  "calculatePositionSize DEFAULT_STRATEGY_CONFIG (exampleScore 0.78125) 0.75 = fl 3.12"
  by (simp only: calculatePositionSize_def DEFAULT_STRATEGY_CONFIG_def exampleScore_def Let_def)
     (simp add: Math_round_def fl_eval)

lemma size_spec_at_tie: "roundToCents (kellySizeSpec 100 0.25 0.78125 0.75) = 3.13"
  by (simp add: roundToCents_def kellySizeSpec_def Math_round_def Let_def)

lemma size_negative_multiplier:
  "calculatePositionSize (DEFAULT_STRATEGY_CONFIG\<lparr>kellyFraction := - 0.25\<rparr>)
     (exampleScore 0.25) 0.5 = 12.5"
  "calculatePositionSize (DEFAULT_STRATEGY_CONFIG\<lparr>kellyFraction := - 0.25\<rparr>)
     (exampleScore 0.75) 0.5 = 0"
  by (simp_all only: calculatePositionSize_def DEFAULT_STRATEGY_CONFIG_def exampleScore_def
        Let_def)
     (simp_all add: Math_round_def fl_eval)

text \<open>
  Claim C3 fails as stated, in two ways.  At the confidence 0.78125 and the price 0.75
  (both binary64 values) the formula of the claim gives 3.125 before rounding and 3.13
  after it, and the code returns 3.12: in binary64 the odds \<open>(1 - price) / price\<close> are
  not exactly 1/3, the Kelly fraction comes out just below its exact value 0.125, and the
  size before rounding falls just below the tie.  And the claim quantifies over no
  restriction of the configured multiplier: with the multiplier -0.25, at the price 0.5,
  the confidence 0.25 gives the size 12.5 and the larger confidence 0.75 gives 0.
\<close>

theorem C3_size_counterexample:
  "calculatePositionSize DEFAULT_STRATEGY_CONFIG (exampleScore 0.78125) 0.75 = fl 3.12 \<and>
   roundToCents (kellySizeSpec 100 0.25 0.78125 0.75) = 3.13 \<and>
   fl 3.12 < 3.13 \<and>
   calculatePositionSize (DEFAULT_STRATEGY_CONFIG\<lparr>kellyFraction := - 0.25\<rparr>)
     (exampleScore 0.25) 0.5 = 12.5 \<and>
   calculatePositionSize (DEFAULT_STRATEGY_CONFIG\<lparr>kellyFraction := - 0.25\<rparr>)
     (exampleScore 0.75) 0.5 = 0"
  using size_at_tie size_spec_at_tie size_negative_multiplier by (simp add: fl_eval)

text \<open>
  Claim C3 as amended.  For a price that is a binary64 value strictly between 0 and 1
  (from \<open>2^-1022\<close> to \<open>1 - 2^-53\<close>), confidences in [0,1] and a non-negative configured
  Kelly multiplier, the implied odds \<open>b\<close> the code computes are positive and finite, and
  the position size, which is the formula of the claim evaluated in binary64 arithmetic
  with the constant cap 100 of the source, is the binary64 value of a whole number of
  cents \<open>n / 100\<close> with \<open>0 \<le> n \<le> 10000\<close>; it does not decrease when the confidence grows
  and it lies between 0 and the cap 100.  For a multiplier of at most 1 it differs by at
  most one cent from the formula of the claim evaluated exactly and rounded to cents:
  that value is \<open>m / 100\<close> with \<open>|n - m| \<le> 1\<close>.
\<close>

theorem C3_kelly_position_size:
  assumes "2 powi (- 1022) \<le> price" and "price \<le> 1 - 1 / 2 ^ 53"
    and "0 \<le> kellyFraction cfg"
    and "0 \<le> confidence s1" and "confidence s1 \<le> confidence s2" and "confidence s2 \<le> 1"
  shows "0 < fl (fl (1 - price) / price) \<and> fl (fl (1 - price) / price) \<le> 2 ^ 1022 \<and>
         calculatePositionSize cfg s1 price \<le> calculatePositionSize cfg s2 price \<and>
         0 \<le> calculatePositionSize cfg s1 price \<and>
         calculatePositionSize cfg s2 price \<le> 100 \<and>
         (\<exists>n::int. 0 \<le> n \<and> n \<le> 10000 \<and>
                  calculatePositionSize cfg s1 price = fl (of_int n / 100)) \<and>
         (kellyFraction cfg \<le> 1 \<longrightarrow>
            (\<exists>n m::int.
               calculatePositionSize cfg s1 price = fl (of_int n / 100) \<and>
               roundToCents (kellySizeSpec 100 (kellyFraction cfg) (confidence s1) price)
                 = of_int m / 100 \<and>
               \<bar>n - m\<bar> \<le> 1))"
proof -
  have b: "0 < fl (fl (1 - price) / price)" "fl (fl (1 - price) / price) \<le> 2 ^ 1022"
    using impliedOdds_range [OF assms(1,2)] by simp_all
  have "kellyOf (confidence s1) price \<le> kellyOf (confidence s2) price"
    using b(1) assms(5) by (intro kellyOf_mono) simp_all
  then have mono: "calculatePositionSize cfg s1 price \<le> calculatePositionSize cfg s2 price"
    unfolding calculatePositionSize_split using assms(3) by (intro sizeFromKelly_mono)
  have p1: "confidence s1 \<le> 1" using assms(5,6) by linarith
  have close: "kellyFraction cfg \<le> 1 \<longrightarrow>
            (\<exists>n m::int.
               calculatePositionSize cfg s1 price = fl (of_int n / 100) \<and>
               roundToCents (kellySizeSpec 100 (kellyFraction cfg) (confidence s1) price)
                 = of_int m / 100 \<and>
               \<bar>n - m\<bar> \<le> 1)"
    unfolding calculatePositionSize_split
    using size_close_to_spec [OF assms(1,2,3) _ assms(4) p1] by blast
  have rest: "0 < fl (fl (1 - price) / price) \<and> fl (fl (1 - price) / price) \<le> 2 ^ 1022 \<and>
         calculatePositionSize cfg s1 price \<le> calculatePositionSize cfg s2 price \<and>
         0 \<le> calculatePositionSize cfg s1 price \<and>
         calculatePositionSize cfg s2 price \<le> 100 \<and>
         (\<exists>n::int. 0 \<le> n \<and> n \<le> 10000 \<and>
                  calculatePositionSize cfg s1 price = fl (of_int n / 100))"
    using b mono sizeFromKelly_range sizeFromKelly_cents
    by (simp add: calculatePositionSize_split)
  show ?thesis using rest close by blast
qed

lemma size_examples:
  "calculatePositionSize DEFAULT_STRATEGY_CONFIG (exampleScore 0.625) 0.5 = 6.25"
  "calculatePositionSize DEFAULT_STRATEGY_CONFIG (exampleScore 0.75) 0.5 = 12.5"
  by (simp_all only: calculatePositionSize_def DEFAULT_STRATEGY_CONFIG_def exampleScore_def Let_def)
     (simp_all add: Math_round_def fl_eval)

lemma fl_625_cents: "fl (of_int 625 / 100) = 6.25"
  by (simp add: fl_eval)

lemma size_spec_example: "roundToCents (kellySizeSpec 100 0.25 0.625 0.5) = 6.25"
  by (simp add: roundToCents_def kellySizeSpec_def Math_round_def Let_def)

text \<open>
  An instance of the amended claim C3 with the default configuration at the price 0.5:
  the confidence 0.625 gives the size 6.25, which is 625 cents and is also what the exact
  formula gives, and the confidence 0.75 gives 12.5.
\<close>

theorem C3_kelly_example:
  "calculatePositionSize DEFAULT_STRATEGY_CONFIG (exampleScore 0.625) 0.5 = 6.25 \<and>
   calculatePositionSize DEFAULT_STRATEGY_CONFIG (exampleScore 0.75) 0.5 = 12.5 \<and>
   calculatePositionSize DEFAULT_STRATEGY_CONFIG (exampleScore 0.625) 0.5
     \<le> calculatePositionSize DEFAULT_STRATEGY_CONFIG (exampleScore 0.75) 0.5 \<and>
   0 \<le> calculatePositionSize DEFAULT_STRATEGY_CONFIG (exampleScore 0.625) 0.5 \<and>
   calculatePositionSize DEFAULT_STRATEGY_CONFIG (exampleScore 0.75) 0.5 \<le> 100 \<and>
   calculatePositionSize DEFAULT_STRATEGY_CONFIG (exampleScore 0.625) 0.5 = fl (of_int 625 / 100) \<and>
   roundToCents (kellySizeSpec 100 0.25 0.625 0.5) = of_int 625 / 100 \<and>
   (\<exists>n m::int.
      calculatePositionSize DEFAULT_STRATEGY_CONFIG (exampleScore 0.625) 0.5 = fl (of_int n / 100) \<and>
      roundToCents (kellySizeSpec 100 0.25 0.625 0.5) = of_int m / 100 \<and> \<bar>n - m\<bar> \<le> 1)"
proof -
  have h: "2 powi (- 1022) \<le> (0.5::real)" "(0.5::real) \<le> 1 - 1 / 2 ^ 53"
    "0 \<le> kellyFraction DEFAULT_STRATEGY_CONFIG"
    "0 \<le> confidence (exampleScore 0.625)"
    "confidence (exampleScore 0.625) \<le> confidence (exampleScore 0.75)"
    "confidence (exampleScore 0.75) \<le> 1"
    by (simp_all add: DEFAULT_STRATEGY_CONFIG_def exampleScore_def power_int_minus_divide)
  have f: "kellyFraction DEFAULT_STRATEGY_CONFIG = 0.25" "kellyFraction DEFAULT_STRATEGY_CONFIG \<le> 1"
    "confidence (exampleScore 0.625) = 0.625"
    by (simp_all add: DEFAULT_STRATEGY_CONFIG_def exampleScore_def)
  have e: "\<exists>n m::int.
      calculatePositionSize DEFAULT_STRATEGY_CONFIG (exampleScore 0.625) 0.5 = fl (of_int n / 100) \<and>
      roundToCents (kellySizeSpec 100 0.25 0.625 0.5) = of_int m / 100 \<and> \<bar>n - m\<bar> \<le> 1"
    using C3_kelly_position_size [OF h] f(2) unfolding f(1) f(3) by blast
  have r: "calculatePositionSize DEFAULT_STRATEGY_CONFIG (exampleScore 0.625) 0.5
     \<le> calculatePositionSize DEFAULT_STRATEGY_CONFIG (exampleScore 0.75) 0.5 \<and>
   0 \<le> calculatePositionSize DEFAULT_STRATEGY_CONFIG (exampleScore 0.625) 0.5 \<and>
   calculatePositionSize DEFAULT_STRATEGY_CONFIG (exampleScore 0.75) 0.5 \<le> 100"
    using C3_kelly_position_size [OF h] by blast
  have s: "roundToCents (kellySizeSpec 100 0.25 0.625 0.5) = of_int 625 / 100"
    using size_spec_example by simp
  have c: "calculatePositionSize DEFAULT_STRATEGY_CONFIG (exampleScore 0.625) 0.5
             = fl (of_int 625 / 100)"
    using size_examples(1) fl_625_cents by simp
  show ?thesis using e r s c size_examples by blast
qed

section \<open>Properties of the feed signals\<close>

text \<open>
  The feed-divergence signal on its own: when both feeds are connected, both have a
  window change, and the divergence computed from the two changes exceeds the threshold
  5, the signal has score 0 and confidence 0.05, whatever the directions of the feeds.
\<close>

lemma analyzeFeedComparison_high_divergence:
  assumes "Chainlink_isConnected cl now"
    and "Chainlink_getWindowChange cl = Some c"
    and "Binance_isConnected bn"
    and "Binance_getWindowChange bn = Some b"
    and "divergenceBps c b > 5"
  shows "analyzeFeedComparison (Some cl) (Some bn) now
           = \<lparr>score = 0, confidence = 0.05, reason = ''HIGH DIVERGENCE''\<rparr>"
  using assms by (simp add: analyzeFeedComparison_def Let_def)

text \<open>
  The six signals of the worked example.  The oracle feed is the primary feed; two
  minutes before expiry it predicts "up" with confidence 0.98, which the time-decay signal
  turns into score 1 and confidence 0.882 against a "yes" price of 0.45.
\<close>

lemma divergent_feedComparison:
  "feedComparison divergentSignals
     = \<lparr>score = 0, confidence = 0.05, reason = ''HIGH DIVERGENCE''\<rparr>"
  by (simp add: divergentSignals_def analyze_def Let_def analyzeFeedComparison_def
      Chainlink_isConnected_def Chainlink_getTimeSinceLastUpdate_def Chainlink_getWindowChange_def
      Binance_isConnected_def Binance_getWindowChange_def divergenceBps_def
      exampleChainlink_def exampleBinance_def)

lemma divergent_timeDecay:
  "timeDecay divergentSignals = \<lparr>score = 1, confidence = 0.882, reason = ''Time decay''\<rparr>"
  by (simp add: divergentSignals_def analyze_def Let_def analyzeTimeDecay_def getTimeToExpiry_def
      divergentTracker_def divergentMarket_def divergentState_def DEFAULT_STRATEGY_CONFIG_def
      feed_predictOutcome_def Chainlink_predictOutcome_def
      Chainlink_isConnected_def Chainlink_getTimeSinceLastUpdate_def Chainlink_getWindowChange_def
      exampleChainlink_def)

lemma divergent_book_and_flow:
  "orderbookImbalance divergentSignals
     = \<lparr>score = 0, confidence = 0.1, reason = ''No orderbook data available''\<rparr>"
  "tradeMomentum divergentSignals
     = \<lparr>score = 0, confidence = 0.1, reason = ''insufficient data''\<rparr>"
  by (simp_all add: divergentSignals_def analyze_def Let_def analyzeOrderbook_def
      analyzeTradeMomentum_def getOrderbookAnalysis_def getTradeMomentum_def recentTrades_def
      divergentTracker_def divergentState_def)

lemma divergent_price_signals:
  "btcPriceMovement divergentSignals = \<lparr>score = 1, confidence = 0.8, reason = ''BTC''\<rparr>"
  "priceInefficiency divergentSignals
     = \<lparr>score = 1, confidence = 0.7, reason = ''YES mispriced''\<rparr>"
  by (simp_all add: divergentSignals_def analyze_def Let_def analyzeBTCMovement_def
      analyzePriceInefficiency_def feed_isConnected_def feed_getWindowChange_def
      feed_getRecentMomentum_def Chainlink_getRecentMomentum_def divergentState_def
      Chainlink_isConnected_def Chainlink_getTimeSinceLastUpdate_def Chainlink_getWindowChange_def
      exampleChainlink_def)

lemma divergent_composite:
  "composite divergentSignals = \<lparr>score = 0.7, confidence = 0.6235, reason = ''Composite''\<rparr>"
proof -
  have "composite divergentSignals =
     calculateComposite DEFAULT_STRATEGY_CONFIG (timeDecay divergentSignals)
       (orderbookImbalance divergentSignals) (tradeMomentum divergentSignals)
       (btcPriceMovement divergentSignals) (priceInefficiency divergentSignals)
       (feedComparison divergentSignals) 120000"
    by (simp add: divergentSignals_def analyze_def Let_def getTimeToExpiry_def
        divergentTracker_def divergentMarket_def)
  then show ?thesis
    unfolding divergent_feedComparison divergent_timeDecay divergent_book_and_flow
      divergent_price_signals
    by (simp add: calculateComposite_def DEFAULT_STRATEGY_CONFIG_def Let_def)
qed

lemma divergent_size:
  "calculatePositionSize DEFAULT_STRATEGY_CONFIG
     \<lparr>score = 0.7, confidence = 0.6235, reason = ''Composite''\<rparr> 0.45 = fl 7.89"
  by (simp only: calculatePositionSize_def DEFAULT_STRATEGY_CONFIG_def Let_def
      SignalScore.simps StrategyConfig.simps)
     (simp add: Math_round_def fl_eval)

text \<open>
  Claim C4 does not hold of the code.  With the oracle feed up 0.10 percent and the
  exchange feed down 0.02 percent, both connected, the feed-divergence signal does return
  score 0 and confidence 0.05, with the rationale HIGH DIVERGENCE.  It is no veto: in
  \<^verbatim>\<open>calculateComposite\<close> it is one of six weighted terms, with a weight of at most 0.08,
  and \<^verbatim>\<open>generateSignal\<close> reads the composite alone.  Two minutes before expiry, with "yes"
  priced at 0.45, the composite has score 0.7 and confidence 0.6235, above the thresholds
  0.15 and 0.3 of the default configuration, and \<^verbatim>\<open>generateSignal\<close> returns a signal to
  buy "yes" at 0.45 for the size 7.89.  The scores are computed in the exact reading;
  they lie far from every threshold involved.
\<close>

theorem C4_high_divergence_still_trades:
  "feedComparison divergentSignals
     = \<lparr>score = 0, confidence = 0.05, reason = ''HIGH DIVERGENCE''\<rparr> \<and>
   composite divergentSignals = \<lparr>score = 0.7, confidence = 0.6235, reason = ''Composite''\<rparr> \<and>
   generateSignal DEFAULT_STRATEGY_CONFIG divergentState divergentSignals =
     Some \<lparr>sig_market = ''0xcond'', sig_tokenId = ''tok-yes'', sig_side = BUY, sig_outcome = Yes,
           sig_price = 0.45, sig_size = fl 7.89, sig_reason = ''Composite'',
           sig_confidence = 0.6235\<rparr>"
proof -
  have m: "minConfidenceToTrade DEFAULT_STRATEGY_CONFIG = 0.3"
    "minScoreToTrade DEFAULT_STRATEGY_CONFIG = 0.15"
    by (simp_all add: DEFAULT_STRATEGY_CONFIG_def)
  have p: "currentPrice_yes divergentState = 0.45" "ms_conditionId divergentState = ''0xcond''"
    "ms_yesTokenId divergentState = ''tok-yes''"
    by (simp_all add: divergentState_def)
  have "generateSignal DEFAULT_STRATEGY_CONFIG divergentState divergentSignals =
     Some \<lparr>sig_market = ''0xcond'', sig_tokenId = ''tok-yes'', sig_side = BUY, sig_outcome = Yes,
           sig_price = 0.45,
           sig_size = calculatePositionSize DEFAULT_STRATEGY_CONFIG
              \<lparr>score = 0.7, confidence = 0.6235, reason = ''Composite''\<rparr> 0.45,
           sig_reason = ''Composite'', sig_confidence = 0.6235\<rparr>"
    unfolding generateSignal_def divergent_composite Let_def by (simp add: m p)
  then show ?thesis
    unfolding divergent_size using divergent_feedComparison divergent_composite by simp
qed

text \<open>
  Claim C6 fails as stated: the two adapters do not implement \<^verbatim>\<open>predictOutcome\<close>
  identically.  With the same window (100000 to 100008, a change of 0.008 percent) the
  exchange adapter answers NEUTRAL with confidence 0.1 and the oracle adapter answers UP
  with confidence 0.4.  With a change of 0.02 percent and a rising 30-second history
  (momentum 0.02) the exchange adapter raises its confidence from 0.4 to 0.5, the oracle
  adapter answers 0.98 with and without that history.
\<close>

theorem C6_adapters_differ:
  "Binance_predictOutcome (exampleBinance 100000 100008 []) 2000
     = \<lparr>pred_direction = NEUTRAL, pred_confidence = 0.1, pred_change = 0.008\<rparr> \<and>
   Chainlink_predictOutcome (exampleChainlink 100000 100008 [])
     = \<lparr>pred_direction = UP, pred_confidence = 0.4, pred_change = 0.008\<rparr> \<and>
   Binance_getRecentMomentum
     (exampleBinance 100000 100020 [(100000, 1000), (100020, 1500)]) 2000 = 0.02 \<and>
   Chainlink_getRecentMomentum
     (exampleChainlink 100000 100020 [(100000, 1000), (100020, 1500)]) 2000 = 0.02 \<and>
   Binance_predictOutcome (exampleBinance 100000 100020 []) 2000
     = \<lparr>pred_direction = UP, pred_confidence = 0.4, pred_change = 0.02\<rparr> \<and>
   Binance_predictOutcome
     (exampleBinance 100000 100020 [(100000, 1000), (100020, 1500)]) 2000
     = \<lparr>pred_direction = UP, pred_confidence = 0.5, pred_change = 0.02\<rparr> \<and>
   Chainlink_predictOutcome (exampleChainlink 100000 100020 [])
     = \<lparr>pred_direction = UP, pred_confidence = 0.98, pred_change = 0.02\<rparr> \<and>
   Chainlink_predictOutcome
     (exampleChainlink 100000 100020 [(100000, 1000), (100020, 1500)])
     = \<lparr>pred_direction = UP, pred_confidence = 0.98, pred_change = 0.02\<rparr>"
  by (simp add: Binance_predictOutcome_def Chainlink_predictOutcome_def
      Binance_getWindowChange_def Chainlink_getWindowChange_def
      Binance_getRecentMomentum_def Chainlink_getRecentMomentum_def
      exampleBinance_def exampleChainlink_def Let_def)

text \<open>
  Claim C6 as amended.  Each adapter answers NEUTRAL with confidence 0 when it has no
  window change, and NEUTRAL with confidence 0.1 when the absolute percent change is below
  its own threshold (0.01 for the exchange adapter, 0.005 for the oracle adapter).  From
  the threshold on, the direction is the sign of the change; the exchange adapter's
  confidence is \<open>min (20 * |change|) 0.95\<close>, raised by 0.1 (and capped at 0.95 again) when
  the momentum agrees in sign with the change; the oracle adapter's confidence is
  \<open>min (50 * |change|) 0.98\<close> and does not depend on the momentum.
\<close>

theorem C6_predictOutcome_per_adapter:
  "(Binance_getWindowChange bn = None \<longrightarrow>
      Binance_predictOutcome bn now
        = \<lparr>pred_direction = NEUTRAL, pred_confidence = 0, pred_change = 0\<rparr>) \<and>
   (Chainlink_getWindowChange cl = None \<longrightarrow>
      Chainlink_predictOutcome cl
        = \<lparr>pred_direction = NEUTRAL, pred_confidence = 0, pred_change = 0\<rparr>) \<and>
   (Binance_getWindowChange bn = Some c \<and> \<bar>percent c\<bar> < 0.01 \<longrightarrow>
      Binance_predictOutcome bn now
        = \<lparr>pred_direction = NEUTRAL, pred_confidence = 0.1, pred_change = percent c\<rparr>) \<and>
   (Chainlink_getWindowChange cl = Some d \<and> \<bar>percent d\<bar> < 0.005 \<longrightarrow>
      Chainlink_predictOutcome cl
        = \<lparr>pred_direction = NEUTRAL, pred_confidence = 0.1, pred_change = percent d\<rparr>) \<and>
   (Binance_getWindowChange bn = Some c \<and> \<bar>percent c\<bar> \<ge> 0.01 \<longrightarrow>
      Binance_predictOutcome bn now
        = \<lparr>pred_direction = (if percent c > 0 then UP else DOWN),
           pred_confidence =
             (if momentumAgrees (percent c) (Binance_getRecentMomentum bn now)
              then min (min (\<bar>percent c\<bar> * 20) 0.95 + 0.1) 0.95
              else min (\<bar>percent c\<bar> * 20) 0.95),
           pred_change = percent c\<rparr>) \<and>
   (Chainlink_getWindowChange cl = Some d \<and> \<bar>percent d\<bar> \<ge> 0.005 \<longrightarrow>
      Chainlink_predictOutcome cl
        = \<lparr>pred_direction = (if percent d > 0 then UP else DOWN),
           pred_confidence = min (\<bar>percent d\<bar> * 50) 0.98,
           pred_change = percent d\<rparr>)"
  by (auto simp add: Binance_predictOutcome_def Chainlink_predictOutcome_def Let_def
      momentumAgrees_def)

text \<open>
  Instances of the amended claim C6: no window (start price 0), a change of 0.004 percent,
  and a change of 0.02 percent with agreeing momentum.
\<close>

theorem C6_per_adapter_example:
  "Binance_predictOutcome (exampleBinance 0 100000 []) 2000
     = \<lparr>pred_direction = NEUTRAL, pred_confidence = 0, pred_change = 0\<rparr> \<and>
   Chainlink_predictOutcome (exampleChainlink 0 100000 [])
     = \<lparr>pred_direction = NEUTRAL, pred_confidence = 0, pred_change = 0\<rparr> \<and>
   Binance_predictOutcome (exampleBinance 100000 100004 []) 2000
     = \<lparr>pred_direction = NEUTRAL, pred_confidence = 0.1, pred_change = 0.004\<rparr> \<and>
   Chainlink_predictOutcome (exampleChainlink 100000 100004 [])
     = \<lparr>pred_direction = NEUTRAL, pred_confidence = 0.1, pred_change = 0.004\<rparr> \<and>
   Binance_predictOutcome
     (exampleBinance 100000 100020 [(100000, 1000), (100020, 1500)]) 2000
     = \<lparr>pred_direction = UP, pred_confidence = 0.5, pred_change = 0.02\<rparr> \<and>
   Chainlink_predictOutcome
     (exampleChainlink 100000 100020 [(100000, 1000), (100020, 1500)])
     = \<lparr>pred_direction = UP, pred_confidence = 0.98, pred_change = 0.02\<rparr>"
proof -
  let ?h = "[(100000, 1000), (100020, 1500)] :: price_point list"
  have n1: "Binance_getWindowChange (exampleBinance 0 100000 []) = None"
    by (simp add: Binance_getWindowChange_def exampleBinance_def)
  have n2: "Chainlink_getWindowChange (exampleChainlink 0 100000 []) = None"
    by (simp add: Chainlink_getWindowChange_def exampleChainlink_def)
  have s1: "Binance_getWindowChange (exampleBinance 100000 100004 [])
              = Some \<lparr>absolute = 4, percent = 0.004\<rparr>"
    by (simp add: Binance_getWindowChange_def exampleBinance_def Let_def)
  have s2: "Chainlink_getWindowChange (exampleChainlink 100000 100004 [])
              = Some \<lparr>absolute = 4, percent = 0.004\<rparr>"
    by (simp add: Chainlink_getWindowChange_def exampleChainlink_def Let_def)
  have d1: "Binance_getWindowChange (exampleBinance 100000 100020 ?h)
              = Some \<lparr>absolute = 20, percent = 0.02\<rparr>"
    by (simp add: Binance_getWindowChange_def exampleBinance_def Let_def)
  have d2: "Chainlink_getWindowChange (exampleChainlink 100000 100020 ?h)
              = Some \<lparr>absolute = 20, percent = 0.02\<rparr>"
    by (simp add: Chainlink_getWindowChange_def exampleChainlink_def Let_def)
  have m: "Binance_getRecentMomentum (exampleBinance 100000 100020 ?h) 2000 = 0.02"
    by (simp add: Binance_getRecentMomentum_def exampleBinance_def Let_def)
  show ?thesis
    using C6_predictOutcome_per_adapter
            [of "exampleBinance 0 100000 []" 2000 "exampleChainlink 0 100000 []"]
          C6_predictOutcome_per_adapter
            [of "exampleBinance 100000 100004 []" 2000 "exampleChainlink 100000 100004 []"
                "\<lparr>absolute = 4, percent = 0.004\<rparr>" "\<lparr>absolute = 4, percent = 0.004\<rparr>"]
          C6_predictOutcome_per_adapter
            [of "exampleBinance 100000 100020 ?h" 2000 "exampleChainlink 100000 100020 ?h"
                "\<lparr>absolute = 20, percent = 0.02\<rparr>" "\<lparr>absolute = 20, percent = 0.02\<rparr>"]
    by (simp add: n1 n2 s1 s2 d1 d2 m momentumAgrees_def)
qed

section \<open>Properties of the market tracker\<close>

lemma addVolume_step:
  "addVolume (y, n) h =
     (if isBullish h then (y + th_volume h, n) else (y, n + th_volume h))"
  by (cases "th_outcome h"; cases "th_side h") (simp_all add: addVolume_def isBullish_def)

lemma addVolume_loop:
  "foldl addVolume (y, n) hs = (y + bullishVolume hs, n + bearishVolume hs)"
proof (induction hs arbitrary: y n)
  case Nil
  show ?case by (simp add: bullishVolume_def bearishVolume_def)
next
  case (Cons h hs)
  show ?case
  proof (cases "isBullish h")
    case True
    then show ?thesis
      using Cons.IH [of "y + th_volume h" n]
      by (simp add: addVolume_step bullishVolume_def bearishVolume_def add.assoc)
  next
    case False
    then show ?thesis
      using Cons.IH [of y "n + th_volume h"]
      by (simp add: addVolume_step bullishVolume_def bearishVolume_def add.assoc)
  qed
qed

lemma bullishVolume_nonneg:
  "list_all (\<lambda>h. 0 \<le> th_volume h) hs \<Longrightarrow> 0 \<le> bullishVolume hs"
  unfolding bullishVolume_def by (rule sum_list_nonneg) (auto simp: list_all_iff)

lemma bearishVolume_nonneg:
  "list_all (\<lambda>h. 0 \<le> th_volume h) hs \<Longrightarrow> 0 \<le> bearishVolume hs"
  unfolding bearishVolume_def by (rule sum_list_nonneg) (auto simp: list_all_iff)

lemma getTradeMomentum_eq:
  "getTradeMomentum t lookbackMs now =
     (let recent = recentTrades t lookbackMs now;
          total = bullishVolume recent + bearishVolume recent in
      \<lparr>yesRatio = (if total > 0 then bullishVolume recent / total else 0.5),
       totalVolume = total, tradeCount = length recent\<rparr>)"
proof (cases "recentTrades t lookbackMs now = []")
  case True
  then show ?thesis
    by (simp add: getTradeMomentum_def Let_def bullishVolume_def bearishVolume_def)
next
  case False
  then show ?thesis
    by (simp add: getTradeMomentum_def Let_def addVolume_loop)
qed

lemma ratio_range:
  assumes "0 \<le> (a::real)" "0 \<le> b" "0 < a + b"
  shows "0 \<le> a / (a + b) \<and> a / (a + b) \<le> 1"
  using assms by (simp add: divide_le_eq)

text \<open>
  Claim C7 fails as stated.  A single trade of size 0 inside the window gives
  \<open>tradeCount = 1\<close> and bullish and bearish volume 0, and \<^verbatim>\<open>getTradeMomentum\<close> answers
  \<open>yesRatio = 0.5\<close> from its guard on the total volume, not the quotient.  A history with
  a negative volume (a bullish volume of 3 and a bearish volume of -1) gives
  \<open>yesRatio = 1.5\<close>, outside [0,1].
\<close>

theorem C7_ratio_counterexample:
  "tradeCount (getTradeMomentum zeroSizeTracker 60000 100000) = 1 \<and>
   yesRatio (getTradeMomentum zeroSizeTracker 60000 100000) = 0.5 \<and>
   bullishVolume (recentTrades zeroSizeTracker 60000 100000)
     + bearishVolume (recentTrades zeroSizeTracker 60000 100000) = 0 \<and>
   yesRatio (getTradeMomentum zeroSizeTracker 60000 100000)
     \<noteq> bullishVolume (recentTrades zeroSizeTracker 60000 100000)
       / (bullishVolume (recentTrades zeroSizeTracker 60000 100000)
          + bearishVolume (recentTrades zeroSizeTracker 60000 100000)) \<and>
   yesRatio (getTradeMomentum negativeSizeTracker 60000 100000) = 1.5"
  by (simp add: getTradeMomentum_def recentTrades_def trackerWithHistory_def exampleHistory_def
      zeroSizeTracker_def negativeSizeTracker_def
      addVolume_def bullishVolume_def bearishVolume_def isBullish_def Let_def)

text \<open>
  Claim C7 as amended.  Over the trades whose timestamp is later than \<open>now - lookbackMs\<close>,
  \<open>tradeCount\<close> is their number and \<open>totalVolume\<close> is bullish plus bearish volume, where a
  BUY on "yes" or a SELL on "no" is bullish and the inverse bearish.  \<open>yesRatio\<close> is
  bullish volume over total volume when the total is positive, and 0.5 when it is not, in
  particular when there is no trade in the window.  If no trade in the window has a
  negative volume, \<open>yesRatio\<close> lies in [0,1].
\<close>

theorem C7_trade_momentum:
  "tradeCount (getTradeMomentum t lookbackMs now) = length (recentTrades t lookbackMs now) \<and>
   totalVolume (getTradeMomentum t lookbackMs now)
     = bullishVolume (recentTrades t lookbackMs now) + bearishVolume (recentTrades t lookbackMs now) \<and>
   (bullishVolume (recentTrades t lookbackMs now) + bearishVolume (recentTrades t lookbackMs now) > 0 \<longrightarrow>
      yesRatio (getTradeMomentum t lookbackMs now)
        = bullishVolume (recentTrades t lookbackMs now)
          / (bullishVolume (recentTrades t lookbackMs now)
             + bearishVolume (recentTrades t lookbackMs now))) \<and>
   (bullishVolume (recentTrades t lookbackMs now) + bearishVolume (recentTrades t lookbackMs now) \<le> 0 \<longrightarrow>
      yesRatio (getTradeMomentum t lookbackMs now) = 0.5) \<and>
   (tradeCount (getTradeMomentum t lookbackMs now) = 0 \<longrightarrow>
      yesRatio (getTradeMomentum t lookbackMs now) = 0.5) \<and>
   (list_all (\<lambda>h. 0 \<le> th_volume h) (recentTrades t lookbackMs now) \<longrightarrow>
      0 \<le> yesRatio (getTradeMomentum t lookbackMs now) \<and>
      yesRatio (getTradeMomentum t lookbackMs now) \<le> 1)"
proof -
  let ?r = "recentTrades t lookbackMs now"
  have nn: "list_all (\<lambda>h. 0 \<le> th_volume h) ?r \<Longrightarrow>
      0 < bullishVolume ?r + bearishVolume ?r \<Longrightarrow>
      0 \<le> bullishVolume ?r / (bullishVolume ?r + bearishVolume ?r) \<and>
      bullishVolume ?r / (bullishVolume ?r + bearishVolume ?r) \<le> 1"
    using ratio_range [OF bullishVolume_nonneg bearishVolume_nonneg] by blast
  have empty: "length ?r = 0 \<Longrightarrow> bullishVolume ?r + bearishVolume ?r = 0"
    by (simp add: bullishVolume_def bearishVolume_def)
  show ?thesis
    using nn empty by (auto simp add: getTradeMomentum_eq Let_def)
qed

text \<open>
  Instances of the amended claim C7: three trades in the window (bullish volume 8 of a
  total of 10), the same trades outside a window of ten seconds, and one trade of size 0.
\<close>

theorem C7_momentum_window_example:
  "yesRatio (getTradeMomentum threeTradesTracker 60000 100000) = 0.8 \<and>
   totalVolume (getTradeMomentum threeTradesTracker 60000 100000) = 10 \<and>
   tradeCount (getTradeMomentum threeTradesTracker 60000 100000) = 3 \<and>
   yesRatio (getTradeMomentum threeTradesTracker 10000 100000) = 0.5 \<and>
   totalVolume (getTradeMomentum threeTradesTracker 10000 100000) = 0 \<and>
   tradeCount (getTradeMomentum threeTradesTracker 10000 100000) = 0 \<and>
   yesRatio (getTradeMomentum zeroSizeTracker 60000 100000) = 0.5 \<and>
   totalVolume (getTradeMomentum zeroSizeTracker 60000 100000) = 0 \<and>
   tradeCount (getTradeMomentum zeroSizeTracker 60000 100000) = 1"
proof -
  have r1: "recentTrades threeTradesTracker 60000 100000 =
      [exampleHistory Yes BUY 0.6 10, exampleHistory No BUY 0.4 5, exampleHistory No SELL 0.5 4]"
    by (simp add: recentTrades_def threeTradesTracker_def trackerWithHistory_def
        exampleHistory_def)
  have r2: "recentTrades threeTradesTracker 10000 100000 = []"
    by (simp add: recentTrades_def threeTradesTracker_def trackerWithHistory_def
        exampleHistory_def)
  have r3: "recentTrades zeroSizeTracker 60000 100000 = [exampleHistory Yes BUY 0.5 0]"
    by (simp add: recentTrades_def zeroSizeTracker_def trackerWithHistory_def
        exampleHistory_def)
  have v: "bullishVolume (recentTrades threeTradesTracker 60000 100000) = 8"
      "bearishVolume (recentTrades threeTradesTracker 60000 100000) = 2"
      "bullishVolume (recentTrades zeroSizeTracker 60000 100000) = 0"
      "bearishVolume (recentTrades zeroSizeTracker 60000 100000) = 0"
      "bullishVolume (recentTrades threeTradesTracker 10000 100000) = 0"
      "bearishVolume (recentTrades threeTradesTracker 10000 100000) = 0"
    unfolding r1 r2 r3
    by (simp_all add: bullishVolume_def bearishVolume_def isBullish_def exampleHistory_def)
  have l: "length (recentTrades threeTradesTracker 60000 100000) = 3"
      "length (recentTrades threeTradesTracker 10000 100000) = 0"
      "length (recentTrades zeroSizeTracker 60000 100000) = 1"
    unfolding r1 r2 r3 by simp_all
  show ?thesis
    using C7_trade_momentum [of threeTradesTracker 60000 100000]
      C7_trade_momentum [of threeTradesTracker 10000 100000]
      C7_trade_momentum [of zeroSizeTracker 60000 100000]
    by (simp add: v l)
qed

subsection \<open>The depth of the order book\<close>

lemma foldl_add_sizes:
  "foldl (\<lambda>sum lv. sum + lv_size lv) a lvs = a + (\<Sum>lv\<leftarrow>lvs. lv_size lv)"
  by (induction lvs arbitrary: a) (simp_all add: add.assoc)

lemma calculateDepth_depths:
  "bidDepth (calculateDepth (Some b) 10) = firstTenDepth (bids b)"
  "askDepth (calculateDepth (Some b) 10) = firstTenDepth (asks b)"
  "bidDepth (calculateDepth None 10) = 0"
  "askDepth (calculateDepth None 10) = 0"
  by (simp_all add: calculateDepth_def Let_def foldl_add_sizes firstTenDepth_def)

lemma bidRatio_bidShare:
  "bidDepth (calculateDepth book 10)
     / orOne (bidDepth (calculateDepth book 10) + askDepth (calculateDepth book 10))
   = bidShare book"
  by (cases book) (simp_all add: calculateDepth_depths orOne_def bidShare_def)

lemma firstTenDepth_nonneg:
  "list_all (\<lambda>lv. 0 \<le> lv_size lv) (take 10 lvs) \<Longrightarrow> 0 \<le> firstTenDepth lvs"
  unfolding firstTenDepth_def by (rule sum_list_nonneg) (auto simp: list_all_iff)

lemma bidShare_range:
  assumes "nonnegSizes book"
  shows "0 \<le> bidShare book \<and> bidShare book \<le> 1"
proof (cases book)
  case None
  then show ?thesis by (simp add: bidShare_def)
next
  case (Some b)
  have bd: "0 \<le> firstTenDepth (bids b)" and ad: "0 \<le> firstTenDepth (asks b)"
    using assms Some by (simp_all add: nonnegSizes_def firstTenDepth_nonneg)
  show ?thesis
  proof (cases "firstTenDepth (bids b) + firstTenDepth (asks b) = 0")
    case True
    with bd ad have "firstTenDepth (bids b) = 0" by linarith
    with True Some show ?thesis by (simp add: bidShare_def)
  next
    case False
    with bd ad have "0 < firstTenDepth (bids b) + firstTenDepth (asks b)" by linarith
    with bd ad False Some show ?thesis by (simp add: bidShare_def divide_le_eq)
  qed
qed

lemma getOrderbookAnalysis_Some:
  assumes "getOrderbookAnalysis t = Some d"
  shows "\<exists>st. marketState t = Some st \<and>
              imbalance d = bidShare (orderbook_yes st) - bidShare (orderbook_no st)"
proof (cases "marketState t")
  case None
  with assms show ?thesis by (simp add: getOrderbookAnalysis_def)
next
  case (Some st)
  with assms have "imbalance d = bidShare (orderbook_yes st) - bidShare (orderbook_no st)"
    by (auto simp add: getOrderbookAnalysis_def Let_def bidRatio_bidShare split: if_splits)
  with Some show ?thesis by simp
qed

text \<open>
  What \<^verbatim>\<open>getOrderbookAnalysis\<close> computes for every tracker state: none when there is no
  market state or no book for either side; otherwise the imbalance is the difference of
  the bid shares over the first ten stored entries of each side, and it lies in [-1,1]
  when none of these entries has a negative size.
\<close>

lemma getOrderbookAnalysis_imbalance:
  "(marketState t = None \<longrightarrow> getOrderbookAnalysis t = None) \<and>
   (\<forall>st. marketState t = Some st \<and> orderbook_yes st = None \<and> orderbook_no st = None \<longrightarrow>
      getOrderbookAnalysis t = None) \<and>
   (\<forall>d. getOrderbookAnalysis t = Some d \<longrightarrow>
      (\<exists>st. marketState t = Some st \<and>
            imbalance d = bidShare (orderbook_yes st) - bidShare (orderbook_no st) \<and>
            (nonnegSizes (orderbook_yes st) \<and> nonnegSizes (orderbook_no st) \<longrightarrow>
               - 1 \<le> imbalance d \<and> imbalance d \<le> 1)))"
proof (intro conjI allI impI)
  assume "marketState t = None"
  then show "getOrderbookAnalysis t = None" by (simp add: getOrderbookAnalysis_def)
next
  fix st
  assume "marketState t = Some st \<and> orderbook_yes st = None \<and> orderbook_no st = None"
  then show "getOrderbookAnalysis t = None" by (simp add: getOrderbookAnalysis_def)
next
  fix d
  assume "getOrderbookAnalysis t = Some d"
  from getOrderbookAnalysis_Some [OF this] obtain st where
    st: "marketState t = Some st"
    and im: "imbalance d = bidShare (orderbook_yes st) - bidShare (orderbook_no st)"
    by blast
  have "nonnegSizes (orderbook_yes st) \<and> nonnegSizes (orderbook_no st) \<longrightarrow>
          - 1 \<le> imbalance d \<and> imbalance d \<le> 1"
  proof
    assume nn: "nonnegSizes (orderbook_yes st) \<and> nonnegSizes (orderbook_no st)"
    have "0 \<le> bidShare (orderbook_yes st) \<and> bidShare (orderbook_yes st) \<le> 1"
      using nn by (simp add: bidShare_range)
    moreover have "0 \<le> bidShare (orderbook_no st) \<and> bidShare (orderbook_no st) \<le> 1"
      using nn by (simp add: bidShare_range)
    ultimately show "- 1 \<le> imbalance d \<and> imbalance d \<le> 1"
      unfolding im by linarith
  qed
  with st im show "\<exists>st. marketState t = Some st \<and>
            imbalance d = bidShare (orderbook_yes st) - bidShare (orderbook_no st) \<and>
            (nonnegSizes (orderbook_yes st) \<and> nonnegSizes (orderbook_no st) \<longrightarrow>
               - 1 \<le> imbalance d \<and> imbalance d \<le> 1)"
    by blast
qed

lemma feedBook_best:
  "map lv_price (bestBidLevels 10 (bids feedBook))
     = [0.12, 0.11, 0.10, 0.09, 0.08, 0.07, 0.06, 0.05, 0.04, 0.03]"
  "map lv_price (bestAskLevels 10 (asks feedBook))
     = [0.13, 0.14, 0.90, 0.91, 0.92, 0.93, 0.94, 0.95, 0.96, 0.97]"
  "levelsDepth (bestBidLevels 10 (bids feedBook)) = 875"
  "levelsDepth (bestAskLevels 10 (asks feedBook)) = 860"
  by (simp_all add: bestBidLevels_def bestAskLevels_def levelsDepth_def feedBook_def exampleBook_def)

text \<open>
  Claim C8 does not hold of the code.  \<^verbatim>\<open>calculateDepth\<close> takes the first ten entries of
  each side as the book stores them and calls them \<^verbatim>\<open>topBids\<close> and \<^verbatim>\<open>topAsks\<close>, and the
  first of them \<^verbatim>\<open>bestBid\<close> and \<^verbatim>\<open>bestAsk\<close>; nothing sorts the book.  On a book in the
  order of the market feed, with the best levels last, these are the ten worst levels of
  each side: for the "yes" book of the example the analysis reports a bid depth of 20800,
  an ask depth of 16660, a best bid of 0.01, a best ask of 0.99, a spread of 0.98 and an
  imbalance of 1040 / 1873 (about 0.56), while the ten best bids (0.12 down to 0.03) hold
  875, the ten best asks (0.13 up to 0.97) hold 860, and the bid share over them is
  175 / 347 (about 0.50).  Sizes are not validated either: a book with a bid of size 3
  and an ask of size -1 gives the imbalance 1.5, outside [-1,1].
\<close>

theorem C8_worst_levels_summed:
  "getOrderbookAnalysis (trackerWithBooks (Some feedBook) None)
     = Some \<lparr>yesBidDepth = 20800, yesAskDepth = 16660, noBidDepth = 0, noAskDepth = 0,
             yesSpread = 0.98, noSpread = 1, imbalance = 1040 / 1873,
             yesBestBid = 0.01, yesBestAsk = 0.99, noBestBid = 0, noBestAsk = 1\<rparr> \<and>
   map lv_price (bestBidLevels 10 (bids feedBook))
     = [0.12, 0.11, 0.10, 0.09, 0.08, 0.07, 0.06, 0.05, 0.04, 0.03] \<and>
   map lv_price (bestAskLevels 10 (asks feedBook))
     = [0.13, 0.14, 0.90, 0.91, 0.92, 0.93, 0.94, 0.95, 0.96, 0.97] \<and>
   levelsDepth (bestBidLevels 10 (bids feedBook)) = 875 \<and>
   levelsDepth (bestAskLevels 10 (asks feedBook)) = 860 \<and>
   bestLevelsBidShare feedBook = 175 / 347 \<and>
   map_option imbalance (getOrderbookAnalysis (trackerWithBooks (Some negativeAskBook) None))
     = Some 1.5"
proof -
  have a: "getOrderbookAnalysis (trackerWithBooks (Some feedBook) None)
     = Some \<lparr>yesBidDepth = 20800, yesAskDepth = 16660, noBidDepth = 0, noAskDepth = 0,
             yesSpread = 0.98, noSpread = 1, imbalance = 1040 / 1873,
             yesBestBid = 0.01, yesBestAsk = 0.99, noBestBid = 0, noBestAsk = 1\<rparr>"
    by (simp add: getOrderbookAnalysis_def trackerWithBooks_def feedBook_def exampleBook_def
        calculateDepth_def orOne_def Let_def)
  have b: "bestLevelsBidShare feedBook = 175 / 347"
    unfolding bestLevelsBidShare_def feedBook_best by simp
  have c: "map_option imbalance (getOrderbookAnalysis (trackerWithBooks (Some negativeAskBook) None))
     = Some 1.5"
    by (simp add: getOrderbookAnalysis_def trackerWithBooks_def negativeAskBook_def exampleBook_def
        calculateDepth_def orOne_def Let_def)
  show ?thesis using a b c feedBook_best by blast
qed

subsection \<open>The trade history\<close>

lemma handleTrade_length:
  "length (tradeHistory t) \<le> maxTradeHistory \<Longrightarrow>
   length (tradeHistory (handleTrade t trade)) \<le> maxTradeHistory"
  by (auto simp add: handleTrade_def Let_def split: option.splits)

lemma handleTrade_run_length:
  "length (tradeHistory t) \<le> maxTradeHistory \<Longrightarrow>
   length (tradeHistory (foldl handleTrade t evs)) \<le> maxTradeHistory"
  by (induction evs arbitrary: t) (simp_all add: handleTrade_length)

lemma empty_history_within_capacity:
  "length (tradeHistory newTracker) \<le> maxTradeHistory"
  "length (tradeHistory (clearTradeHistory t)) \<le> maxTradeHistory"
  "length (tradeHistory (resetTracker t)) \<le> maxTradeHistory"
  by (simp_all add: newTracker_def clearTradeHistory_def resetTracker_def)

lemma handleTrade_full:
  assumes "currentMarket t = Some m" and "tradeForMarket m trade"
    and "length (tradeHistory t) = maxTradeHistory"
  shows "tradeHistory (handleTrade t trade) = tl (tradeHistory t) @ [tradeRecord m trade]"
proof -
  have "tradeHistory t \<noteq> []" using assms(3) by (auto simp add: maxTradeHistory_def)
  then show ?thesis
    using assms by (auto simp add: handleTrade_def Let_def tradeForMarket_def)
qed

text \<open>
  Claim C9.  The capacity of the trade history is 100.  From any tracker state whose
  history is within the capacity, every sequence of trade events leaves it within the
  capacity; and when a trade for the current market arrives while the history is full, the
  new history is the old one without its first (oldest) entry, followed by the new entry.
\<close>

theorem C9_trade_history_bounded:
  assumes "length (tradeHistory t) \<le> maxTradeHistory"
  shows "maxTradeHistory = 100 \<and>
         length (tradeHistory (foldl handleTrade t evs)) \<le> maxTradeHistory \<and>
         (\<forall>m. currentMarket t = Some m \<and> tradeForMarket m trade \<and>
               length (tradeHistory t) = maxTradeHistory \<longrightarrow>
               tradeHistory (handleTrade t trade) = tl (tradeHistory t) @ [tradeRecord m trade])"
  using assms
  by (simp add: handleTrade_run_length handleTrade_full) (simp add: maxTradeHistory_def)

text \<open>
  An instance of claim C9: a full history of 100 entries whose oldest entry is a "yes"
  trade of size 1; the next trade evicts exactly that entry.
\<close>

theorem C9_eviction_example:
  "length (tradeHistory fullTracker) = 100 \<and>
   hd (tradeHistory fullTracker) = tradeRecord exampleMarket (exampleTrade ''tok-yes'' 1 10) \<and>
   tradeHistory (handleTrade fullTracker (exampleTrade ''tok-yes'' 3 30))
     = replicate 99 (tradeRecord exampleMarket (exampleTrade ''tok-no'' 2 20))
       @ [tradeRecord exampleMarket (exampleTrade ''tok-yes'' 3 30)] \<and>
   length (tradeHistory (foldl handleTrade fullTracker
       [exampleTrade ''tok-yes'' 3 30, exampleTrade ''tok-other'' 4 40, exampleTrade ''tok-no'' 5 50]))
     \<le> 100"
proof -
  have len: "length (tradeHistory fullTracker) = maxTradeHistory"
    by (simp add: fullTracker_def maxTradeHistory_def)
  have h: "length (tradeHistory fullTracker) \<le> maxTradeHistory" using len by simp
  have m: "currentMarket fullTracker = Some exampleMarket" by (simp add: fullTracker_def)
  have f: "tradeForMarket exampleMarket (exampleTrade ''tok-yes'' 3 30)"
    by (simp add: tradeForMarket_def exampleMarket_def exampleTrade_def)
  have tlh: "tl (tradeHistory fullTracker)
               = replicate 99 (tradeRecord exampleMarket (exampleTrade ''tok-no'' 2 20))"
    by (simp add: fullTracker_def)
  show ?thesis
    using C9_trade_history_bounded [OF h, of
        "[exampleTrade ''tok-yes'' 3 30, exampleTrade ''tok-other'' 4 40, exampleTrade ''tok-no'' 5 50]"
        "exampleTrade ''tok-yes'' 3 30"] len m f tlh
    by (simp add: fullTracker_def)
qed

section \<open>Properties of the reconnect logic\<close>

lemma attemptReconnect_exhausted:
  "reconnectAttempts c \<ge> maxReconnectAttempts \<Longrightarrow>
   attemptReconnect c = (c, [ConsoleError ''[Polymarket WS] Max reconnect attempts reached''])"
  by (simp add: attemptReconnect_def)

lemma onClose_exhausted:
  "reconnectAttempts c \<ge> maxReconnectAttempts \<Longrightarrow>
   onClose c = (stopPing c,
     [ConsoleLog ''[Polymarket WS] Connection closed'', Emit EvDisconnected,
      ConsoleError ''[Polymarket WS] Max reconnect attempts reached''])"
  by (simp add: onClose_def Let_def attemptReconnect_def stopPing_def)

lemma stopPing_attempts: "reconnectAttempts (stopPing c) = reconnectAttempts c"
  by (simp add: stopPing_def)

lemma onClose_no_error_event: "\<not> list_ex isErrorEvent (snd (onClose c))"
  by (simp add: onClose_def Let_def attemptReconnect_def isErrorEvent_def)

lemma closeRun_no_error_event: "\<not> list_ex isErrorEvent (snd (closeRun n c))"
  by (induction n arbitrary: c) (simp_all add: Let_def onClose_no_error_event)

lemma closeRun_exhausted:
  "reconnectAttempts c \<ge> maxReconnectAttempts \<Longrightarrow>
   \<not> list_ex isReconnect (snd (closeRun n c)) \<and>
   reconnectAttempts (fst (closeRun n c)) = reconnectAttempts c"
proof (induction n arbitrary: c)
  case 0
  show ?case by simp
next
  case (Suc n)
  have a: "reconnectAttempts (stopPing c) \<ge> maxReconnectAttempts"
    using Suc.prems by (simp add: stopPing_attempts)
  show ?case
    using Suc.IH [OF a] Suc.prems
    by (simp add: Let_def onClose_exhausted isReconnect_def stopPing_attempts)
qed

lemma closeRun_reconnect_count:
  "length (filter isReconnect (snd (closeRun n c)))
     = min n (maxReconnectAttempts - reconnectAttempts c)"
proof (induction n arbitrary: c)
  case 0
  show ?case by simp
next
  case (Suc n)
  show ?case
  proof (cases "reconnectAttempts c \<ge> maxReconnectAttempts")
    case True
    then show ?thesis
      using Suc.IH [of "stopPing c"]
      by (simp add: Let_def onClose_exhausted isReconnect_def stopPing_attempts)
  next
    case False
    then show ?thesis
      using Suc.IH [of "(stopPing c)\<lparr>reconnectAttempts := reconnectAttempts c + 1\<rparr>"]
      by (simp add: Let_def onClose_def attemptReconnect_def isReconnect_def stopPing_attempts)
  qed
qed

text \<open>
  Claim C5 fails as stated.  With the attempt counter at the ceiling 5, \<^verbatim>\<open>attemptReconnect\<close>
  writes one line to the console error log and returns: no event is emitted.  The whole
  close handler emits the \<^verbatim>\<open>disconnected\<close> event and no \<^verbatim>\<open>error\<close> event.
\<close>

theorem C5_exhaustion_only_logged:
  "reconnectAttempts (exampleClient 5) = maxReconnectAttempts \<and>
   snd (attemptReconnect (exampleClient 5))
     = [ConsoleError ''[Polymarket WS] Max reconnect attempts reached''] \<and>
   snd (onClose (exampleClient 5))
     = [ConsoleLog ''[Polymarket WS] Connection closed'', Emit EvDisconnected,
        ConsoleError ''[Polymarket WS] Max reconnect attempts reached''] \<and>
   \<not> list_ex isErrorEvent (snd (onClose (exampleClient 5)))"
  by (simp add: exampleClient_def maxReconnectAttempts_def attemptReconnect_def onClose_def
      stopPing_def isErrorEvent_def Let_def)

text \<open>
  Claim C5 as amended.  Once the attempt counter has reached the ceiling,
  \<^verbatim>\<open>attemptReconnect\<close> leaves the client as it is and only logs the exhaustion to the
  console; the close handler emits \<^verbatim>\<open>disconnected\<close> and nothing else; and in every
  further run of close events no reconnect is scheduled, no \<^verbatim>\<open>error\<close> event is emitted and
  the counter stays where it is.
\<close>

theorem C5_reconnect_exhaustion:
  assumes "reconnectAttempts c \<ge> maxReconnectAttempts"
  shows "attemptReconnect c = (c, [ConsoleError ''[Polymarket WS] Max reconnect attempts reached'']) \<and>
         snd (onClose c) = [ConsoleLog ''[Polymarket WS] Connection closed'', Emit EvDisconnected,
                            ConsoleError ''[Polymarket WS] Max reconnect attempts reached''] \<and>
         \<not> list_ex isReconnect (snd (closeRun n c)) \<and>
         \<not> list_ex isErrorEvent (snd (closeRun n c)) \<and>
         reconnectAttempts (fst (closeRun n c)) = reconnectAttempts c"
  using assms
  by (simp add: attemptReconnect_exhausted onClose_exhausted closeRun_exhausted
      closeRun_no_error_event)

text \<open>An instance of the amended claim C5: a client with five attempts behind it.\<close>

theorem C5_exhausted_client_example:
  "maxReconnectAttempts \<le> reconnectAttempts (exampleClient 5) \<and>
   attemptReconnect (exampleClient 5)
     = (exampleClient 5, [ConsoleError ''[Polymarket WS] Max reconnect attempts reached'']) \<and>
   \<not> list_ex isReconnect (snd (closeRun 3 (exampleClient 5))) \<and>
   \<not> list_ex isErrorEvent (snd (closeRun 3 (exampleClient 5))) \<and>
   reconnectAttempts (fst (closeRun 3 (exampleClient 5))) = 5"
proof -
  have h: "maxReconnectAttempts \<le> reconnectAttempts (exampleClient 5)"
    by (simp add: exampleClient_def maxReconnectAttempts_def)
  have r: "reconnectAttempts (exampleClient 5) = 5" by (simp add: exampleClient_def)
  show ?thesis
    using h C5_reconnect_exhaustion [OF h, of 3] r by simp
qed

end

